theory Spec2Isabelle
  imports Complex_Main "HOL-Library.Word" "HOL-Library.Char_ord" "HOL-Library.List_Lexorder"
begin

section \<open>Slots of the shared asset table\<close>

text \<open>
  An \<open>SDL_Surface*\<close> or \<open>SDL_Texture*\<close> is modelled as an optional handle: \<open>None\<close> is
  \<open>nullptr\<close>. The structs \<open>ImageData\<close> (single_undistort.cpp, third translation unit) and
  \<open>StereoImageData\<close> (dual_main.cpp) become records with the fields of the source; the
  constructors give every handle \<open>nullptr\<close> and every flag \<open>false\<close>.
\<close>

type_synonym SDL_Surface = nat
type_synonym SDL_Texture = nat

record ImageData =
  texture :: "SDL_Texture option"
  surface :: "SDL_Surface option"
  filename :: string
  surfaceLoaded :: bool
  textureCreated :: bool

definition ImageData_ctor :: ImageData where
  "ImageData_ctor =
     \<lparr>texture = None, surface = None, filename = [], surfaceLoaded = False, textureCreated = False\<rparr>"

record StereoImageData =
  leftTexture :: "SDL_Texture option"
  leftSurface :: "SDL_Surface option"
  leftFilename :: string
  leftSurfaceLoaded :: bool
  leftTextureCreated :: bool
  rightTexture :: "SDL_Texture option"
  rightSurface :: "SDL_Surface option"
  rightFilename :: string
  rightSurfaceLoaded :: bool
  rightTextureCreated :: bool
  baseName :: string

definition StereoImageData_ctor :: StereoImageData where
  "StereoImageData_ctor =
     \<lparr>leftTexture = None, leftSurface = None, leftFilename = [],
      leftSurfaceLoaded = False, leftTextureCreated = False,
      rightTexture = None, rightSurface = None, rightFilename = [],
      rightSurfaceLoaded = False, rightTextureCreated = False, baseName = []\<rparr>"

section \<open>The outside world\<close>

text \<open>
  Library calls and the file system are parameters of the model. \<open>IMG_Load\<close> gives the
  surface a file name decodes to, or \<open>nullptr\<close>. \<open>SDL_CreateTextureFromSurface\<close> takes
  the state of the renderer (of any type \<open>'r\<close>) and a surface and returns a texture handle
  or \<open>nullptr\<close>, and the renderer afterwards. \<open>directory_iterator\<close> lists a directory
  (\<open>None\<close>: the iteration throws), \<open>fs_exists\<close> is \<open>std::filesystem::exists\<close>, and
  \<open>cin_getline\<close> is the line the operator types when asked whether to truncate.
\<close>

record dir_entry =
  is_regular_file :: bool
  path_string :: string
  path_stem :: string
  path_extension :: string

record 'r Env =
  directory_iterator :: "string \<Rightarrow> dir_entry list option"
  fs_exists :: "string \<Rightarrow> bool"
  cin_getline :: string
  IMG_Load :: "string \<Rightarrow> SDL_Surface option"
  SDL_CreateTextureFromSurface :: "'r \<Rightarrow> SDL_Surface \<Rightarrow> SDL_Texture option \<times> 'r"

section \<open>The viewer object\<close>

text \<open>
  \<open>FisheyeViewer\<close> and \<open>StereoFisheyeViewer\<close> have the same members but for the slot
  array (\<open>images\<close> in the first, \<open>stereoPairs\<close> in the second), which is the field \<open>slots\<close>
  here.

  A background thread is modelled by the place it has reached in
  \<open>backgroundLoadingFunction\<close>: at the test of \<open>while (running)\<close>, at the
  \<open>fetch_add\<close>, inside the call that loads the index it claimed, at the accounting
  after the loop, or returned. \<open>threadsCompleted\<close> is the function-local static counter.
\<close>

datatype loader = LoopTest | FetchAdd | Load nat | Finish | Returned

record ('slot, 'r) Viewer =
  renderer :: 'r
  slots :: "'slot list"
  currentIndex :: int
  windowWidth :: int
  windowHeight :: int
  running :: bool
  backgroundLoaders :: "loader list"
  backgroundLoadingComplete :: bool
  nextImageToLoad :: nat
  threadsCompleted :: nat

text \<open>The constructors: \<open>FisheyeViewer()\<close> opens 1280 by 720, \<open>StereoFisheyeViewer()\<close> 1600 by 800.\<close>

definition Viewer_ctor :: "'r \<Rightarrow> int \<Rightarrow> int \<Rightarrow> ('slot, 'r) Viewer" where
  "Viewer_ctor r w h =
     \<lparr>renderer = r, slots = [], currentIndex = 0, windowWidth = w, windowHeight = h,
      running = True, backgroundLoaders = [], backgroundLoadingComplete = False,
      nextImageToLoad = 0, threadsCompleted = 0\<rparr>"

definition FisheyeViewer_ctor :: "'r \<Rightarrow> (ImageData, 'r) Viewer" where
  "FisheyeViewer_ctor r = Viewer_ctor r 1280 720"

definition StereoFisheyeViewer_ctor :: "'r \<Rightarrow> (StereoImageData, 'r) Viewer" where
  "StereoFisheyeViewer_ctor r = Viewer_ctor r 1600 800"

definition INITIAL_LOAD_COUNT :: nat where
  "INITIAL_LOAD_COUNT = 10"

definition NUM_LOADING_THREADS :: nat where
  "NUM_LOADING_THREADS = 4"

text \<open>
  \<open>static_cast<int>(images.size())\<close>: \<open>int\<close> has 32 bits, so the conversion keeps the
  low 32 bits of the size and reads them as two's complement.
\<close>

definition static_cast_int :: "nat \<Rightarrow> int" where
  "static_cast_int n = sint (word_of_nat n :: 32 word)"

subsection \<open>Navigation\<close>

definition nextImage :: "('slot, 'r) Viewer \<Rightarrow> ('slot, 'r) Viewer" where
  "nextImage v =
     (if currentIndex v < static_cast_int (length (slots v)) - 1
      then v\<lparr>currentIndex := currentIndex v + 1\<rparr> else v)"

definition previousImage :: "('slot, 'r) Viewer \<Rightarrow> ('slot, 'r) Viewer" where
  "previousImage v =
     (if currentIndex v > 0 then v\<lparr>currentIndex := currentIndex v - 1\<rparr> else v)"

datatype SDL_Event =
  SDL_QUIT | SDLK_LEFT | SDLK_RIGHT | SDLK_ESCAPE | SDL_WINDOWEVENT_RESIZED int int | OtherEvent

fun handleEvent :: "SDL_Event \<Rightarrow> ('slot, 'r) Viewer \<Rightarrow> ('slot, 'r) Viewer" where
  "handleEvent SDL_QUIT v = v\<lparr>running := False\<rparr>"
| "handleEvent SDLK_LEFT v = previousImage v"
| "handleEvent SDLK_RIGHT v = nextImage v"
| "handleEvent SDLK_ESCAPE v = v\<lparr>running := False\<rparr>"
| "handleEvent (SDL_WINDOWEVENT_RESIZED w h) v = v\<lparr>windowWidth := w, windowHeight := h\<rparr>"
| "handleEvent OtherEvent v = v"

subsection \<open>Decoding a slot\<close>

text \<open>
  \<open>FisheyeViewer::loadSurfaceInBackground\<close>: the surface is stored and the flag set only
  when \<open>IMG_Load\<close> returns a surface; nothing is written otherwise.
\<close>

definition loadSurfaceInBackground :: "'r Env \<Rightarrow> nat \<Rightarrow> ImageData list \<Rightarrow> ImageData list" where
  "loadSurfaceInBackground env index images =
     (if index \<ge> length images then images
      else case IMG_Load env (filename (images ! index)) of
             None \<Rightarrow> images
           | Some s \<Rightarrow> images[index := (images ! index)\<lparr>surface := Some s, surfaceLoaded := True\<rparr>])"

text \<open>\<open>StereoFisheyeViewer::loadStereoPairInBackground\<close> of dual_main.cpp.\<close>

definition loadStereoPairInBackground ::
  "'r Env \<Rightarrow> nat \<Rightarrow> StereoImageData list \<Rightarrow> StereoImageData list" where
  "loadStereoPairInBackground env index stereoPairs =
     (if index \<ge> length stereoPairs then stereoPairs
      else
        let p = stereoPairs ! index;
            leftSurface' = IMG_Load env (leftFilename p);
            rightSurface' = IMG_Load env (rightFilename p);
            p1 = (case leftSurface' of None \<Rightarrow> p
                  | Some s \<Rightarrow> p\<lparr>leftSurface := Some s, leftSurfaceLoaded := True\<rparr>);
            p2 = (case rightSurface' of None \<Rightarrow> p1
                  | Some s \<Rightarrow> p1\<lparr>rightSurface := Some s, rightSurfaceLoaded := True\<rparr>)
        in stereoPairs[index := p2])"

subsection \<open>Materialization\<close>

text \<open>
  \<open>FisheyeViewer::ensureTextureCreated\<close>. The texture pointer is overwritten with what
  \<open>SDL_CreateTextureFromSurface\<close> returns, also when that is \<open>nullptr\<close>; the flag is set
  only for a texture.
\<close>

definition ensureTextureCreated ::
  "'r Env \<Rightarrow> nat \<Rightarrow> (ImageData, 'r) Viewer \<Rightarrow> (ImageData, 'r) Viewer" where
  "ensureTextureCreated env index v =
     (if index \<ge> length (slots v) then v
      else
        let img = slots v ! index in
        if surfaceLoaded img \<and> \<not> textureCreated img then
          (case surface img of
             None \<Rightarrow> v
           | Some s \<Rightarrow>
               let (tex, r') = SDL_CreateTextureFromSurface env (renderer v) s;
                   img' = img\<lparr>texture := tex\<rparr>;
                   img'' = (if tex \<noteq> None then img'\<lparr>textureCreated := True\<rparr> else img')
               in v\<lparr>renderer := r', slots := (slots v)[index := img'']\<rparr>)
        else v)"

text \<open>
  \<open>StereoFisheyeViewer::ensureStereoTexturesCreated\<close>: the block for the left eye, then
  the block for the right eye, each written as a function of its own.
\<close>

definition ensureLeftTexture ::
  "'r Env \<Rightarrow> nat \<Rightarrow> (StereoImageData, 'r) Viewer \<Rightarrow> (StereoImageData, 'r) Viewer" where
  "ensureLeftTexture env index v =
     (let p = slots v ! index in
      if leftSurfaceLoaded p \<and> \<not> leftTextureCreated p then
        (case leftSurface p of
           None \<Rightarrow> v
         | Some s \<Rightarrow>
             let (tex, r') = SDL_CreateTextureFromSurface env (renderer v) s;
                 p' = p\<lparr>leftTexture := tex\<rparr>;
                 p'' = (if tex \<noteq> None then p'\<lparr>leftTextureCreated := True\<rparr> else p')
             in v\<lparr>renderer := r', slots := (slots v)[index := p'']\<rparr>)
      else v)"

definition ensureRightTexture ::
  "'r Env \<Rightarrow> nat \<Rightarrow> (StereoImageData, 'r) Viewer \<Rightarrow> (StereoImageData, 'r) Viewer" where
  "ensureRightTexture env index v =
     (let p = slots v ! index in
      if rightSurfaceLoaded p \<and> \<not> rightTextureCreated p then
        (case rightSurface p of
           None \<Rightarrow> v
         | Some s \<Rightarrow>
             let (tex, r') = SDL_CreateTextureFromSurface env (renderer v) s;
                 p' = p\<lparr>rightTexture := tex\<rparr>;
                 p'' = (if tex \<noteq> None then p'\<lparr>rightTextureCreated := True\<rparr> else p')
             in v\<lparr>renderer := r', slots := (slots v)[index := p'']\<rparr>)
      else v)"

definition ensureStereoTexturesCreated ::
  "'r Env \<Rightarrow> nat \<Rightarrow> (StereoImageData, 'r) Viewer \<Rightarrow> (StereoImageData, 'r) Viewer" where
  "ensureStereoTexturesCreated env index v =
     (if index \<ge> length (slots v) then v
      else ensureRightTexture env index (ensureLeftTexture env index v))"

subsection \<open>The eager window\<close>

text \<open>
  \<open>FisheyeViewer::loadInitialImages\<close>: the body of the loop for one index, then the loop
  over the first \<open>min(INITIAL_LOAD_COUNT, images.size())\<close> indices and the assignment
  to the claim counter.
\<close>

definition loadInitialImage ::
  "'r Env \<Rightarrow> nat \<Rightarrow> (ImageData, 'r) Viewer \<Rightarrow> (ImageData, 'r) Viewer" where
  "loadInitialImage env i v =
     (case IMG_Load env (filename (slots v ! i)) of
        None \<Rightarrow> v
      | Some s \<Rightarrow>
          let img = (slots v ! i)\<lparr>surface := Some s, surfaceLoaded := True\<rparr>;
              (tex, r') = SDL_CreateTextureFromSurface env (renderer v) s;
              img' = img\<lparr>texture := tex\<rparr>;
              img'' = (if tex \<noteq> None then img'\<lparr>textureCreated := True\<rparr> else img')
          in v\<lparr>renderer := r', slots := (slots v)[i := img'']\<rparr>)"

definition loadInitialImages :: "'r Env \<Rightarrow> (ImageData, 'r) Viewer \<Rightarrow> (ImageData, 'r) Viewer" where
  "loadInitialImages env v =
     (let imageCount = length (slots v);
          initialCount = min INITIAL_LOAD_COUNT imageCount;
          v' = fold (loadInitialImage env) [0..<initialCount] v
      in v'\<lparr>nextImageToLoad := initialCount\<rparr>)"

text \<open>
  \<open>StereoFisheyeViewer::loadInitialStereoPairs\<close> of dual_main.cpp. Both files of a pair
  are decoded; then, under the lock, the left surface is stored and its texture made, and
  the same for the right. The two blocks are functions of their own.
\<close>

definition storeInitialLeft ::
  "'r Env \<Rightarrow> nat \<Rightarrow> (StereoImageData, 'r) Viewer \<Rightarrow> (StereoImageData, 'r) Viewer" where
  "storeInitialLeft env i v =
     (let p = slots v ! i in
      case IMG_Load env (leftFilename p) of
        None \<Rightarrow> v
      | Some s \<Rightarrow>
          let q = p\<lparr>leftSurface := Some s, leftSurfaceLoaded := True\<rparr>;
              (tex, r') = SDL_CreateTextureFromSurface env (renderer v) s;
              q' = q\<lparr>leftTexture := tex\<rparr>;
              q'' = (if tex \<noteq> None then q'\<lparr>leftTextureCreated := True\<rparr> else q')
          in v\<lparr>renderer := r', slots := (slots v)[i := q'']\<rparr>)"

definition storeInitialRight ::
  "'r Env \<Rightarrow> nat \<Rightarrow> (StereoImageData, 'r) Viewer \<Rightarrow> (StereoImageData, 'r) Viewer" where
  "storeInitialRight env i v =
     (let p = slots v ! i in
      case IMG_Load env (rightFilename p) of
        None \<Rightarrow> v
      | Some s \<Rightarrow>
          let q = p\<lparr>rightSurface := Some s, rightSurfaceLoaded := True\<rparr>;
              (tex, r') = SDL_CreateTextureFromSurface env (renderer v) s;
              q' = q\<lparr>rightTexture := tex\<rparr>;
              q'' = (if tex \<noteq> None then q'\<lparr>rightTextureCreated := True\<rparr> else q')
          in v\<lparr>renderer := r', slots := (slots v)[i := q'']\<rparr>)"

definition loadInitialStereoPair ::
  "'r Env \<Rightarrow> nat \<Rightarrow> (StereoImageData, 'r) Viewer \<Rightarrow> (StereoImageData, 'r) Viewer" where
  "loadInitialStereoPair env i v = storeInitialRight env i (storeInitialLeft env i v)"

definition loadInitialStereoPairs ::
  "'r Env \<Rightarrow> (StereoImageData, 'r) Viewer \<Rightarrow> (StereoImageData, 'r) Viewer" where
  "loadInitialStereoPairs env v =
     (let pairCount = length (slots v);
          initialCount = min INITIAL_LOAD_COUNT pairCount;
          v' = fold (loadInitialStereoPair env) [0..<initialCount] v
      in v'\<lparr>nextImageToLoad := initialCount\<rparr>)"

subsection \<open>The worker pool\<close>

text \<open>
  \<open>startBackgroundLoading\<close> is the same in both viewers: four threads when there are
  more slots than the eager window, none otherwise.
\<close>

definition startBackgroundLoading :: "('slot, 'r) Viewer \<Rightarrow> ('slot, 'r) Viewer" where
  "startBackgroundLoading v =
     (if length (slots v) > INITIAL_LOAD_COUNT
      then v\<lparr>backgroundLoaders := backgroundLoaders v @ replicate NUM_LOADING_THREADS LoopTest\<rparr>
      else v\<lparr>backgroundLoadingComplete := True\<rparr>)"

text \<open>
  One atomic action of thread \<open>t\<close> in \<open>backgroundLoadingFunction\<close>, which is the same in
  both viewers but for the function \<open>load\<close> it calls on the index it claimed
  (\<open>loadSurfaceInBackground\<close> or \<open>loadStereoPairInBackground\<close>). The actions are: the
  read of \<open>running\<close>; the \<open>fetch_add(1)\<close> on \<open>nextImageToLoad\<close> with the test against the
  slot count; the load, whose only write to shared data is made under \<open>imagesMutex\<close>;
  and the \<open>fetch_add\<close> on \<open>threadsCompleted\<close> after the loop. The counter is a
  \<open>size_t\<close>; each thread adds to it at most once after it has passed the slot count, so
  it stays below the slot count plus the number of threads and never wraps.
\<close>

definition loader_step ::
  "(nat \<Rightarrow> 'slot list \<Rightarrow> 'slot list) \<Rightarrow> nat \<Rightarrow> ('slot, 'r) Viewer \<Rightarrow> ('slot, 'r) Viewer" where
  "loader_step load t v =
     (if t \<ge> length (backgroundLoaders v) then v
      else case backgroundLoaders v ! t of
        LoopTest \<Rightarrow>
          v\<lparr>backgroundLoaders := (backgroundLoaders v)[t := (if running v then FetchAdd else Finish)]\<rparr>
      | FetchAdd \<Rightarrow>
          let claimed = nextImageToLoad v in
          v\<lparr>nextImageToLoad := nextImageToLoad v + 1,
            backgroundLoaders :=
              (backgroundLoaders v)[t := (if claimed \<ge> length (slots v) then Finish else Load claimed)]\<rparr>
      | Load i \<Rightarrow>
          v\<lparr>slots := load i (slots v), backgroundLoaders := (backgroundLoaders v)[t := LoopTest]\<rparr>
      | Finish \<Rightarrow>
          let completed = threadsCompleted v + 1 in
          v\<lparr>threadsCompleted := completed,
            backgroundLoadingComplete :=
              (if completed = NUM_LOADING_THREADS then True else backgroundLoadingComplete v),
            backgroundLoaders := (backgroundLoaders v)[t := Returned]\<rparr>
      | Returned \<Rightarrow> v)"

text \<open>
  \<open>render\<close>, as far as it changes the viewer: the materialization of the slot under the
  cursor (\<open>ensure\<close> is \<open>ensureTextureCreated\<close> or \<open>ensureStereoTexturesCreated\<close>). The
  drawing itself writes nothing the claims are about.
\<close>

definition render ::
  "(nat \<Rightarrow> ('slot, 'r) Viewer \<Rightarrow> ('slot, 'r) Viewer) \<Rightarrow> ('slot, 'r) Viewer \<Rightarrow> ('slot, 'r) Viewer" where
  "render ensure v =
     (if currentIndex v \<ge> 0 \<and> currentIndex v < static_cast_int (length (slots v))
      then ensure (nat (currentIndex v)) v else v)"

text \<open>
  A run of the program after start-up is a schedule: a list saying who acts next, a
  background thread (one atomic action), or the main thread, which handles one event or
  renders one frame. Every interleaving of the threads is some schedule.
\<close>

datatype event = Thread nat | Poll SDL_Event | Frame

fun step ::
  "(nat \<Rightarrow> 'slot list \<Rightarrow> 'slot list) \<Rightarrow> (nat \<Rightarrow> ('slot, 'r) Viewer \<Rightarrow> ('slot, 'r) Viewer) \<Rightarrow>
     event \<Rightarrow> ('slot, 'r) Viewer \<Rightarrow> ('slot, 'r) Viewer" where
  "step load ensure (Thread t) v = loader_step load t v"
| "step load ensure (Poll e) v = handleEvent e v"
| "step load ensure Frame v = render ensure v"

definition exec ::
  "(nat \<Rightarrow> 'slot list \<Rightarrow> 'slot list) \<Rightarrow> (nat \<Rightarrow> ('slot, 'r) Viewer \<Rightarrow> ('slot, 'r) Viewer) \<Rightarrow>
     event list \<Rightarrow> ('slot, 'r) Viewer \<Rightarrow> ('slot, 'r) Viewer" where
  "exec load ensure sched v = fold (step load ensure) sched v"

text \<open>
  The indices that threads hold (have claimed and are still loading), the pool's
  quiescence (the claim counter has reached the slot count and no thread holds an index),
  and the indices that the \<open>fetch_add\<close> actions of a schedule hand out, in order.
\<close>

fun held :: "loader list \<Rightarrow> nat list" where
  "held [] = []"
| "held (Load i # ps) = i # held ps"
| "held (p # ps) = held ps"

definition quiescent :: "('slot, 'r) Viewer \<Rightarrow> bool" where
  "quiescent v = (nextImageToLoad v \<ge> length (slots v) \<and> held (backgroundLoaders v) = [])"

fun claims ::
  "(nat \<Rightarrow> 'slot list \<Rightarrow> 'slot list) \<Rightarrow> (nat \<Rightarrow> ('slot, 'r) Viewer \<Rightarrow> ('slot, 'r) Viewer) \<Rightarrow>
     event list \<Rightarrow> ('slot, 'r) Viewer \<Rightarrow> (nat \<times> nat) list" where
  "claims load ensure [] v = []"
| "claims load ensure (Thread t # sched) v =
     (if t < length (backgroundLoaders v) \<and> backgroundLoaders v ! t = FetchAdd
         \<and> nextImageToLoad v < length (slots v)
      then [(t, nextImageToLoad v)] else [])
     @ claims load ensure sched (step load ensure (Thread t) v)"
| "claims load ensure (e # sched) v = claims load ensure sched (step load ensure e v)"

section \<open>Building the asset index\<close>

text \<open>
  The start of \<open>loadStereoPairs\<close> (dual_main.cpp): both directories are scanned into
  ordered sets of base names (\<open>std::set<std::string>\<close>, iterated in ascending order,
  which \<open>sorted_list_of_set\<close> gives); the names of the left set that the right set has
  are collected, sorted, and cut to 1000 when there are more and the operator answers 2.
  \<open>::tolower\<close> is the C locale's.
\<close>

definition tolower :: "char \<Rightarrow> char" where
  "tolower c = (if CHR ''A'' \<le> c \<and> c \<le> CHR ''Z'' then char_of (of_char c + (32::nat)) else c)"

definition is_image_file :: "dir_entry \<Rightarrow> bool" where
  "is_image_file entry =
     (is_regular_file entry \<and>
      (let extension = map tolower (path_extension entry)
       in extension = ''.jpg'' \<or> extension = ''.jpeg'' \<or> extension = ''.png''))"

definition scanBaseNames :: "dir_entry list \<Rightarrow> string set" where
  "scanBaseNames entries = set (map path_stem (filter is_image_file entries))"

definition findMatchingPairs :: "string set \<Rightarrow> string set \<Rightarrow> string list" where
  "findMatchingPairs leftBaseNames rightBaseNames =
     filter (\<lambda>leftName. leftName \<in> rightBaseNames) (sorted_list_of_set leftBaseNames)"

definition limitPairs :: "string \<Rightarrow> string list \<Rightarrow> string list" where
  "limitPairs choice matchingPairs =
     (if length matchingPairs > 1000 \<and> choice = ''2'' then take 1000 matchingPairs
      else matchingPairs)"

datatype load_error = DirectoryError | LeftDirectoryError | RightDirectoryError | NoImages | NoMatchingPairs

text \<open>
  The paired sequence: what \<open>loadStereoPairs\<close> computes from the two sets of base names
  before it builds the slots. The function returns \<open>false\<close> when no name matches.
\<close>

definition pairedSequence :: "string \<Rightarrow> string set \<Rightarrow> string set \<Rightarrow> load_error + string list" where
  "pairedSequence choice leftBaseNames rightBaseNames =
     (let matchingPairs = findMatchingPairs leftBaseNames rightBaseNames in
      if matchingPairs = [] then Inl NoMatchingPairs
      else Inr (limitPairs choice (sort matchingPairs)))"

text \<open>
  The paths of one pair: the \<open>.png\<close> names first, then the loop over the three
  extensions, which stops at the first one for which both files exist.
\<close>

fun probeExtensions ::
  "(string \<Rightarrow> bool) \<Rightarrow> string \<Rightarrow> string \<Rightarrow> string \<Rightarrow> string list \<Rightarrow> string \<times> string \<Rightarrow> string \<times> string" where
  "probeExtensions ex leftDir rightDir name [] current = current"
| "probeExtensions ex leftDir rightDir name (ext # exts) current =
     (let leftPath = leftDir @ ''/'' @ name @ ext;
          rightPath = rightDir @ ''/'' @ name @ ext
      in if ex leftPath \<and> ex rightPath then (leftPath, rightPath)
         else probeExtensions ex leftDir rightDir name exts current)"

definition pairFilenames :: "(string \<Rightarrow> bool) \<Rightarrow> string \<Rightarrow> string \<Rightarrow> string \<Rightarrow> string \<times> string" where
  "pairFilenames ex leftDir rightDir name =
     probeExtensions ex leftDir rightDir name [''.png'', ''.jpg'', ''.jpeg'']
       (leftDir @ ''/'' @ name @ ''.png'', rightDir @ ''/'' @ name @ ''.png'')"

definition newStereoPair :: "(string \<Rightarrow> bool) \<Rightarrow> string \<Rightarrow> string \<Rightarrow> string \<Rightarrow> StereoImageData" where
  "newStereoPair ex leftDir rightDir name =
     (let (l, r) = pairFilenames ex leftDir rightDir name
      in StereoImageData_ctor\<lparr>baseName := name, leftFilename := l, rightFilename := r\<rparr>)"

text \<open>
  The end of \<open>loadStereoPairs\<close>: the slot array is built from the paired sequence, the
  eager window is decoded and the pool is started.
\<close>

definition initializeStereoPairs ::
  "'r Env \<Rightarrow> string \<Rightarrow> string \<Rightarrow> string list \<Rightarrow> (StereoImageData, 'r) Viewer \<Rightarrow> (StereoImageData, 'r) Viewer" where
  "initializeStereoPairs env leftDir rightDir matchingPairs v =
     startBackgroundLoading
       (loadInitialStereoPairs env
          (v\<lparr>slots := map (newStereoPair (fs_exists env) leftDir rightDir) matchingPairs\<rparr>))"

definition loadStereoPairs ::
  "'r Env \<Rightarrow> string \<Rightarrow> string \<Rightarrow> (StereoImageData, 'r) Viewer \<Rightarrow> load_error + (StereoImageData, 'r) Viewer" where
  "loadStereoPairs env leftDir rightDir v =
     (case directory_iterator env leftDir of
        None \<Rightarrow> Inl LeftDirectoryError
      | Some leftEntries \<Rightarrow>
          (case directory_iterator env rightDir of
             None \<Rightarrow> Inl RightDirectoryError
           | Some rightEntries \<Rightarrow>
               (case pairedSequence (cin_getline env) (scanBaseNames leftEntries) (scanBaseNames rightEntries) of
                  Inl e \<Rightarrow> Inl e
                | Inr matchingPairs \<Rightarrow> Inr (initializeStereoPairs env leftDir rightDir matchingPairs v))))"

text \<open>\<open>FisheyeViewer::loadImageList\<close>, in the same two parts; the cap is 2000 files.\<close>

definition initializeImages ::
  "'r Env \<Rightarrow> string list \<Rightarrow> (ImageData, 'r) Viewer \<Rightarrow> (ImageData, 'r) Viewer" where
  "initializeImages env imageFiles v =
     startBackgroundLoading
       (loadInitialImages env (v\<lparr>slots := map (\<lambda>f. ImageData_ctor\<lparr>filename := f\<rparr>) imageFiles\<rparr>))"

definition loadImageList ::
  "'r Env \<Rightarrow> string \<Rightarrow> (ImageData, 'r) Viewer \<Rightarrow> load_error + (ImageData, 'r) Viewer" where
  "loadImageList env directory v =
     (case directory_iterator env directory of
        None \<Rightarrow> Inl DirectoryError
      | Some entries \<Rightarrow>
          let imageFiles = map path_string (filter is_image_file entries) in
          if imageFiles = [] then Inl NoImages
          else
            let sorted = sort imageFiles;
                limited = (if length sorted > 2000 \<and> cin_getline env = ''2''
                           then take 2000 sorted else sorted)
            in Inr (initializeImages env limited v))"

text \<open>Any number of distinct base names: a, aa, aaa, and so on.\<close>

definition many_names :: "nat \<Rightarrow> string list" where
  "many_names n = map (\<lambda>k. replicate (Suc k) CHR ''a'') [0..<n]"

section \<open>Predicates of the proofs and concrete inputs\<close>

text \<open>
  The invariants of the worker pool. \<open>holds ps i\<close>: some thread is loading index \<open>i\<close>.
  \<open>pool_inv K\<close>: the claim counter is at least \<open>K\<close> (the eager window), and an index a
  thread holds is at least \<open>K\<close>, below the counter and the slot count, and held by no
  other thread. \<open>slot_inv K U P\<close>: a slot of the eager window, or one below the counter
  that no thread holds, satisfies \<open>P\<close> (its decode was carried out); every other slot
  satisfies \<open>U\<close> (it is untouched). \<open>decodes\<close> and \<open>materializes\<close> say what the proofs
  need of the function that loads an index and of the function that materializes one.
\<close>

definition holds :: "loader list \<Rightarrow> nat \<Rightarrow> bool" where
  "holds ps i = (\<exists>t<length ps. ps ! t = Load i)"

definition pool_inv :: "nat \<Rightarrow> ('slot, 'r) Viewer \<Rightarrow> bool" where
  "pool_inv K v =
     (K \<le> nextImageToLoad v \<and>
      (\<forall>t<length (backgroundLoaders v). \<forall>i. backgroundLoaders v ! t = Load i \<longrightarrow>
         K \<le> i \<and> i < nextImageToLoad v \<and> i < length (slots v) \<and>
         (\<forall>t'<length (backgroundLoaders v). t' \<noteq> t \<longrightarrow> backgroundLoaders v ! t' \<noteq> Load i)))"

definition slot_inv ::
  "nat \<Rightarrow> (nat \<Rightarrow> 'slot \<Rightarrow> bool) \<Rightarrow> (nat \<Rightarrow> 'slot \<Rightarrow> bool) \<Rightarrow> ('slot, 'r) Viewer \<Rightarrow> bool" where
  "slot_inv K U P v =
     (\<forall>i<length (slots v).
        if i < K \<or> (i < nextImageToLoad v \<and> \<not> holds (backgroundLoaders v) i)
        then P i (slots v ! i) else U i (slots v ! i))"

definition decodes ::
  "(nat \<Rightarrow> 'slot list \<Rightarrow> 'slot list) \<Rightarrow> (nat \<Rightarrow> 'slot \<Rightarrow> bool) \<Rightarrow> (nat \<Rightarrow> 'slot \<Rightarrow> bool) \<Rightarrow> bool" where
  "decodes load U P =
     ((\<forall>i xs. length (load i xs) = length xs) \<and>
      (\<forall>i j xs. j \<noteq> i \<longrightarrow> load i xs ! j = xs ! j) \<and>
      (\<forall>i xs. i < length xs \<longrightarrow> U i (xs ! i) \<longrightarrow> P i (load i xs ! i)))"

definition materializes ::
  "(nat \<Rightarrow> ('slot, 'r) Viewer \<Rightarrow> ('slot, 'r) Viewer) \<Rightarrow> (nat \<Rightarrow> 'slot \<Rightarrow> bool) \<Rightarrow> (nat \<Rightarrow> 'slot \<Rightarrow> bool) \<Rightarrow> bool" where
  "materializes ensure U P =
     (\<forall>j v. nextImageToLoad (ensure j v) = nextImageToLoad v \<and>
            backgroundLoaders (ensure j v) = backgroundLoaders v \<and>
            length (slots (ensure j v)) = length (slots v) \<and>
            (\<forall>i<length (slots v).
               (U i (slots v ! i) \<longrightarrow> U i (slots (ensure j v) ! i)) \<and>
               (P i (slots v ! i) \<longrightarrow> P i (slots (ensure j v) ! i))))"


definition untouched_image :: "string list \<Rightarrow> nat \<Rightarrow> ImageData \<Rightarrow> bool" where
  "untouched_image files i s = (s = ImageData_ctor\<lparr>filename := files ! i\<rparr>)"

definition decoded_image :: "'r Env \<Rightarrow> string list \<Rightarrow> nat \<Rightarrow> ImageData \<Rightarrow> bool" where
  "decoded_image env files i s =
     (filename s = files ! i \<and> surface s = IMG_Load env (files ! i) \<and>
      surfaceLoaded s = (IMG_Load env (files ! i) \<noteq> None) \<and>
      (IMG_Load env (files ! i) = None \<longrightarrow> texture s = None \<and> \<not> textureCreated s))"

definition untouched_pair :: "StereoImageData list \<Rightarrow> nat \<Rightarrow> StereoImageData \<Rightarrow> bool" where
  "untouched_pair init i s =
     (s = StereoImageData_ctor\<lparr>baseName := baseName (init ! i),
            leftFilename := leftFilename (init ! i), rightFilename := rightFilename (init ! i)\<rparr>)"

definition decoded_pair :: "'r Env \<Rightarrow> StereoImageData list \<Rightarrow> nat \<Rightarrow> StereoImageData \<Rightarrow> bool" where
  "decoded_pair env init i s =
     (baseName s = baseName (init ! i) \<and>
      leftFilename s = leftFilename (init ! i) \<and> rightFilename s = rightFilename (init ! i) \<and>
      leftSurface s = IMG_Load env (leftFilename (init ! i)) \<and>
      leftSurfaceLoaded s = (IMG_Load env (leftFilename (init ! i)) \<noteq> None) \<and>
      (IMG_Load env (leftFilename (init ! i)) = None \<longrightarrow> leftTexture s = None \<and> \<not> leftTextureCreated s) \<and>
      rightSurface s = IMG_Load env (rightFilename (init ! i)) \<and>
      rightSurfaceLoaded s = (IMG_Load env (rightFilename (init ! i)) \<noteq> None) \<and>
      (IMG_Load env (rightFilename (init ! i)) = None \<longrightarrow> rightTexture s = None \<and> \<not> rightTextureCreated s))"

definition left_decoded_pair :: "'r Env \<Rightarrow> StereoImageData list \<Rightarrow> nat \<Rightarrow> StereoImageData \<Rightarrow> bool" where
  "left_decoded_pair env init i s =
     (baseName s = baseName (init ! i) \<and>
      leftFilename s = leftFilename (init ! i) \<and> rightFilename s = rightFilename (init ! i) \<and>
      leftSurface s = IMG_Load env (leftFilename (init ! i)) \<and>
      leftSurfaceLoaded s = (IMG_Load env (leftFilename (init ! i)) \<noteq> None) \<and>
      (IMG_Load env (leftFilename (init ! i)) = None \<longrightarrow> leftTexture s = None \<and> \<not> leftTextureCreated s) \<and>
      rightSurface s = None \<and> \<not> rightSurfaceLoaded s \<and> rightTexture s = None \<and> \<not> rightTextureCreated s)"

text \<open>The cursor is inside the sequence.\<close>

definition in_bounds :: "('slot, 'r) Viewer \<Rightarrow> bool" where
  "in_bounds v = (0 \<le> currentIndex v \<and> currentIndex v < int (length (slots v)))"

text \<open>
  A small world to evaluate the model in: every file decodes (to a surface named by the
  length of its path) but the ones called \<open>bad\<close>, the renderer counts the textures it
  has made and names each by its number, every probed path exists, and the operator
  answers 2.
\<close>

definition demo_env :: "nat Env" where
  "demo_env =
     \<lparr>directory_iterator = (\<lambda>d. None),
      fs_exists = (\<lambda>p. True),
      cin_getline = ''2'',
      IMG_Load = (\<lambda>f. if f = ''bad.png'' \<or> f = ''L/bad.png'' \<or> f = ''R/bad.png'' then None else Some (length f)),
      SDL_CreateTextureFromSurface = (\<lambda>r s. (Some r, Suc r))\<rparr>"

definition demo_viewer :: "(ImageData, nat) Viewer" where
  "demo_viewer = initializeImages demo_env [''a.png'', ''bad.png'', ''c.png''] (FisheyeViewer_ctor 0)"

definition demo_stereo_viewer :: "(StereoImageData, nat) Viewer" where
  "demo_stereo_viewer = initializeStereoPairs demo_env ''L'' ''R'' [''b'', ''c''] (StereoFisheyeViewer_ctor 0)"

text \<open>
  The spec's decode status, read off what the program records. The source keeps no
  status field: a slot whose surface was stored has \<open>surfaceLoaded\<close> set, a slot whose
  index a thread holds is being decoded, and every other slot is as it was constructed.
  No write of the program records a failed load, so this reading never gives \<open>Failed\<close>.
\<close>

datatype DecodeStatus = Pending | Decoding | Decoded | Failed

definition decodeStatus :: "(ImageData, 'r) Viewer \<Rightarrow> nat \<Rightarrow> DecodeStatus" where
  "decodeStatus v i =
     (if surfaceLoaded (slots v ! i) then Decoded
      else if i \<in> set (held (backgroundLoaders v)) then Decoding
      else Pending)"

text \<open>
  Sequences long enough for the pool to start: twelve and twenty-five files, and twelve
  pairs. The file at index 10 does not decode in the small world.
\<close>

definition twelve_files :: "string list" where
  "twelve_files =
     [''00.png'', ''01.png'', ''02.png'', ''03.png'', ''04.png'', ''05.png'',
      ''06.png'', ''07.png'', ''08.png'', ''09.png'', ''bad.png'', ''11.png'']"

definition twenty_five_files :: "string list" where
  "twenty_five_files =
     [''00.png'', ''01.png'', ''02.png'', ''03.png'', ''04.png'', ''05.png'',
      ''06.png'', ''07.png'', ''08.png'', ''09.png'', ''bad.png'', ''11.png'',
      ''12.png'', ''13.png'', ''14.png'', ''15.png'', ''16.png'', ''17.png'',
      ''18.png'', ''19.png'', ''20.png'', ''21.png'', ''22.png'', ''23.png'',
      ''24.png'']"

definition twelve_viewer :: "(ImageData, nat) Viewer" where
  "twelve_viewer = initializeImages demo_env twelve_files (FisheyeViewer_ctor 0)"

definition twenty_five_viewer :: "(ImageData, nat) Viewer" where
  "twenty_five_viewer = initializeImages demo_env twenty_five_files (FisheyeViewer_ctor 0)"

definition demo_exec :: "event list \<Rightarrow> (ImageData, nat) Viewer \<Rightarrow> (ImageData, nat) Viewer" where
  "demo_exec = exec (loadSurfaceInBackground demo_env) (ensureTextureCreated demo_env)"

definition twelve_names :: "string list" where
  "twelve_names =
     [''00'', ''01'', ''02'', ''03'', ''04'', ''05'',
      ''06'', ''07'', ''08'', ''09'', ''bad'', ''11'']"

definition twelve_pairs_viewer :: "(StereoImageData, nat) Viewer" where
  "twelve_pairs_viewer = initializeStereoPairs demo_env ''L'' ''R'' twelve_names (StereoFisheyeViewer_ctor 0)"

definition demo_stereo_exec ::
  "event list \<Rightarrow> (StereoImageData, nat) Viewer \<Rightarrow> (StereoImageData, nat) Viewer" where
  "demo_stereo_exec = exec (loadStereoPairInBackground demo_env) (ensureStereoTexturesCreated demo_env)"

definition demo_claims :: "event list \<Rightarrow> (ImageData, nat) Viewer \<Rightarrow> (nat \<times> nat) list" where
  "demo_claims = claims (loadSurfaceInBackground demo_env) (ensureTextureCreated demo_env)"

definition demo_stereo_claims :: "event list \<Rightarrow> (StereoImageData, nat) Viewer \<Rightarrow> (nat \<times> nat) list" where
  "demo_stereo_claims = claims (loadStereoPairInBackground demo_env) (ensureStereoTexturesCreated demo_env)"

definition twenty_five_names :: "string list" where
  "twenty_five_names =
     [''00'', ''01'', ''02'', ''03'', ''04'', ''05'', ''06'', ''07'', ''08'', ''09'', ''bad'', ''11'',
      ''12'', ''13'', ''14'', ''15'', ''16'', ''17'', ''18'', ''19'', ''20'', ''21'', ''22'', ''23'',
      ''24'']"

definition twenty_five_pairs_viewer :: "(StereoImageData, nat) Viewer" where
  "twenty_five_pairs_viewer =
     initializeStereoPairs demo_env ''L'' ''R'' twenty_five_names (StereoFisheyeViewer_ctor 0)"

section \<open>Calibration and remap tables\<close>

text \<open>
  The calibration code is in three places: \<open>kitti360::loadFisheyeParams\<close>
  (load_calibration.cpp), the class \<open>FisheyeUndistorter\<close> of the preview tool
  (single_undistort.cpp, first translation unit) and the \<open>StereoFisheyeViewer\<close> that
  undistorts what it shows (the translation unit that follows the text of README.md).

  A \<open>double\<close> is a real number here: the rounding of the products is not modelled. The
  camera matrix is the identity but for the four entries the code writes, so it is a
  record of these four. \<open>cv::Vec4d\<close> and the 4 by 1 matrix of coefficients are lists of
  four numbers.
\<close>

record FisheyeParams =
  camera_name :: string
  image_width :: int
  image_height :: int
  xi :: real
  distortion :: "real list"
  projection :: "real list"

record Size =
  width :: int
  height :: int

record CameraMatrix =
  fx :: real
  fy :: real
  cx :: real
  cy :: real

text \<open>
  The exceptions the code throws or catches: \<open>std::runtime_error\<close> of
  load_calibration.cpp and \<open>cv::Exception\<close> of the library, both caught as
  \<open>std::exception\<close> by \<open>loadCalibration\<close>.
\<close>

datatype std_exception = runtime_error string | cv_Exception string

fun what :: "std_exception \<Rightarrow> string" where
  "what (runtime_error s) = s"
| "what (cv_Exception s) = s"

text \<open>
  What the calibration code asks of the platform. \<open>ifstream_is_open\<close> tells whether a
  file can be opened for reading and \<open>FileStorage\<close> gives the parameters read from a
  YAML file (\<open>None\<close>: \<open>isOpened()\<close> is false). The two table constructors
  \<open>cv::fisheye::initUndistortRectifyMap\<close> and \<open>cv::initUndistortRectifyMap\<close> take the
  camera matrix, the coefficients, the new camera matrix and the output size, and return
  the pair of maps (of any type \<open>'m\<close>) or throw a \<open>cv::Exception\<close>, given by its
  message. \<open>remap\<close> stands for the pixel work of \<open>undistortImage\<close>: conversion of the
  surface, \<open>cv::remap\<close> with the maps into an image of the output size, scaling to the
  display size and conversion back, giving a surface or \<open>nullptr\<close>. \<open>current_path\<close>
  is the working directory as printed, \<open>is_directory\<close> is \<open>fs::is_directory\<close>, and
  \<open>initialize\<close> is the start of SDL: the renderer, or the line written to \<open>cerr\<close>
  when it fails.
\<close>

record ('r, 'm) Platform =
  ifstream_is_open :: "string \<Rightarrow> bool"
  FileStorage :: "string \<Rightarrow> FisheyeParams option"
  fisheye_initUndistortRectifyMap :: "CameraMatrix \<Rightarrow> real list \<Rightarrow> CameraMatrix \<Rightarrow> Size \<Rightarrow> string + 'm"
  initUndistortRectifyMap :: "CameraMatrix \<Rightarrow> real list \<Rightarrow> CameraMatrix \<Rightarrow> Size \<Rightarrow> string + 'm"
  remap :: "'m option \<Rightarrow> Size \<Rightarrow> SDL_Surface \<Rightarrow> SDL_Surface option"
  current_path :: string
  is_directory :: "string \<Rightarrow> bool"
  initialize :: "string + 'r"

text \<open>
  \<open>kitti360::loadFisheyeParams\<close>: \<open>checkFile\<close> throws when the file cannot be opened,
  and the function throws when the YAML storage is not opened.
\<close>

definition loadFisheyeParams :: "('r, 'm) Platform \<Rightarrow> string \<Rightarrow> std_exception + FisheyeParams" where
  "loadFisheyeParams pf fname =
     (if \<not> ifstream_is_open pf fname then Inl (runtime_error (fname @ '' does not exist!''))
      else case FileStorage pf fname of
             None \<Rightarrow> Inl (runtime_error (''Cannot open YAML file: '' @ fname))
           | Some params \<Rightarrow> Inr params)"

text \<open>
  \<open>static_cast<int>\<close> of a \<open>double\<close> drops the fraction. (The conversion of a value
  outside the range of \<open>int\<close> is undefined in C++; the model gives the truncation.)
\<close>

definition static_cast_int_double :: "real \<Rightarrow> int" where
  "static_cast_int_double x = (if 0 \<le> x then \<lfloor>x\<rfloor> else \<lceil>x\<rceil>)"

text \<open>
  Both classes build a new camera matrix in the same way: a clone of the camera matrix,
  the principal point moved to the centre of the output image and both focal lengths
  multiplied by a scale.
\<close>

definition expandCameraMatrix :: "CameraMatrix \<Rightarrow> Size \<Rightarrow> real \<Rightarrow> CameraMatrix" where
  "expandCameraMatrix K out scale =
     K\<lparr>cx := real_of_int (width out) / 2, cy := real_of_int (height out) / 2,
       fx := fx K * scale, fy := fy K * scale\<rparr>"

text \<open>The ballot cross that starts the lines of the catch blocks, in UTF-8.\<close>

definition cross :: string where
  "cross = [CHR 0xE2, CHR 0x9C, CHR 0x97]"

subsection \<open>The preview tool\<close>

text \<open>
  The members of \<open>FisheyeUndistorter\<close>; \<open>maps\<close> is the pair \<open>mapX\<close>, \<open>mapY\<close>, empty
  (\<open>None\<close>) until a constructor has filled it. The output size and the flag
  \<open>calibrationLoaded\<close> are members of the stereo viewer as well. The constructor
  initializes the flag only, so it is applied to what the object holds otherwise.
\<close>

record CalibrationState =
  outputImageSize :: Size
  calibrationLoaded :: bool

record 'm FisheyeUndistorter = CalibrationState +
  cameraParams :: FisheyeParams
  cameraMatrix :: CameraMatrix
  distCoeffs :: "real list"
  maps :: "'m option"

definition FisheyeUndistorter_ctor :: "'m FisheyeUndistorter \<Rightarrow> 'm FisheyeUndistorter" where
  "FisheyeUndistorter_ctor u = u\<lparr>calibrationLoaded := False\<rparr>"

definition setupCameraParameters :: "'m FisheyeUndistorter \<Rightarrow> 'm FisheyeUndistorter" where
  "setupCameraParameters u =
     u\<lparr>cameraMatrix := \<lparr>fx = projection (cameraParams u) ! 0, fy = projection (cameraParams u) ! 1,
                         cx = projection (cameraParams u) ! 2, cy = projection (cameraParams u) ! 3\<rparr>,
       distCoeffs := [distortion (cameraParams u) ! 0, distortion (cameraParams u) ! 1,
                      distortion (cameraParams u) ! 2, distortion (cameraParams u) ! 3]\<rparr>"

text \<open>
  \<open>FisheyeUndistorter::createUndistortionMaps\<close>. The result is what was written to
  \<open>cerr\<close>, the object, and the exception that leaves the function, if any: the last
  constructor is called outside every \<open>try\<close>. A constructor that throws is taken to
  leave the maps as they were.
\<close>

definition createUndistortionMaps ::
  "('r, 'm) Platform \<Rightarrow> 'm FisheyeUndistorter \<Rightarrow> string list \<times> 'm FisheyeUndistorter \<times> std_exception option" where
  "createUndistortionMaps pf u =
     (let inputImageSize = \<lparr>width = image_width (cameraParams u), height = image_height (cameraParams u)\<rparr>;
          out = \<lparr>width = static_cast_int_double (real_of_int (width inputImageSize) * 2.5),
                 height = static_cast_int_double (real_of_int (height inputImageSize) * 1.5)\<rparr>;
          u' = u\<lparr>outputImageSize := out\<rparr>;
          newCameraMatrix1 = expandCameraMatrix (cameraMatrix u) out 2.5;
          newCameraMatrix2 = expandCameraMatrix (cameraMatrix u) out 4.0;
          invertedDistCoeffs = map uminus (distCoeffs u)
      in case fisheye_initUndistortRectifyMap pf (cameraMatrix u) (distCoeffs u) newCameraMatrix1 out of
           Inr m \<Rightarrow> ([], u'\<lparr>maps := Some m\<rparr>, None)
         | Inl e \<Rightarrow>
            (case fisheye_initUndistortRectifyMap pf (cameraMatrix u) (distCoeffs u) newCameraMatrix2 out of
               Inr m \<Rightarrow> ([''Approach 1 failed: '' @ e], u'\<lparr>maps := Some m\<rparr>, None)
             | Inl e2 \<Rightarrow>
                (case fisheye_initUndistortRectifyMap pf (cameraMatrix u) invertedDistCoeffs newCameraMatrix1 out of
                   Inr m \<Rightarrow> ([''Approach 1 failed: '' @ e, ''Approach 2 failed: '' @ e2],
                             u'\<lparr>maps := Some m\<rparr>, None)
                 | Inl e3 \<Rightarrow>
                    (case initUndistortRectifyMap pf (cameraMatrix u) (distCoeffs u) newCameraMatrix1 out of
                       Inr m \<Rightarrow> ([''Approach 1 failed: '' @ e, ''Approach 2 failed: '' @ e2,
                                  ''All approaches failed. Using standard undistort method...''],
                                 u'\<lparr>maps := Some m\<rparr>, None)
                     | Inl e4 \<Rightarrow> ([''Approach 1 failed: '' @ e, ''Approach 2 failed: '' @ e2,
                                   ''All approaches failed. Using standard undistort method...''],
                                  u', Some (cv_Exception e4))))))"

text \<open>
  \<open>FisheyeUndistorter::loadCalibration\<close>: the lines written to \<open>cerr\<close>, the object and
  the value returned. Every exception is caught.
\<close>

definition loadCalibration ::
  "('r, 'm) Platform \<Rightarrow> 'q Env \<Rightarrow> 'm FisheyeUndistorter \<Rightarrow> string list \<times> 'm FisheyeUndistorter \<times> bool" where
  "loadCalibration pf env u =
     (let caught = (\<lambda>e.
            [cross @ '' CRITICAL ERROR: Failed to load calibration: '' @ what e,
             cross @ '' Current working directory: '' @ current_path pf,
             cross @ '' Expected calibration file: kitti360_calibration/image_02.yaml'',
             if \<not> fs_exists env ''kitti360_calibration/image_02.yaml''
             then cross @ '' Calibration file does NOT exist!''
             else cross @ '' Calibration file exists but failed to load - check file format''])
      in case loadFisheyeParams pf ''kitti360_calibration/image_02.yaml'' of
           Inl e \<Rightarrow> (caught e, u\<lparr>calibrationLoaded := False\<rparr>, False)
         | Inr params \<Rightarrow>
            (case createUndistortionMaps pf (setupCameraParameters (u\<lparr>cameraParams := params\<rparr>)) of
               (cerr, u', None) \<Rightarrow> (cerr, u'\<lparr>calibrationLoaded := True\<rparr>, True)
             | (cerr, u', Some e) \<Rightarrow> (cerr @ caught e, u'\<lparr>calibrationLoaded := False\<rparr>, False)))"

text \<open>
  \<open>main\<close> of the preview tool, up to the call of \<open>processAndDisplay\<close>, after which it
  returns 0: it either returns a code before that call or goes on with the object and
  the path of the image. \<open>argv0\<close> is the name of the program and \<open>args\<close> are the other
  arguments, so \<open>argc\<close> is one more than their number.
\<close>

datatype 'a startup = is_Exits: Exits int | Continues 'a

definition main_single_undistort ::
  "('r, 'm) Platform \<Rightarrow> 'q Env \<Rightarrow> string \<Rightarrow> string list \<Rightarrow> 'm FisheyeUndistorter
     \<Rightarrow> string list \<times> ('m FisheyeUndistorter \<times> string) startup" where
  "main_single_undistort pf env argv0 args undistorter =
     (if length args + 1 \<noteq> 2
      then ([''Usage: '' @ argv0 @ '' <image_path>'',
             ''Example: '' @ argv0 @ '' /path/to/fisheye/image.png''], Exits 1)
      else case loadCalibration pf env (FisheyeUndistorter_ctor undistorter) of
             (cerr, u, ok) \<Rightarrow>
               if \<not> ok
               then (cerr @ [''ERROR: Failed to load calibration data! Cannot proceed without calibration.'',
                            ''Make sure kitti360_calibration/image_02.yaml exists and is readable.''], Exits 1)
               else (cerr, Continues (u, args ! 0)))"

subsection \<open>The stereo viewer that undistorts\<close>

text \<open>
  The calibration members of this \<open>StereoFisheyeViewer\<close>; its other members are those
  of the viewer record. The display size, computed in floating point from the output
  size, is not modelled: \<open>remap\<close> is given the output size.
\<close>

record 'm StereoCalibration = CalibrationState +
  leftCameraParams :: FisheyeParams
  rightCameraParams :: FisheyeParams
  leftCameraMatrix :: CameraMatrix
  leftDistCoeffs :: "real list"
  rightCameraMatrix :: CameraMatrix
  rightDistCoeffs :: "real list"
  leftMap :: "'m option"
  rightMap :: "'m option"

definition StereoCalibration_ctor :: "'m StereoCalibration \<Rightarrow> 'm StereoCalibration" where
  "StereoCalibration_ctor c = c\<lparr>calibrationLoaded := False\<rparr>"

text \<open>This viewer opens 1800 by 900.\<close>

definition UndistortingViewer_ctor :: "'r \<Rightarrow> (StereoImageData, 'r) Viewer" where
  "UndistortingViewer_ctor r = Viewer_ctor r 1800 900"

definition setupCameraMatrices :: "'m StereoCalibration \<Rightarrow> 'm StereoCalibration" where
  "setupCameraMatrices c =
     c\<lparr>leftCameraMatrix :=
         \<lparr>fx = projection (leftCameraParams c) ! 0, fy = projection (leftCameraParams c) ! 1,
          cx = projection (leftCameraParams c) ! 2, cy = projection (leftCameraParams c) ! 3\<rparr>,
       rightCameraMatrix :=
         \<lparr>fx = projection (rightCameraParams c) ! 0, fy = projection (rightCameraParams c) ! 1,
          cx = projection (rightCameraParams c) ! 2, cy = projection (rightCameraParams c) ! 3\<rparr>,
       leftDistCoeffs := [distortion (leftCameraParams c) ! 0, distortion (leftCameraParams c) ! 1,
                          distortion (leftCameraParams c) ! 2, distortion (leftCameraParams c) ! 3],
       rightDistCoeffs := [distortion (rightCameraParams c) ! 0, distortion (rightCameraParams c) ! 1,
                           distortion (rightCameraParams c) ! 2, distortion (rightCameraParams c) ! 3]\<rparr>"

text \<open>
  The \<open>try\<close> block that \<open>StereoFisheyeViewer::createUndistortionMaps\<close> runs for each
  camera: the fisheye constructor and, when it throws, two lines on \<open>cerr\<close> and the
  standard constructor with the same arguments, outside every \<open>try\<close>. \<open>Who\<close> and
  \<open>who\<close> are the name of the camera with and without its capital.
\<close>

definition fisheyeOrStandardMap ::
  "('r, 'm) Platform \<Rightarrow> string \<Rightarrow> string \<Rightarrow> CameraMatrix \<Rightarrow> real list \<Rightarrow> CameraMatrix \<Rightarrow> Size
     \<Rightarrow> string list \<times> (string + 'm)" where
  "fisheyeOrStandardMap pf Who who K D newK out =
     (case fisheye_initUndistortRectifyMap pf K D newK out of
        Inr m \<Rightarrow> ([], Inr m)
      | Inl e \<Rightarrow> ([Who @ '' camera undistortion failed: '' @ e,
                   ''Falling back to standard undistortion for '' @ who @ '' camera...''],
                  initUndistortRectifyMap pf K D newK out))"

definition createUndistortionMaps_stereo ::
  "('r, 'm) Platform \<Rightarrow> 'm StereoCalibration \<Rightarrow> string list \<times> 'm StereoCalibration \<times> std_exception option" where
  "createUndistortionMaps_stereo pf c =
     (let inputImageSize = \<lparr>width = image_width (leftCameraParams c),
                             height = image_height (leftCameraParams c)\<rparr>;
          out = \<lparr>width = static_cast_int_double (real_of_int (width inputImageSize) * 4.0),
                 height = static_cast_int_double (real_of_int (height inputImageSize) * 2.0)\<rparr>;
          c' = c\<lparr>outputImageSize := out\<rparr>;
          newLeftCameraMatrix = expandCameraMatrix (leftCameraMatrix c) out 5.0;
          newRightCameraMatrix = expandCameraMatrix (rightCameraMatrix c) out 5.0
      in case fisheyeOrStandardMap pf ''Left'' ''left''
                (leftCameraMatrix c) (leftDistCoeffs c) newLeftCameraMatrix out of
           (logL, Inl e) \<Rightarrow> (logL, c', Some (cv_Exception e))
         | (logL, Inr mL) \<Rightarrow>
            (case fisheyeOrStandardMap pf ''Right'' ''right''
                    (rightCameraMatrix c) (rightDistCoeffs c) newRightCameraMatrix out of
               (logR, Inl e) \<Rightarrow> (logL @ logR, c'\<lparr>leftMap := Some mL\<rparr>, Some (cv_Exception e))
             | (logR, Inr mR) \<Rightarrow> (logL @ logR, c'\<lparr>leftMap := Some mL, rightMap := Some mR\<rparr>, None)))"

text \<open>\<open>StereoFisheyeViewer::loadCalibration\<close>; every exception is caught.\<close>

definition loadCalibration_stereo ::
  "('r, 'm) Platform \<Rightarrow> 'm StereoCalibration \<Rightarrow> string list \<times> 'm StereoCalibration \<times> bool" where
  "loadCalibration_stereo pf c =
     (let caught = (\<lambda>e.
            [cross @ '' CRITICAL ERROR: Failed to load dual calibration: '' @ what e,
             cross @ '' Make sure both kitti360_calibration/image_02.yaml and image_03.yaml exist''])
      in case loadFisheyeParams pf ''kitti360_calibration/image_02.yaml'' of
           Inl e \<Rightarrow> (caught e, c\<lparr>calibrationLoaded := False\<rparr>, False)
         | Inr l \<Rightarrow>
            (case loadFisheyeParams pf ''kitti360_calibration/image_03.yaml'' of
               Inl e \<Rightarrow> (caught e, c\<lparr>leftCameraParams := l, calibrationLoaded := False\<rparr>, False)
             | Inr r \<Rightarrow>
                (case createUndistortionMaps_stereo pf
                        (setupCameraMatrices (c\<lparr>leftCameraParams := l, rightCameraParams := r\<rparr>)) of
                   (cerr, c', None) \<Rightarrow> (cerr, c'\<lparr>calibrationLoaded := True\<rparr>, True)
                 | (cerr, c', Some e) \<Rightarrow> (cerr @ caught e, c'\<lparr>calibrationLoaded := False\<rparr>, False))))"

text \<open>
  \<open>StereoFisheyeViewer::undistortImage\<close>, and the block that both loaders of this viewer
  run on a decoded surface: undistorted if the calibration is loaded, the surface itself
  if not.
\<close>

definition undistortImage ::
  "('r, 'm) Platform \<Rightarrow> 'm StereoCalibration \<Rightarrow> SDL_Surface option \<Rightarrow> bool \<Rightarrow> SDL_Surface option" where
  "undistortImage pf c originalSurface isLeftCamera =
     (if \<not> calibrationLoaded c then None
      else case originalSurface of
             None \<Rightarrow> None
           | Some s \<Rightarrow> remap pf (if isLeftCamera then leftMap c else rightMap c) (outputImageSize c) s)"

definition undistortedSurface ::
  "('r, 'm) Platform \<Rightarrow> 'm StereoCalibration \<Rightarrow> SDL_Surface option \<Rightarrow> bool \<Rightarrow> SDL_Surface option" where
  "undistortedSurface pf c decoded isLeftCamera =
     (if calibrationLoaded c
      then (case decoded of None \<Rightarrow> None | Some s \<Rightarrow> undistortImage pf c (Some s) isLeftCamera)
      else decoded)"

definition loadStereoPairInBackground_calibrated ::
  "('r, 'm) Platform \<Rightarrow> 'm StereoCalibration \<Rightarrow> 'q Env \<Rightarrow> nat \<Rightarrow> StereoImageData list \<Rightarrow> StereoImageData list" where
  "loadStereoPairInBackground_calibrated pf c env index stereoPairs =
     (if index \<ge> length stereoPairs then stereoPairs
      else
        let p = stereoPairs ! index;
            undistortedLeftSurface = undistortedSurface pf c (IMG_Load env (leftFilename p)) True;
            undistortedRightSurface = undistortedSurface pf c (IMG_Load env (rightFilename p)) False;
            p1 = (case undistortedLeftSurface of None \<Rightarrow> p
                  | Some s \<Rightarrow> p\<lparr>leftSurface := Some s, leftSurfaceLoaded := True\<rparr>);
            p2 = (case undistortedRightSurface of None \<Rightarrow> p1
                  | Some s \<Rightarrow> p1\<lparr>rightSurface := Some s, rightSurfaceLoaded := True\<rparr>)
        in stereoPairs[index := p2])"

definition storeInitialLeft_calibrated ::
  "('r, 'm) Platform \<Rightarrow> 'm StereoCalibration \<Rightarrow> 'r Env \<Rightarrow> nat \<Rightarrow> (StereoImageData, 'r) Viewer
     \<Rightarrow> (StereoImageData, 'r) Viewer" where
  "storeInitialLeft_calibrated pf c env i v =
     (let p = slots v ! i in
      case undistortedSurface pf c (IMG_Load env (leftFilename p)) True of
        None \<Rightarrow> v
      | Some s \<Rightarrow>
          let q = p\<lparr>leftSurface := Some s, leftSurfaceLoaded := True\<rparr>;
              (tex, r') = SDL_CreateTextureFromSurface env (renderer v) s;
              q' = q\<lparr>leftTexture := tex\<rparr>;
              q'' = (if tex \<noteq> None then q'\<lparr>leftTextureCreated := True\<rparr> else q')
          in v\<lparr>renderer := r', slots := (slots v)[i := q'']\<rparr>)"

definition storeInitialRight_calibrated ::
  "('r, 'm) Platform \<Rightarrow> 'm StereoCalibration \<Rightarrow> 'r Env \<Rightarrow> nat \<Rightarrow> (StereoImageData, 'r) Viewer
     \<Rightarrow> (StereoImageData, 'r) Viewer" where
  "storeInitialRight_calibrated pf c env i v =
     (let p = slots v ! i in
      case undistortedSurface pf c (IMG_Load env (rightFilename p)) False of
        None \<Rightarrow> v
      | Some s \<Rightarrow>
          let q = p\<lparr>rightSurface := Some s, rightSurfaceLoaded := True\<rparr>;
              (tex, r') = SDL_CreateTextureFromSurface env (renderer v) s;
              q' = q\<lparr>rightTexture := tex\<rparr>;
              q'' = (if tex \<noteq> None then q'\<lparr>rightTextureCreated := True\<rparr> else q')
          in v\<lparr>renderer := r', slots := (slots v)[i := q'']\<rparr>)"

definition loadInitialStereoPair_calibrated ::
  "('r, 'm) Platform \<Rightarrow> 'm StereoCalibration \<Rightarrow> 'r Env \<Rightarrow> nat \<Rightarrow> (StereoImageData, 'r) Viewer
     \<Rightarrow> (StereoImageData, 'r) Viewer" where
  "loadInitialStereoPair_calibrated pf c env i v =
     storeInitialRight_calibrated pf c env i (storeInitialLeft_calibrated pf c env i v)"

definition loadInitialStereoPairs_calibrated ::
  "('r, 'm) Platform \<Rightarrow> 'm StereoCalibration \<Rightarrow> 'r Env \<Rightarrow> (StereoImageData, 'r) Viewer
     \<Rightarrow> (StereoImageData, 'r) Viewer" where
  "loadInitialStereoPairs_calibrated pf c env v =
     (let pairCount = length (slots v);
          initialCount = min INITIAL_LOAD_COUNT pairCount;
          v' = fold (loadInitialStereoPair_calibrated pf c env) [0..<initialCount] v
      in v'\<lparr>nextImageToLoad := initialCount\<rparr>)"

definition initializeStereoPairs_calibrated ::
  "('r, 'm) Platform \<Rightarrow> 'm StereoCalibration \<Rightarrow> 'r Env \<Rightarrow> string \<Rightarrow> string \<Rightarrow> string list
     \<Rightarrow> (StereoImageData, 'r) Viewer \<Rightarrow> (StereoImageData, 'r) Viewer" where
  "initializeStereoPairs_calibrated pf c env leftDir rightDir matchingPairs v =
     startBackgroundLoading
       (loadInitialStereoPairs_calibrated pf c env
          (v\<lparr>slots := map (newStereoPair (fs_exists env) leftDir rightDir) matchingPairs\<rparr>))"

definition loadStereoPairs_calibrated ::
  "('r, 'm) Platform \<Rightarrow> 'm StereoCalibration \<Rightarrow> 'r Env \<Rightarrow> string \<Rightarrow> string
     \<Rightarrow> (StereoImageData, 'r) Viewer \<Rightarrow> load_error + (StereoImageData, 'r) Viewer" where
  "loadStereoPairs_calibrated pf c env leftDir rightDir v =
     (case directory_iterator env leftDir of
        None \<Rightarrow> Inl LeftDirectoryError
      | Some leftEntries \<Rightarrow>
          (case directory_iterator env rightDir of
             None \<Rightarrow> Inl RightDirectoryError
           | Some rightEntries \<Rightarrow>
               (case pairedSequence (cin_getline env) (scanBaseNames leftEntries) (scanBaseNames rightEntries) of
                  Inl e \<Rightarrow> Inl e
                | Inr matchingPairs \<Rightarrow>
                    Inr (initializeStereoPairs_calibrated pf c env leftDir rightDir matchingPairs v))))"

text \<open>The line \<open>main\<close> of this viewer writes when \<open>loadCalibration\<close> returns false.\<close>

definition calibrationWarning :: "bool \<Rightarrow> string list" where
  "calibrationWarning ok =
     (if ok then []
      else [''Warning: Failed to load calibration data. Images will be displayed without undistortion.''])"

text \<open>
  \<open>main\<close> of this viewer, up to the call of \<open>run\<close>, after which it returns 0: it either
  returns a code before that call or enters the loop with the calibration and the viewer.
  The lines kept are those that \<open>main\<close> and the calibration code write to \<open>cerr\<close>.
\<close>

definition main_stereo ::
  "('r, 'm) Platform \<Rightarrow> 'r Env \<Rightarrow> string \<Rightarrow> string list \<Rightarrow> 'm StereoCalibration
     \<Rightarrow> string list \<times> ('m StereoCalibration \<times> (StereoImageData, 'r) Viewer) startup" where
  "main_stereo pf env argv0 args viewer =
     (if length args + 1 \<noteq> 3
      then ([''Usage: '' @ argv0 @ '' <left_directory> <right_directory>'',
             ''Example: '' @ argv0 @ '' /path/to/left/images /path/to/right/images''], Exits 1)
      else if \<not> fs_exists env (args ! 0) \<or> \<not> is_directory pf (args ! 0)
      then ([''Error: '' @ args ! 0 @ '' is not a valid directory''], Exits 1)
      else if \<not> fs_exists env (args ! 1) \<or> \<not> is_directory pf (args ! 1)
      then ([''Error: '' @ args ! 1 @ '' is not a valid directory''], Exits 1)
      else
        (case initialize pf of
           Inl line \<Rightarrow> ([line, ''Failed to initialize SDL''], Exits 1)
         | Inr r \<Rightarrow>
            (case loadCalibration_stereo pf (StereoCalibration_ctor viewer) of
               (cerr, c, ok) \<Rightarrow>
                 (case loadStereoPairs_calibrated pf c env (args ! 0) (args ! 1) (UndistortingViewer_ctor r) of
                    Inl e \<Rightarrow> (cerr @ calibrationWarning ok @ [''Failed to load stereo pairs from directories''],
                              Exits 1)
                  | Inr v \<Rightarrow> (cerr @ calibrationWarning ok, Continues (c, v))))))"

text \<open>What stops \<open>main\<close> of the stereo viewer before its loop, calibration apart.\<close>

definition pairs_missing :: "'r Env \<Rightarrow> string \<Rightarrow> string \<Rightarrow> bool" where
  "pairs_missing env leftDir rightDir =
     (case directory_iterator env leftDir of
        None \<Rightarrow> True
      | Some leftEntries \<Rightarrow>
          (case directory_iterator env rightDir of
             None \<Rightarrow> True
           | Some rightEntries \<Rightarrow>
               findMatchingPairs (scanBaseNames leftEntries) (scanBaseNames rightEntries) = []))"

definition startup_rejected :: "('r, 'm) Platform \<Rightarrow> 'r Env \<Rightarrow> string list \<Rightarrow> bool" where
  "startup_rejected pf env args =
     (length args \<noteq> 2 \<or>
      \<not> fs_exists env (args ! 0) \<or> \<not> is_directory pf (args ! 0) \<or>
      \<not> fs_exists env (args ! 1) \<or> \<not> is_directory pf (args ! 1) \<or>
      isl (initialize pf) \<or> pairs_missing env (args ! 0) (args ! 1))"

text \<open>
  A platform to evaluate the model in. The calibration files are given by their content
  (\<open>None\<close>: the file is absent). A table is the name of its constructor with the
  arguments it was given. Both constructors throw for a negative output size, and the
  fisheye constructor throws when the first or the second coefficient is above 1.
  Undistorting a surface gives the surface numbered 1000 higher.
\<close>

datatype remap_table =
  FisheyeTable CameraMatrix "real list" CameraMatrix Size
| StandardTable CameraMatrix "real list" CameraMatrix Size

definition demo_platform :: "(string \<Rightarrow> FisheyeParams option) \<Rightarrow> (nat, remap_table) Platform" where
  "demo_platform yaml =
     \<lparr>ifstream_is_open = (\<lambda>f. yaml f \<noteq> None),
      FileStorage = yaml,
      fisheye_initUndistortRectifyMap = (\<lambda>K D newK out.
         if width out < 0 \<or> height out < 0 then Inl ''negative size''
         else if 1 < D ! 0 \<or> 1 < D ! 1 then Inl ''degenerate projection''
         else Inr (FisheyeTable K D newK out)),
      initUndistortRectifyMap = (\<lambda>K D newK out.
         if width out < 0 \<or> height out < 0 then Inl ''negative size''
         else Inr (StandardTable K D newK out)),
      remap = (\<lambda>m out s. Some (s + 1000)),
      current_path = ''/home/user/fisheye_lab'',
      is_directory = (\<lambda>d. True),
      initialize = Inr 0\<rparr>"

definition kitti_params :: "real \<Rightarrow> real \<Rightarrow> int \<Rightarrow> FisheyeParams" where
  "kitti_params k1 k2 w =
     \<lparr>camera_name = ''image_02'', image_width = w, image_height = 1400, xi = 2,
      distortion = [k1, k2, 0, 0], projection = [1336, 1336, 716, 705]\<rparr>"


definition no_files :: "string \<Rightarrow> FisheyeParams option" where
  "no_files f = None"

definition blank_undistorter :: "remap_table FisheyeUndistorter" where
  "blank_undistorter =
     \<lparr>outputImageSize = \<lparr>width = 0, height = 0\<rparr>, calibrationLoaded = False,
      cameraParams = kitti_params 0 0 0,
      cameraMatrix = \<lparr>fx = 1, fy = 1, cx = 0, cy = 0\<rparr>, distCoeffs = [], maps = None\<rparr>"

definition blank_calibration :: "remap_table StereoCalibration" where
  "blank_calibration =
     \<lparr>outputImageSize = \<lparr>width = 0, height = 0\<rparr>, calibrationLoaded = False,
      leftCameraParams = kitti_params 0 0 0, rightCameraParams = kitti_params 0 0 0,
      leftCameraMatrix = \<lparr>fx = 1, fy = 1, cx = 0, cy = 0\<rparr>, leftDistCoeffs = [],
      rightCameraMatrix = \<lparr>fx = 1, fy = 1, cx = 0, cy = 0\<rparr>, rightDistCoeffs = [],
      leftMap = None, rightMap = None\<rparr>"






text \<open>
  The small world with two directories that share the names \<open>b\<close> and \<open>c\<close>, and the
  same world without the calibration files.
\<close>

definition demo_dirs_env :: "nat Env" where
  "demo_dirs_env =
     demo_env\<lparr>directory_iterator := (\<lambda>d.
        if d = ''L'' then Some [\<lparr>is_regular_file = True, path_string = ''L/a.png'', path_stem = ''a'', path_extension = ''.png''\<rparr>,
                                \<lparr>is_regular_file = True, path_string = ''L/b.png'', path_stem = ''b'', path_extension = ''.png''\<rparr>,
                                \<lparr>is_regular_file = True, path_string = ''L/c.png'', path_stem = ''c'', path_extension = ''.png''\<rparr>]
        else if d = ''R'' then Some [\<lparr>is_regular_file = True, path_string = ''R/b.png'', path_stem = ''b'', path_extension = ''.png''\<rparr>,
                                     \<lparr>is_regular_file = True, path_string = ''R/c.png'', path_stem = ''c'', path_extension = ''.png''\<rparr>,
                                     \<lparr>is_regular_file = True, path_string = ''R/d.png'', path_stem = ''d'', path_extension = ''.png''\<rparr>]
        else None)\<rparr>"

definition absent_env :: "nat Env" where
  "absent_env =
     demo_dirs_env\<lparr>fs_exists := (\<lambda>p. p \<noteq> ''kitti360_calibration/image_02.yaml'' \<and>
                                      p \<noteq> ''kitti360_calibration/image_03.yaml'')\<rparr>"

section \<open>The navigation cursor\<close>

lemma static_cast_int_signed: "static_cast_int n = signed_take_bit 31 (int n)"
proof -
  have "static_cast_int n = signed_take_bit 31 (int (take_bit 32 n))"
    unfolding static_cast_int_def by (simp add: sint_uint unsigned_of_nat)
  also have "int (take_bit 32 n) = take_bit 32 (int n)"
    by (simp add: take_bit_of_nat)
  also have "signed_take_bit 31 (take_bit 32 (int n)) = signed_take_bit 31 (int n)"
    by (simp add: signed_take_bit_take_bit)
  finally show ?thesis .
qed

lemma static_cast_int_le: "static_cast_int n \<le> int n"
proof -
  have "- (2 ^ 31) \<le> int n" by simp
  then show ?thesis
    unfolding static_cast_int_signed signed_take_bit_int_less_eq_self_iff .
qed

lemma nextImage_in_bounds: "in_bounds v \<Longrightarrow> in_bounds (nextImage v)"
  using static_cast_int_le [of "length (slots v)"]
  by (auto simp: in_bounds_def nextImage_def)

lemma previousImage_in_bounds: "in_bounds v \<Longrightarrow> in_bounds (previousImage v)"
  by (auto simp: in_bounds_def previousImage_def)

lemma handleEvent_in_bounds: "in_bounds v \<Longrightarrow> in_bounds (handleEvent e v)"
  by (cases e) (auto simp: nextImage_in_bounds previousImage_in_bounds, auto simp: in_bounds_def)

lemma handleEvent_slots [simp]: "slots (handleEvent e v) = slots v"
  by (cases e) (auto simp: nextImage_def previousImage_def)

lemma fold_handleEvent_in_bounds: "in_bounds v \<Longrightarrow> in_bounds (fold handleEvent es v)"
  by (induction es arbitrary: v) (auto simp: handleEvent_in_bounds)

lemma fold_handleEvent_slots [simp]: "slots (fold handleEvent es v) = slots v"
  by (induction es arbitrary: v) auto

text \<open>
  Claim C9. A viewer with a non-empty sequence starts with the cursor at 0. After any
  sequence of events handled by \<open>handleEvent\<close> (the only place that moves the cursor:
  right arrow is Advance, left arrow is Retreat) the cursor is in \<open>[0, N)\<close>, where \<open>N\<close> is
  the number of slots. In any viewer \<open>u\<close>, \<open>nextImage\<close> at \<open>N - 1\<close> and \<open>previousImage\<close> at 0
  return the viewer unchanged. This holds for every \<open>N\<close>, also one that does not fit the
  32-bit \<open>int\<close> the source converts it to.
\<close>

theorem NavCursor_saturating:
  assumes "slots v \<noteq> []" and "currentIndex v = 0"
  shows "0 \<le> currentIndex (fold handleEvent es v)
         \<and> currentIndex (fold handleEvent es v) < int (length (slots v))
         \<and> (currentIndex u = int (length (slots u)) - 1 \<longrightarrow> nextImage u = u)
         \<and> (currentIndex u = 0 \<longrightarrow> previousImage u = u)"
proof -
  have "in_bounds v" using assms by (simp add: in_bounds_def)
  then have "in_bounds (fold handleEvent es v)" by (rule fold_handleEvent_in_bounds)
  moreover have "currentIndex u = int (length (slots u)) - 1 \<longrightarrow> nextImage u = u"
    using static_cast_int_le [of "length (slots u)"] by (auto simp: nextImage_def)
  moreover have "currentIndex u = 0 \<longrightarrow> previousImage u = u"
    by (simp add: previousImage_def)
  ultimately show ?thesis by (simp add: in_bounds_def)
qed

lemmas demo_defs = demo_viewer_def demo_stereo_viewer_def demo_env_def initializeImages_def
  initializeStereoPairs_def startBackgroundLoading_def loadInitialImages_def
  loadInitialStereoPairs_def loadInitialImage_def loadInitialStereoPair_def
  storeInitialLeft_def storeInitialRight_def
  FisheyeViewer_ctor_def StereoFisheyeViewer_ctor_def Viewer_ctor_def INITIAL_LOAD_COUNT_def
  NUM_LOADING_THREADS_def ImageData_ctor_def StereoImageData_ctor_def newStereoPair_def
  pairFilenames_def

text \<open>
  An instance: three images, the cursor moved right three times and left once stays
  inside; after two moves right it is at 2, the last index, where \<open>nextImage\<close> changes
  nothing, and \<open>previousImage\<close> changes nothing at 0.
\<close>

theorem NavCursor_saturating_witness:
  "slots demo_viewer \<noteq> [] \<and> currentIndex demo_viewer = 0
   \<and> 0 \<le> currentIndex (fold handleEvent [SDLK_RIGHT, SDLK_RIGHT, SDLK_RIGHT, SDLK_LEFT] demo_viewer)
   \<and> currentIndex (fold handleEvent [SDLK_RIGHT, SDLK_RIGHT, SDLK_RIGHT, SDLK_LEFT] demo_viewer) < 3
   \<and> currentIndex (fold handleEvent [SDLK_RIGHT, SDLK_RIGHT] demo_viewer) = 2
   \<and> nextImage (fold handleEvent [SDLK_RIGHT, SDLK_RIGHT] demo_viewer)
       = fold handleEvent [SDLK_RIGHT, SDLK_RIGHT] demo_viewer
   \<and> previousImage demo_viewer = demo_viewer"
  using NavCursor_saturating [of demo_viewer "[SDLK_RIGHT, SDLK_RIGHT, SDLK_RIGHT, SDLK_LEFT]"
      "fold handleEvent [SDLK_RIGHT, SDLK_RIGHT] demo_viewer"]
    NavCursor_saturating [of demo_viewer "[]" demo_viewer]
  by (simp add: demo_defs Let_def nextImage_def previousImage_def static_cast_int_def)

section \<open>Materialization is idempotent\<close>

text \<open>
  Claim C7. A slot is Materialized when its \<open>textureCreated\<close> flag is set (for a stereo
  pair: the flags of both eyes). Calling the materialization step on such a slot returns
  the viewer it was given: the slot, its flag and its texture handle are the same, and
  the renderer is the same, so \<open>SDL_CreateTextureFromSurface\<close> was not called and no
  second texture exists. Calling it twice is therefore the same as not calling it.
\<close>

theorem materialization_idempotent:
  "(textureCreated (slots v ! index) \<longrightarrow>
      ensureTextureCreated env index v = v \<and>
      ensureTextureCreated env index (ensureTextureCreated env index v) = v) \<and>
   (leftTextureCreated (slots w ! index) \<and> rightTextureCreated (slots w ! index) \<longrightarrow>
      ensureStereoTexturesCreated env index w = w \<and>
      ensureStereoTexturesCreated env index (ensureStereoTexturesCreated env index w) = w)"
  by (simp add: ensureTextureCreated_def ensureStereoTexturesCreated_def ensureLeftTexture_def
      ensureRightTexture_def Let_def)


text \<open>
  An instance: the first image of the small viewer and the second pair of the small
  stereo viewer were materialized in the eager window; the step leaves both viewers,
  renderer included, as they were.
\<close>

theorem materialization_idempotent_witness:
  "textureCreated (slots demo_viewer ! 0)
   \<and> ensureTextureCreated demo_env 0 demo_viewer = demo_viewer
   \<and> ensureTextureCreated demo_env 0 (ensureTextureCreated demo_env 0 demo_viewer) = demo_viewer
   \<and> leftTextureCreated (slots demo_stereo_viewer ! 1) \<and> rightTextureCreated (slots demo_stereo_viewer ! 1)
   \<and> ensureStereoTexturesCreated demo_env 1 demo_stereo_viewer = demo_stereo_viewer
   \<and> ensureStereoTexturesCreated demo_env 1 (ensureStereoTexturesCreated demo_env 1 demo_stereo_viewer)
       = demo_stereo_viewer"
proof -
  have a: "textureCreated (slots demo_viewer ! 0)"
    by (simp add: demo_defs Let_def)
  have b: "leftTextureCreated (slots demo_stereo_viewer ! 1) \<and> rightTextureCreated (slots demo_stereo_viewer ! 1)"
    by (simp add: demo_defs Let_def)
  show ?thesis
    using a b materialization_idempotent [of demo_viewer 0 demo_env demo_stereo_viewer]
      materialization_idempotent [of demo_viewer 1 demo_env demo_stereo_viewer] by simp
qed


section \<open>Stereo pairing\<close>

lemma findMatchingPairs_eq:
  assumes "finite L"
  shows "findMatchingPairs L R = sorted_list_of_set (L \<inter> R)"
proof -
  let ?xs = "filter (\<lambda>x. x \<in> R) (sorted_list_of_set L)"
  have "sorted ?xs" by (simp add: sorted_wrt_filter)
  moreover have "distinct ?xs" by simp
  moreover have "set ?xs = L \<inter> R" using assms by auto
  moreover have "finite (L \<inter> R)" using assms by simp
  ultimately have "?xs = sorted_list_of_set (L \<inter> R)"
    by (metis sorted_list_of_set.idem_if_sorted_distinct)
  then show ?thesis by (simp add: findMatchingPairs_def)
qed

lemma pairedSequence_eq:
  assumes "finite L"
  shows "pairedSequence choice L R =
     (if L \<inter> R = {} then Inl NoMatchingPairs
      else if card (L \<inter> R) > 1000 \<and> choice = ''2''
           then Inr (take 1000 (sorted_list_of_set (L \<inter> R)))
      else Inr (sorted_list_of_set (L \<inter> R)))"
proof -
  have fin: "finite (L \<inter> R)" using assms by simp
  have "sort (sorted_list_of_set (L \<inter> R)) = sorted_list_of_set (L \<inter> R)"
    by (simp add: sort_key_id_if_sorted)
  moreover have "sorted_list_of_set (L \<inter> R) = [] \<longleftrightarrow> L \<inter> R = {}"
    using fin by (simp add: sorted_list_of_set_eq_Nil_iff)
  ultimately show ?thesis
    using fin by (simp add: pairedSequence_def findMatchingPairs_eq [OF assms] limitPairs_def Let_def)
qed

lemma pairedSequence_abc:
  "pairedSequence choice {''a'', ''b'', ''c''} {''b'', ''c'', ''d''} = Inr [''b'', ''c'']"
proof -
  have i: "{''a'', ''b'', ''c''} \<inter> {''b'', ''c'', ''d''} = {''b'', ''c''}" by auto
  have s: "sorted_list_of_set {''b'', ''c''} = [''b'', ''c'']"
    by code_simp
  show ?thesis
    using pairedSequence_eq [of "{''a'', ''b'', ''c''}" choice "{''b'', ''c'', ''d''}"]
    by (simp add: i s)
qed

lemma distinct_many_names: "distinct (many_names n)"
proof -
  have "inj_on (\<lambda>k. replicate (Suc k) CHR ''a'') (set [0..<n])"
    by (rule inj_onI) (metis length_replicate nat.inject)
  then show ?thesis by (simp add: many_names_def distinct_map)
qed

lemma card_many_names: "card (set (many_names n)) = n"
proof -
  have "card (set (many_names n)) = length (many_names n)"
    by (rule distinct_card [OF distinct_many_names])
  then show ?thesis by (simp add: many_names_def)
qed

text \<open>
  Claim C8, as stated, fails on the truncation that \<open>loadStereoPairs\<close> offers: with 1001
  names on both sides and the answer 2, the paired sequence has 1000 names and is not
  the sorted intersection, which has 1001.
\<close>

theorem pairedSequence_truncates:
  "pairedSequence ''2'' (set (many_names 1001)) (set (many_names 1001))
     = Inr (take 1000 (sorted_list_of_set (set (many_names 1001))))
   \<and> length (take 1000 (sorted_list_of_set (set (many_names 1001)))) = 1000
   \<and> card (set (many_names 1001) \<inter> set (many_names 1001)) = 1001
   \<and> pairedSequence ''2'' (set (many_names 1001)) (set (many_names 1001))
     \<noteq> Inr (sorted_list_of_set (set (many_names 1001) \<inter> set (many_names 1001)))"
proof -
  let ?A = "set (many_names 1001)"
  have c: "card ?A = 1001" by (rule card_many_names)
  then have ne: "?A \<noteq> {}" by auto
  have l: "length (sorted_list_of_set ?A) = 1001" using c by simp
  have p: "pairedSequence ''2'' ?A ?A = Inr (take 1000 (sorted_list_of_set ?A))"
    using pairedSequence_eq [of ?A "''2''" ?A] c ne by simp
  have "length (take 1000 (sorted_list_of_set ?A)) \<noteq> length (sorted_list_of_set ?A)"
    using l by simp
  then have "take 1000 (sorted_list_of_set ?A) \<noteq> sorted_list_of_set ?A"
    by auto
  then show ?thesis using p l c by simp
qed

text \<open>
  Claim C8, amended. For a finite left set \<open>L\<close> and any right set \<open>R\<close> of base names: when
  no name is in both, \<open>loadStereoPairs\<close> fails (no stereo pairs); otherwise the paired
  sequence is the intersection in ascending order, cut to its first 1000 names when more
  than 1000 match and the operator answers 2. Left \<open>{a, b, c}\<close> and right \<open>{b, c, d}\<close>
  give exactly \<open>[b, c]\<close>.
\<close>

theorem stereo_pairing:
  assumes "finite L"
  shows "pairedSequence choice L R =
           (if L \<inter> R = {} then Inl NoMatchingPairs
            else if card (L \<inter> R) > 1000 \<and> choice = ''2''
                 then Inr (take 1000 (sorted_list_of_set (L \<inter> R)))
            else Inr (sorted_list_of_set (L \<inter> R)))
         \<and> pairedSequence choice {''a'', ''b'', ''c''} {''b'', ''c'', ''d''} = Inr [''b'', ''c'']"
  using pairedSequence_eq [OF assms] pairedSequence_abc by simp

theorem stereo_pairing_witness:
  "finite {''a'', ''b'', ''c''}
   \<and> pairedSequence ''1'' {''a'', ''b'', ''c''} {''b'', ''c'', ''d''}
       = Inr (sorted_list_of_set ({''a'', ''b'', ''c''} \<inter> {''b'', ''c'', ''d''}))
   \<and> pairedSequence ''1'' {''a'', ''b'', ''c''} {''b'', ''c'', ''d''} = Inr [''b'', ''c'']"
proof -
  have i: "{''a'', ''b'', ''c''} \<inter> {''b'', ''c'', ''d''} = {''b'', ''c''}" by auto
  show ?thesis
    using stereo_pairing [of "{''a'', ''b'', ''c''}" "''1''" "{''b'', ''c'', ''d''}"]
    by (simp add: i)
qed

section \<open>The paths of a pair\<close>

text \<open>
  Claim C10. The slot built for a matched base name has the paths
  \<open>leftDir/name.ext\<close> and \<open>rightDir/name.ext\<close> with the same extension on both sides:
  the first of \<open>.png\<close>, \<open>.jpg\<close>, \<open>.jpeg\<close> for which the left and the right file both exist,
  and \<open>.png\<close> when there is none, whether or not those files exist.
\<close>

theorem newStereoPair_filenames:
  "leftFilename (newStereoPair ex L R name) = L @ ''/'' @ name @
      (if ex (L @ ''/'' @ name @ ''.png'') \<and> ex (R @ ''/'' @ name @ ''.png'') then ''.png''
       else if ex (L @ ''/'' @ name @ ''.jpg'') \<and> ex (R @ ''/'' @ name @ ''.jpg'') then ''.jpg''
       else if ex (L @ ''/'' @ name @ ''.jpeg'') \<and> ex (R @ ''/'' @ name @ ''.jpeg'') then ''.jpeg''
       else ''.png'')
   \<and> rightFilename (newStereoPair ex L R name) = R @ ''/'' @ name @
      (if ex (L @ ''/'' @ name @ ''.png'') \<and> ex (R @ ''/'' @ name @ ''.png'') then ''.png''
       else if ex (L @ ''/'' @ name @ ''.jpg'') \<and> ex (R @ ''/'' @ name @ ''.jpg'') then ''.jpg''
       else if ex (L @ ''/'' @ name @ ''.jpeg'') \<and> ex (R @ ''/'' @ name @ ''.jpeg'') then ''.jpeg''
       else ''.png'')
   \<and> baseName (newStereoPair ex L R name) = name"
  by (simp add: newStereoPair_def pairFilenames_def StereoImageData_ctor_def Let_def)


section \<open>The worker pool keeps its invariants\<close>

lemma pool_inv_cong:
  assumes "nextImageToLoad v' = nextImageToLoad v"
    and "backgroundLoaders v' = backgroundLoaders v"
    and "length (slots v') = length (slots v)"
  shows "pool_inv K v' = pool_inv K v"
  unfolding pool_inv_def assms ..

lemma slot_inv_cong:
  assumes "nextImageToLoad v' = nextImageToLoad v"
    and "backgroundLoaders v' = backgroundLoaders v"
    and "slots v' = slots v"
  shows "slot_inv K U P v' = slot_inv K U P v"
  unfolding slot_inv_def assms ..

lemma handleEvent_next [simp]: "nextImageToLoad (handleEvent e v) = nextImageToLoad v"
  by (cases e) (simp_all add: nextImage_def previousImage_def)

lemma handleEvent_loaders [simp]: "backgroundLoaders (handleEvent e v) = backgroundLoaders v"
  by (cases e) (simp_all add: nextImage_def previousImage_def)

lemma pool_inv_handleEvent: "pool_inv K (handleEvent e v) = pool_inv K v"
  by (rule pool_inv_cong) simp_all

lemma slot_inv_handleEvent: "slot_inv K U P (handleEvent e v) = slot_inv K U P v"
  by (rule slot_inv_cong) simp_all

lemma materializes_fields:
  assumes "materializes ensure U P"
  shows "nextImageToLoad (ensure j v) = nextImageToLoad v"
    and "backgroundLoaders (ensure j v) = backgroundLoaders v"
    and "length (slots (ensure j v)) = length (slots v)"
  using assms unfolding materializes_def by blast+

lemma materializes_U:
  assumes "materializes ensure U P" and "i < length (slots v)" and "U i (slots v ! i)"
  shows "U i (slots (ensure j v) ! i)"
  using assms unfolding materializes_def by blast

lemma materializes_P:
  assumes "materializes ensure U P" and "i < length (slots v)" and "P i (slots v ! i)"
  shows "P i (slots (ensure j v) ! i)"
  using assms unfolding materializes_def by blast

lemma render_cases: "render ensure v = v \<or> render ensure v = ensure (nat (currentIndex v)) v"
  by (simp add: render_def)

lemma pool_inv_render:
  assumes "materializes ensure U P"
  shows "pool_inv K (render ensure v) = pool_inv K v"
proof -
  have "pool_inv K (ensure (nat (currentIndex v)) v) = pool_inv K v"
    by (rule pool_inv_cong) (rule materializes_fields [OF assms])+
  then show ?thesis using render_cases [of ensure v] by auto
qed

lemma slot_inv_ensure:
  assumes "materializes ensure U P" and "slot_inv K U P v"
  shows "slot_inv K U P (ensure j v)"
  unfolding slot_inv_def materializes_fields [OF assms(1)]
proof (intro allI impI)
  fix i assume i: "i < length (slots v)"
  from assms(2) i have
    "if i < K \<or> (i < nextImageToLoad v \<and> \<not> holds (backgroundLoaders v) i)
     then P i (slots v ! i) else U i (slots v ! i)"
    unfolding slot_inv_def by blast
  then show "if i < K \<or> (i < nextImageToLoad v \<and> \<not> holds (backgroundLoaders v) i)
     then P i (slots (ensure j v) ! i) else U i (slots (ensure j v) ! i)"
    using materializes_U [OF assms(1) i, of j] materializes_P [OF assms(1) i, of j]
    by (simp split: if_splits)
qed

lemma slot_inv_render:
  assumes "materializes ensure U P" and "slot_inv K U P v"
  shows "slot_inv K U P (render ensure v)"
  using render_cases [of ensure v] slot_inv_ensure [OF assms] assms(2) by auto

lemma nth_update_Load:
  assumes "t < length ps" and "\<forall>i. ps ! t \<noteq> Load i" and "\<forall>i. q \<noteq> Load i" and "t' < length ps"
  shows "(ps[t := q] ! t' = Load i) = (ps ! t' = Load i)"
  using assms by (cases "t' = t") auto

lemma holds_update_other:
  assumes "t < length ps" and "\<forall>i. ps ! t \<noteq> Load i" and "\<forall>i. q \<noteq> Load i"
  shows "holds (ps[t := q]) i = holds ps i"
  unfolding holds_def using nth_update_Load [OF assms] by auto

lemma inv_idle_update:
  assumes p: "pool_inv K v" and s: "slot_inv K U P v"
    and t: "t < length (backgroundLoaders v)"
    and old: "\<forall>i. backgroundLoaders v ! t \<noteq> Load i" and new: "\<forall>i. q \<noteq> Load i"
    and ps': "backgroundLoaders v' = (backgroundLoaders v)[t := q]"
    and sl: "slots v' = slots v"
    and nx: "nextImageToLoad v' = nextImageToLoad v \<or>
             (nextImageToLoad v' = nextImageToLoad v + 1 \<and> length (slots v) \<le> nextImageToLoad v)"
  shows "pool_inv K v' \<and> slot_inv K U P v'"
proof
  note same = nth_update_Load [OF t old new]
  have le: "nextImageToLoad v \<le> nextImageToLoad v'" using nx by auto
  show "pool_inv K v'"
    unfolding pool_inv_def ps' sl length_list_update
  proof (intro conjI allI impI)
    show "K \<le> nextImageToLoad v'" using p le unfolding pool_inv_def by simp
  next
    fix t' i
    assume t': "t' < length (backgroundLoaders v)"
      and l: "(backgroundLoaders v)[t := q] ! t' = Load i"
    then have l0: "backgroundLoaders v ! t' = Load i" using same by simp
    with p t' have f: "K \<le> i" "i < nextImageToLoad v" "i < length (slots v)"
      and u: "\<And>t''. t'' < length (backgroundLoaders v) \<Longrightarrow> t'' \<noteq> t' \<Longrightarrow> backgroundLoaders v ! t'' \<noteq> Load i"
      unfolding pool_inv_def by blast+
    show "K \<le> i" by (rule f)
    show "i < nextImageToLoad v'" using f le by simp
    show "i < length (slots v)" by (rule f)
    fix t'' assume "t'' < length (backgroundLoaders v)" "t'' \<noteq> t'"
    then show "(backgroundLoaders v)[t := q] ! t'' \<noteq> Load i"
      using u same by simp
  qed
  show "slot_inv K U P v'"
    unfolding slot_inv_def ps' sl holds_update_other [OF t old new]
  proof (intro allI impI)
    fix i assume i: "i < length (slots v)"
    then have "(i < nextImageToLoad v') = (i < nextImageToLoad v)" using nx by auto
    moreover from s i have
      "if i < K \<or> (i < nextImageToLoad v \<and> \<not> holds (backgroundLoaders v) i)
       then P i (slots v ! i) else U i (slots v ! i)"
      unfolding slot_inv_def by blast
    ultimately show
      "if i < K \<or> (i < nextImageToLoad v' \<and> \<not> holds (backgroundLoaders v) i)
       then P i (slots v ! i) else U i (slots v ! i)" by simp
  qed
qed

lemma inv_claim:
  assumes p: "pool_inv K v" and s: "slot_inv K U P v"
    and t: "t < length (backgroundLoaders v)"
    and old: "backgroundLoaders v ! t = FetchAdd"
    and c: "nextImageToLoad v < length (slots v)"
    and ps': "backgroundLoaders v' = (backgroundLoaders v)[t := Load (nextImageToLoad v)]"
    and sl: "slots v' = slots v"
    and nx: "nextImageToLoad v' = nextImageToLoad v + 1"
  shows "pool_inv K v' \<and> slot_inv K U P v'"
proof
  let ?ps = "backgroundLoaders v" and ?c = "nextImageToLoad v"
  have below: "\<And>t' i. t' < length ?ps \<Longrightarrow> ?ps ! t' = Load i \<Longrightarrow> i < ?c"
    using p unfolding pool_inv_def by blast
  have K: "K \<le> ?c" using p unfolding pool_inv_def by blast
  have nth: "\<And>t'. t' < length ?ps \<Longrightarrow>
      ?ps[t := Load ?c] ! t' = (if t' = t then Load ?c else ?ps ! t')"
    using t by (simp add: nth_list_update)
  show "pool_inv K v'"
    unfolding pool_inv_def ps' sl nx length_list_update
  proof (rule conjI; (intro allI impI)?)
    show "K \<le> ?c + 1" using K by simp
  next
    fix t' i
    assume t': "t' < length ?ps" and l: "?ps[t := Load ?c] ! t' = Load i"
    show "K \<le> i \<and> i < ?c + 1 \<and> i < length (slots v) \<and>
          (\<forall>t''<length ?ps. t'' \<noteq> t' \<longrightarrow> ?ps[t := Load ?c] ! t'' \<noteq> Load i)"
    proof (cases "t' = t")
      case True
      then have i: "i = ?c" using l t by simp
      have "\<And>t''. t'' < length ?ps \<Longrightarrow> t'' \<noteq> t \<Longrightarrow> ?ps ! t'' \<noteq> Load ?c"
        using below by blast
      then show ?thesis using i K c True nth by auto
    next
      case False
      then have l0: "?ps ! t' = Load i" using l t' nth by simp
      with p t' have f: "K \<le> i" "i < ?c" "i < length (slots v)"
        and u: "\<And>t''. t'' < length ?ps \<Longrightarrow> t'' \<noteq> t' \<Longrightarrow> ?ps ! t'' \<noteq> Load i"
        unfolding pool_inv_def by blast+
      show ?thesis using f u nth by auto
    qed
  qed
  have h: "\<And>i. holds (?ps[t := Load ?c]) i = (i = ?c \<or> holds ?ps i)"
  proof -
    fix i
    show "holds (?ps[t := Load ?c]) i = (i = ?c \<or> holds ?ps i)"
    proof
      assume "holds (?ps[t := Load ?c]) i"
      then obtain t' where "t' < length ?ps" "?ps[t := Load ?c] ! t' = Load i"
        unfolding holds_def by auto
      then show "i = ?c \<or> holds ?ps i"
        using nth unfolding holds_def by (cases "t' = t") auto
    next
      assume a: "i = ?c \<or> holds ?ps i"
      show "holds (?ps[t := Load ?c]) i"
      proof (cases "i = ?c")
        case True
        then show ?thesis using t unfolding holds_def by auto
      next
        case False
        with a obtain t' where t': "t' < length ?ps" "?ps ! t' = Load i"
          unfolding holds_def by auto
        then have "t' \<noteq> t" using old by auto
        then show ?thesis using t' nth unfolding holds_def by auto
      qed
    qed
  qed
  have nh: "\<not> holds ?ps ?c" using below unfolding holds_def by blast
  show "slot_inv K U P v'"
    unfolding slot_inv_def ps' sl nx h
  proof (intro allI impI)
    fix i assume i: "i < length (slots v)"
    from s i have *:
      "if i < K \<or> (i < ?c \<and> \<not> holds ?ps i) then P i (slots v ! i) else U i (slots v ! i)"
      unfolding slot_inv_def by blast
    show "if i < K \<or> (i < ?c + 1 \<and> \<not> (i = ?c \<or> holds ?ps i))
          then P i (slots v ! i) else U i (slots v ! i)"
    proof (cases "i = ?c")
      case True
      then show ?thesis using * K by simp
    next
      case False
      then have "(i < ?c + 1) = (i < ?c)" by auto
      then show ?thesis using * False by simp
    qed
  qed
qed

lemma inv_load:
  assumes d: "decodes load U P" and p: "pool_inv K v" and s: "slot_inv K U P v"
    and t: "t < length (backgroundLoaders v)"
    and old: "backgroundLoaders v ! t = Load i"
    and ps': "backgroundLoaders v' = (backgroundLoaders v)[t := LoopTest]"
    and sl: "slots v' = load i (slots v)"
    and nx: "nextImageToLoad v' = nextImageToLoad v"
  shows "pool_inv K v' \<and> slot_inv K U P v'"
proof
  let ?ps = "backgroundLoaders v"
  have len: "length (load i (slots v)) = length (slots v)"
    using d unfolding decodes_def by blast
  have other: "\<And>j. j \<noteq> i \<Longrightarrow> load i (slots v) ! j = slots v ! j"
    using d unfolding decodes_def by blast
  have fin: "i < length (slots v) \<Longrightarrow> U i (slots v ! i) \<Longrightarrow> P i (load i (slots v) ! i)"
    using d unfolding decodes_def by blast
  from p t old have f: "K \<le> i" "i < nextImageToLoad v" "i < length (slots v)"
    and u: "\<And>t'. t' < length ?ps \<Longrightarrow> t' \<noteq> t \<Longrightarrow> ?ps ! t' \<noteq> Load i"
    unfolding pool_inv_def by blast+
  have nth: "\<And>t'. t' < length ?ps \<Longrightarrow>
      ?ps[t := LoopTest] ! t' = (if t' = t then LoopTest else ?ps ! t')"
    using t by (simp add: nth_list_update)
  show "pool_inv K v'"
    unfolding pool_inv_def ps' sl nx len length_list_update
  proof (rule conjI; (intro allI impI)?)
    show "K \<le> nextImageToLoad v" using p unfolding pool_inv_def by blast
  next
    fix t' j
    assume t': "t' < length ?ps" and l: "?ps[t := LoopTest] ! t' = Load j"
    then have ne: "t' \<noteq> t" using nth by auto
    then have l0: "?ps ! t' = Load j" using l t' nth by simp
    with p t' have g: "K \<le> j" "j < nextImageToLoad v" "j < length (slots v)"
      and w: "\<And>t''. t'' < length ?ps \<Longrightarrow> t'' \<noteq> t' \<Longrightarrow> ?ps ! t'' \<noteq> Load j"
      unfolding pool_inv_def by blast+
    show "K \<le> j \<and> j < nextImageToLoad v \<and> j < length (slots v) \<and>
          (\<forall>t''<length ?ps. t'' \<noteq> t' \<longrightarrow> ?ps[t := LoopTest] ! t'' \<noteq> Load j)"
      using g w nth by auto
  qed
  have h: "\<And>j. holds (?ps[t := LoopTest]) j = (j \<noteq> i \<and> holds ?ps j)"
  proof -
    fix j
    show "holds (?ps[t := LoopTest]) j = (j \<noteq> i \<and> holds ?ps j)"
    proof
      assume "holds (?ps[t := LoopTest]) j"
      then obtain t' where t': "t' < length ?ps" "?ps[t := LoopTest] ! t' = Load j"
        unfolding holds_def by auto
      then have ne: "t' \<noteq> t" using nth by auto
      then have "?ps ! t' = Load j" using t' nth by simp
      then show "j \<noteq> i \<and> holds ?ps j"
        using u [OF t'(1) ne] t'(1) unfolding holds_def by auto
    next
      assume a: "j \<noteq> i \<and> holds ?ps j"
      then obtain t' where t': "t' < length ?ps" "?ps ! t' = Load j"
        unfolding holds_def by auto
      then have "t' \<noteq> t" using old a by auto
      then show "holds (?ps[t := LoopTest]) j"
        using t' nth unfolding holds_def by auto
    qed
  qed
  have hi: "holds ?ps i" using t old unfolding holds_def by auto
  show "slot_inv K U P v'"
    unfolding slot_inv_def ps' sl nx len h
  proof (intro allI impI)
    fix j assume j: "j < length (slots v)"
    from s j have *:
      "if j < K \<or> (j < nextImageToLoad v \<and> \<not> holds ?ps j)
       then P j (slots v ! j) else U j (slots v ! j)"
      unfolding slot_inv_def by blast
    show "if j < K \<or> (j < nextImageToLoad v \<and> \<not> (j \<noteq> i \<and> holds ?ps j))
          then P j (load i (slots v) ! j) else U j (load i (slots v) ! j)"
    proof (cases "j = i")
      case True
      with * f hi have "U i (slots v ! i)" by simp
      then have "P i (load i (slots v) ! i)" using fin f by simp
      then show ?thesis using True f by simp
    next
      case False
      then show ?thesis using * other [OF False] by simp
    qed
  qed
qed

lemma loader_step_inv:
  assumes d: "decodes load U P" and p: "pool_inv K v" and s: "slot_inv K U P v"
  shows "pool_inv K (loader_step load t v) \<and> slot_inv K U P (loader_step load t v)"
proof (cases "t < length (backgroundLoaders v)")
  case False
  then have "loader_step load t v = v" by (simp add: loader_step_def)
  then show ?thesis using p s by simp
next
  case t: True
  then have nt: "\<not> length (backgroundLoaders v) \<le> t" by simp
  show ?thesis
  proof (cases "backgroundLoaders v ! t")
    case LoopTest
    show ?thesis
      by (rule inv_idle_update [OF p s t, where q = "if running v then FetchAdd else Finish"])
         (simp_all add: loader_step_def nt LoopTest)
  next
    case FetchAdd
    show ?thesis
    proof (cases "nextImageToLoad v < length (slots v)")
      case True
      then have nn: "\<not> length (slots v) \<le> nextImageToLoad v" by simp
      show ?thesis
        by (rule inv_claim [OF p s t FetchAdd True])
           (simp_all add: loader_step_def nt FetchAdd nn Let_def)
    next
      case False
      then have ge: "length (slots v) \<le> nextImageToLoad v" by simp
      show ?thesis
        by (rule inv_idle_update [OF p s t, where q = Finish])
           (simp_all add: loader_step_def nt FetchAdd Let_def ge)
    qed
  next
    case (Load i)
    show ?thesis
      by (rule inv_load [OF d p s t Load])
         (simp_all add: loader_step_def nt Load)
  next
    case Finish
    show ?thesis
      by (rule inv_idle_update [OF p s t, where q = Returned])
         (simp_all add: loader_step_def nt Finish Let_def)
  next
    case Returned
    then have "loader_step load t v = v" using nt by (simp add: loader_step_def)
    then show ?thesis using p s by simp
  qed
qed

lemma step_inv:
  assumes "decodes load U P" and "materializes ensure U P"
    and "pool_inv K v" and "slot_inv K U P v"
  shows "pool_inv K (step load ensure e v) \<and> slot_inv K U P (step load ensure e v)"
proof (cases e)
  case (Thread t)
  then show ?thesis using loader_step_inv [OF assms(1,3,4)] by simp
next
  case (Poll x)
  then show ?thesis using assms(3,4) by (simp add: pool_inv_handleEvent slot_inv_handleEvent)
next
  case Frame
  then show ?thesis
    using assms(3) slot_inv_render [OF assms(2,4)] by (simp add: pool_inv_render [OF assms(2)])
qed

lemma exec_inv:
  assumes "decodes load U P" and "materializes ensure U P"
  shows "pool_inv K v \<Longrightarrow> slot_inv K U P v \<Longrightarrow>
         pool_inv K (exec load ensure sched v) \<and> slot_inv K U P (exec load ensure sched v)"
proof (induction sched arbitrary: v)
  case Nil
  then show ?case by (simp add: exec_def)
next
  case (Cons e sched)
  from step_inv [OF assms Cons.prems]
  have "pool_inv K (step load ensure e v)" "slot_inv K U P (step load ensure e v)" by blast+
  from Cons.IH [OF this] show ?case by (simp add: exec_def)
qed

lemma set_held: "set (held ps) = {i. Load i \<in> set ps}"
proof (induction ps)
  case Nil
  then show ?case by simp
next
  case (Cons p ps)
  then show ?case by (cases p) auto
qed

lemma holds_held: "holds ps i = (i \<in> set (held ps))"
  unfolding set_held holds_def by (auto simp: in_set_conv_nth)

lemma quiescent_covered:
  assumes "slot_inv K U P v" and "quiescent v" and "i < length (slots v)"
  shows "P i (slots v ! i)"
proof -
  have "\<not> holds (backgroundLoaders v) i" using assms(2) by (simp add: holds_held quiescent_def)
  moreover have "i < nextImageToLoad v" using assms(2,3) by (simp add: quiescent_def)
  ultimately show ?thesis using assms(1,3) unfolding slot_inv_def by auto
qed


section \<open>The single viewer decodes every index once\<close>

lemma decodes_loadSurfaceInBackground:
  "decodes (loadSurfaceInBackground env) (untouched_image files) (decoded_image env files)"
  unfolding decodes_def
proof (intro conjI allI impI)
  fix i xs
  show "length (loadSurfaceInBackground env i xs) = length xs"
    by (simp add: loadSurfaceInBackground_def split: option.splits)
next
  fix i j :: nat and xs :: "ImageData list"
  assume "j \<noteq> i"
  then show "loadSurfaceInBackground env i xs ! j = xs ! j"
    by (simp add: loadSurfaceInBackground_def split: option.splits)
next
  fix i and xs :: "ImageData list"
  assume "i < length xs" and "untouched_image files i (xs ! i)"
  then show "decoded_image env files i (loadSurfaceInBackground env i xs ! i)"
    by (simp add: loadSurfaceInBackground_def untouched_image_def decoded_image_def
        ImageData_ctor_def split: option.splits)
qed

lemma ensureTextureCreated_fields:
  "nextImageToLoad (ensureTextureCreated env j v) = nextImageToLoad v"
  "backgroundLoaders (ensureTextureCreated env j v) = backgroundLoaders v"
  "length (slots (ensureTextureCreated env j v)) = length (slots v)"
  by (simp_all add: ensureTextureCreated_def Let_def split: option.splits prod.splits)

lemma ensureTextureCreated_slot:
  "slots (ensureTextureCreated env j v) ! i = slots v ! i \<or>
   (i = j \<and> surfaceLoaded (slots v ! i) \<and>
    (\<exists>tex. slots (ensureTextureCreated env j v) ! i = (slots v ! i)\<lparr>texture := tex\<rparr> \<or>
       slots (ensureTextureCreated env j v) ! i
         = (slots v ! i)\<lparr>texture := tex, textureCreated := True\<rparr>))"
proof (cases "i = j \<and> j < length (slots v)")
  case False
  then show ?thesis
    by (auto simp: ensureTextureCreated_def Let_def split: option.splits prod.splits)
next
  case True
  then show ?thesis
    by (auto simp: ensureTextureCreated_def Let_def split: option.splits prod.splits)
qed

lemma materializes_ensureTextureCreated:
  "materializes (ensureTextureCreated env) (untouched_image files) (decoded_image env files)"
  unfolding materializes_def
proof (intro allI conjI impI)
  fix j and v :: "(ImageData, 'a) Viewer" and i
  assume "i < length (slots v)" and u: "untouched_image files i (slots v ! i)"
  then have "\<not> surfaceLoaded (slots v ! i)"
    by (simp add: untouched_image_def ImageData_ctor_def)
  then have "slots (ensureTextureCreated env j v) ! i = slots v ! i"
    using ensureTextureCreated_slot [of env j v i] by auto
  then show "untouched_image files i (slots (ensureTextureCreated env j v) ! i)"
    using u by simp
next
  fix j and v :: "(ImageData, 'a) Viewer" and i
  assume "i < length (slots v)" and d: "decoded_image env files i (slots v ! i)"
  from ensureTextureCreated_slot [of env j v i]
  show "decoded_image env files i (slots (ensureTextureCreated env j v) ! i)"
  proof
    assume "slots (ensureTextureCreated env j v) ! i = slots v ! i"
    then show ?thesis using d by simp
  next
    assume "i = j \<and> surfaceLoaded (slots v ! i) \<and>
      (\<exists>tex. slots (ensureTextureCreated env j v) ! i = (slots v ! i)\<lparr>texture := tex\<rparr> \<or>
         slots (ensureTextureCreated env j v) ! i
           = (slots v ! i)\<lparr>texture := tex, textureCreated := True\<rparr>)"
    then obtain tex where l: "surfaceLoaded (slots v ! i)"
      and e: "slots (ensureTextureCreated env j v) ! i = (slots v ! i)\<lparr>texture := tex\<rparr> \<or>
         slots (ensureTextureCreated env j v) ! i
           = (slots v ! i)\<lparr>texture := tex, textureCreated := True\<rparr>"
      by blast
    from e show ?thesis using d l unfolding decoded_image_def by auto
  qed
qed (simp_all add: ensureTextureCreated_fields)

lemma loadInitialImage_fields:
  "nextImageToLoad (loadInitialImage env i v) = nextImageToLoad v"
  "backgroundLoaders (loadInitialImage env i v) = backgroundLoaders v"
  "length (slots (loadInitialImage env i v)) = length (slots v)"
  by (simp_all add: loadInitialImage_def Let_def split: option.splits prod.splits)

lemma loadInitialImage_other:
  "j \<noteq> i \<Longrightarrow> slots (loadInitialImage env i v) ! j = slots v ! j"
  by (simp add: loadInitialImage_def Let_def split: option.splits prod.splits)

lemma loadInitialImage_decoded:
  assumes "i < length (slots v)" and "untouched_image files i (slots v ! i)"
  shows "decoded_image env files i (slots (loadInitialImage env i v) ! i)"
  using assms
  by (auto simp: loadInitialImage_def Let_def untouched_image_def decoded_image_def
      ImageData_ctor_def split: option.splits prod.splits)

lemma fold_loadInitialImage:
  assumes "k \<le> length (slots v)"
    and "\<forall>i<length (slots v). untouched_image files i (slots v ! i)"
  shows "nextImageToLoad (fold (loadInitialImage env) [0..<k] v) = nextImageToLoad v
       \<and> backgroundLoaders (fold (loadInitialImage env) [0..<k] v) = backgroundLoaders v
       \<and> length (slots (fold (loadInitialImage env) [0..<k] v)) = length (slots v)
       \<and> (\<forall>i<length (slots v).
            if i < k then decoded_image env files i (slots (fold (loadInitialImage env) [0..<k] v) ! i)
            else untouched_image files i (slots (fold (loadInitialImage env) [0..<k] v) ! i))"
  using assms(1)
proof (induction k)
  case 0
  then show ?case using assms(2) by simp
next
  case (Suc k)
  let ?w = "fold (loadInitialImage env) [0..<k] v"
  have k: "k < length (slots v)" using Suc.prems by simp
  from Suc.IH k have ih: "nextImageToLoad ?w = nextImageToLoad v"
    "backgroundLoaders ?w = backgroundLoaders v"
    "length (slots ?w) = length (slots v)"
    and sl: "\<And>i. i < length (slots v) \<Longrightarrow>
        if i < k then decoded_image env files i (slots ?w ! i)
        else untouched_image files i (slots ?w ! i)"
    by simp_all
  have f: "fold (loadInitialImage env) [0..<Suc k] v = loadInitialImage env k ?w"
    by simp
  have uk: "untouched_image files k (slots ?w ! k)" using sl [OF k] by simp
  have dk: "decoded_image env files k (slots (loadInitialImage env k ?w) ! k)"
    by (rule loadInitialImage_decoded) (simp_all add: ih k uk)
  show ?case
    unfolding f loadInitialImage_fields ih
  proof (intro conjI allI impI refl)
    fix i assume i: "i < length (slots v)"
    show "if i < Suc k then decoded_image env files i (slots (loadInitialImage env k ?w) ! i)
          else untouched_image files i (slots (loadInitialImage env k ?w) ! i)"
    proof (cases "i = k")
      case True
      then show ?thesis using dk by simp
    next
      case False
      then have "(i < Suc k) = (i < k)" by auto
      then show ?thesis using sl [OF i] loadInitialImage_other [OF False, of env ?w] by simp
    qed
  qed
qed

lemma startBackgroundLoading_fields:
  "nextImageToLoad (startBackgroundLoading v) = nextImageToLoad v"
  "slots (startBackgroundLoading v) = slots v"
  by (simp_all add: startBackgroundLoading_def)

lemma startBackgroundLoading_loaders:
  "backgroundLoaders v = [] \<Longrightarrow>
   t < length (backgroundLoaders (startBackgroundLoading v)) \<Longrightarrow>
   backgroundLoaders (startBackgroundLoading v) ! t = LoopTest"
  by (simp add: startBackgroundLoading_def split: if_splits)

lemma initializeImages_eager:
  assumes "backgroundLoaders v = []"
  shows "nextImageToLoad (initializeImages env files v) = min INITIAL_LOAD_COUNT (length files)
       \<and> length (slots (initializeImages env files v)) = length files
       \<and> (\<forall>i<length files.
            if i < min INITIAL_LOAD_COUNT (length files)
            then decoded_image env files i (slots (initializeImages env files v) ! i)
            else untouched_image files i (slots (initializeImages env files v) ! i))
       \<and> (\<forall>t<length (backgroundLoaders (initializeImages env files v)).
            backgroundLoaders (initializeImages env files v) ! t = LoopTest)"
proof -
  define v0 where "v0 = v\<lparr>slots := map (\<lambda>f. ImageData_ctor\<lparr>filename := f\<rparr>) files\<rparr>"
  define k where "k = min INITIAL_LOAD_COUNT (length files)"
  define w where "w = fold (loadInitialImage env) [0..<k] v0"
  have len: "length (slots v0) = length files" by (simp add: v0_def)
  have b0: "backgroundLoaders v0 = []" using assms by (simp add: v0_def)
  have u: "\<forall>i<length (slots v0). untouched_image files i (slots v0 ! i)"
    by (simp add: untouched_image_def v0_def)
  have "k \<le> length (slots v0)" by (simp add: k_def len)
  from fold_loadInitialImage [OF this u, of env]
  have w: "backgroundLoaders w = []" "length (slots w) = length files"
    and sl: "\<forall>i<length files. if i < k then decoded_image env files i (slots w ! i)
         else untouched_image files i (slots w ! i)"
    unfolding w_def [symmetric] len b0 by blast+
  have init: "initializeImages env files v = startBackgroundLoading (w\<lparr>nextImageToLoad := k\<rparr>)"
    by (simp add: initializeImages_def loadInitialImages_def Let_def w_def k_def v0_def)
  have ps: "\<forall>t<length (backgroundLoaders (startBackgroundLoading (w\<lparr>nextImageToLoad := k\<rparr>))).
      backgroundLoaders (startBackgroundLoading (w\<lparr>nextImageToLoad := k\<rparr>)) ! t = LoopTest"
    using startBackgroundLoading_loaders [of "w\<lparr>nextImageToLoad := k\<rparr>"] w(1) by simp
  show ?thesis
    unfolding init startBackgroundLoading_fields k_def [symmetric]
    using w(2) sl ps by simp
qed

lemma initializeImages_inv:
  assumes "backgroundLoaders v = []"
  shows "pool_inv (min INITIAL_LOAD_COUNT (length files)) (initializeImages env files v)
       \<and> slot_inv (min INITIAL_LOAD_COUNT (length files))
            (untouched_image files) (decoded_image env files) (initializeImages env files v)"
proof -
  let ?v = "initializeImages env files v" and ?k = "min INITIAL_LOAD_COUNT (length files)"
  from initializeImages_eager [OF assms, of env files]
  have n: "nextImageToLoad ?v = ?k" and l: "length (slots ?v) = length files"
    and sl: "\<And>i. i < length files \<Longrightarrow>
        if i < ?k then decoded_image env files i (slots ?v ! i)
        else untouched_image files i (slots ?v ! i)"
    and ps: "\<And>t. t < length (backgroundLoaders ?v) \<Longrightarrow> backgroundLoaders ?v ! t = LoopTest"
    by blast+
  have p: "pool_inv ?k ?v"
    unfolding pool_inv_def n using ps by auto
  have "slot_inv ?k (untouched_image files) (decoded_image env files) ?v"
    unfolding slot_inv_def n l
  proof (intro allI impI)
    fix i assume i: "i < length files"
    show "if i < ?k \<or> (i < ?k \<and> \<not> holds (backgroundLoaders ?v) i)
          then decoded_image env files i (slots ?v ! i)
          else untouched_image files i (slots ?v ! i)"
      using sl [OF i] by (simp split: if_splits)
  qed
  with p show ?thesis ..
qed

lemma exec_length:
  assumes "decodes load U P" and "materializes ensure U P"
  shows "length (slots (exec load ensure sched v)) = length (slots v)"
proof (induction sched arbitrary: v)
  case Nil
  then show ?case by (simp add: exec_def)
next
  case (Cons e sched)
  have "length (slots (step load ensure e v)) = length (slots v)"
  proof (cases e)
    case (Thread t)
    have "\<And>i xs. length (load i xs) = length xs" using assms(1) unfolding decodes_def by blast
    then show ?thesis using Thread
      by (simp add: loader_step_def Let_def split: loader.splits)
  next
    case (Poll x)
    then show ?thesis by simp
  next
    case Frame
    then show ?thesis
      using render_cases [of ensure v] materializes_fields(3) [OF assms(2)] by auto
  qed
  with Cons.IH [of "step load ensure e v"] show ?case by (simp add: exec_def)
qed

lemma image_pool_coverage:
  assumes "backgroundLoaders v = []"
    and "quiescent (exec (loadSurfaceInBackground env) (ensureTextureCreated env) sched
                      (initializeImages env files v))"
    and "i < length files"
  shows "decoded_image env files i
           (slots (exec (loadSurfaceInBackground env) (ensureTextureCreated env) sched
                      (initializeImages env files v)) ! i)"
proof -
  let ?start = "initializeImages env files v"
  let ?v = "exec (loadSurfaceInBackground env) (ensureTextureCreated env) sched ?start"
  note d = decodes_loadSurfaceInBackground [of env files]
  note m = materializes_ensureTextureCreated [of env files]
  from initializeImages_inv [OF assms(1), of files env]
  have "pool_inv (min INITIAL_LOAD_COUNT (length files)) ?start"
    "slot_inv (min INITIAL_LOAD_COUNT (length files)) (untouched_image files) (decoded_image env files) ?start"
    by blast+
  from exec_inv [OF d m this, of sched]
  have s: "slot_inv (min INITIAL_LOAD_COUNT (length files)) (untouched_image files)
             (decoded_image env files) ?v" by blast
  have "length (slots ?v) = length files"
    using exec_length [OF d m, of sched ?start] initializeImages_eager [OF assms(1), of env files]
    by simp
  with assms(3) have "i < length (slots ?v)" by simp
  from quiescent_covered [OF s assms(2) this] show ?thesis .
qed


section \<open>The stereo viewer decodes every index once\<close>

lemma decodes_loadStereoPairInBackground:
  "decodes (loadStereoPairInBackground env) (untouched_pair init) (decoded_pair env init)"
  unfolding decodes_def
proof (intro conjI allI impI)
  fix i xs
  show "length (loadStereoPairInBackground env i xs) = length xs"
    by (simp add: loadStereoPairInBackground_def Let_def)
next
  fix i j :: nat and xs :: "StereoImageData list"
  assume "j \<noteq> i"
  then show "loadStereoPairInBackground env i xs ! j = xs ! j"
    by (simp add: loadStereoPairInBackground_def Let_def)
next
  fix i and xs :: "StereoImageData list"
  assume "i < length xs" and "untouched_pair init i (xs ! i)"
  then show "decoded_pair env init i (loadStereoPairInBackground env i xs ! i)"
    by (simp add: loadStereoPairInBackground_def untouched_pair_def decoded_pair_def
        StereoImageData_ctor_def Let_def split: option.splits)
qed

lemma ensureLeftTexture_fields:
  "nextImageToLoad (ensureLeftTexture env j v) = nextImageToLoad v"
  "backgroundLoaders (ensureLeftTexture env j v) = backgroundLoaders v"
  "length (slots (ensureLeftTexture env j v)) = length (slots v)"
  by (simp_all add: ensureLeftTexture_def Let_def split: option.splits prod.splits)

lemma ensureRightTexture_fields:
  "nextImageToLoad (ensureRightTexture env j v) = nextImageToLoad v"
  "backgroundLoaders (ensureRightTexture env j v) = backgroundLoaders v"
  "length (slots (ensureRightTexture env j v)) = length (slots v)"
  by (simp_all add: ensureRightTexture_def Let_def split: option.splits prod.splits)

lemma ensureLeftTexture_slot:
  assumes "i < length (slots v)"
  shows "slots (ensureLeftTexture env j v) ! i = slots v ! i \<or>
   (leftSurfaceLoaded (slots v ! i) \<and>
    (\<exists>tex. slots (ensureLeftTexture env j v) ! i = (slots v ! i)\<lparr>leftTexture := tex\<rparr> \<or>
       slots (ensureLeftTexture env j v) ! i
         = (slots v ! i)\<lparr>leftTexture := tex, leftTextureCreated := True\<rparr>))"
proof (cases "i = j")
  case False
  then show ?thesis
    by (simp add: ensureLeftTexture_def Let_def split: option.splits prod.splits)
next
  case True
  then show ?thesis using assms
    by (auto simp: ensureLeftTexture_def Let_def split: option.splits prod.splits)
qed

lemma ensureRightTexture_slot:
  assumes "i < length (slots v)"
  shows "slots (ensureRightTexture env j v) ! i = slots v ! i \<or>
   (rightSurfaceLoaded (slots v ! i) \<and>
    (\<exists>tex. slots (ensureRightTexture env j v) ! i = (slots v ! i)\<lparr>rightTexture := tex\<rparr> \<or>
       slots (ensureRightTexture env j v) ! i
         = (slots v ! i)\<lparr>rightTexture := tex, rightTextureCreated := True\<rparr>))"
proof (cases "i = j")
  case False
  then show ?thesis
    by (simp add: ensureRightTexture_def Let_def split: option.splits prod.splits)
next
  case True
  then show ?thesis using assms
    by (auto simp: ensureRightTexture_def Let_def split: option.splits prod.splits)
qed

lemma decoded_pair_leftTexture:
  assumes "decoded_pair env init i s" and "leftSurfaceLoaded s"
  shows "decoded_pair env init i (s\<lparr>leftTexture := tex\<rparr>)"
    and "decoded_pair env init i (s\<lparr>leftTexture := tex, leftTextureCreated := True\<rparr>)"
  using assms by (auto simp: decoded_pair_def)

lemma decoded_pair_rightTexture:
  assumes "decoded_pair env init i s" and "rightSurfaceLoaded s"
  shows "decoded_pair env init i (s\<lparr>rightTexture := tex\<rparr>)"
    and "decoded_pair env init i (s\<lparr>rightTexture := tex, rightTextureCreated := True\<rparr>)"
  using assms by (auto simp: decoded_pair_def)

lemma untouched_pair_unloaded:
  assumes "untouched_pair init i s"
  shows "\<not> leftSurfaceLoaded s" and "\<not> rightSurfaceLoaded s"
  using assms by (simp_all add: untouched_pair_def StereoImageData_ctor_def)

lemma materializes_ensureLeftTexture:
  "materializes (ensureLeftTexture env) (untouched_pair init) (decoded_pair env init)"
  unfolding materializes_def
proof (intro allI conjI impI)
  fix j and v :: "(StereoImageData, 'a) Viewer" and i
  assume i: "i < length (slots v)" and u: "untouched_pair init i (slots v ! i)"
  from ensureLeftTexture_slot [OF i, of env j] untouched_pair_unloaded(1) [OF u]
  have "slots (ensureLeftTexture env j v) ! i = slots v ! i" by blast
  then show "untouched_pair init i (slots (ensureLeftTexture env j v) ! i)"
    using u by simp
next
  fix j and v :: "(StereoImageData, 'a) Viewer" and i
  assume i: "i < length (slots v)" and d: "decoded_pair env init i (slots v ! i)"
  from ensureLeftTexture_slot [OF i, of env j]
  show "decoded_pair env init i (slots (ensureLeftTexture env j v) ! i)"
  proof (elim disjE conjE exE)
    assume "slots (ensureLeftTexture env j v) ! i = slots v ! i"
    then show ?thesis using d by simp
  next
    fix tex
    assume "leftSurfaceLoaded (slots v ! i)"
      and "slots (ensureLeftTexture env j v) ! i = (slots v ! i)\<lparr>leftTexture := tex\<rparr>"
    then show ?thesis using decoded_pair_leftTexture(1) [OF d] by simp
  next
    fix tex
    assume "leftSurfaceLoaded (slots v ! i)"
      and "slots (ensureLeftTexture env j v) ! i
             = (slots v ! i)\<lparr>leftTexture := tex, leftTextureCreated := True\<rparr>"
    then show ?thesis using decoded_pair_leftTexture(2) [OF d] by simp
  qed
qed (simp_all add: ensureLeftTexture_fields)

lemma materializes_ensureRightTexture:
  "materializes (ensureRightTexture env) (untouched_pair init) (decoded_pair env init)"
  unfolding materializes_def
proof (intro allI conjI impI)
  fix j and v :: "(StereoImageData, 'a) Viewer" and i
  assume i: "i < length (slots v)" and u: "untouched_pair init i (slots v ! i)"
  from ensureRightTexture_slot [OF i, of env j] untouched_pair_unloaded(2) [OF u]
  have "slots (ensureRightTexture env j v) ! i = slots v ! i" by blast
  then show "untouched_pair init i (slots (ensureRightTexture env j v) ! i)"
    using u by simp
next
  fix j and v :: "(StereoImageData, 'a) Viewer" and i
  assume i: "i < length (slots v)" and d: "decoded_pair env init i (slots v ! i)"
  from ensureRightTexture_slot [OF i, of env j]
  show "decoded_pair env init i (slots (ensureRightTexture env j v) ! i)"
  proof (elim disjE conjE exE)
    assume "slots (ensureRightTexture env j v) ! i = slots v ! i"
    then show ?thesis using d by simp
  next
    fix tex
    assume "rightSurfaceLoaded (slots v ! i)"
      and "slots (ensureRightTexture env j v) ! i = (slots v ! i)\<lparr>rightTexture := tex\<rparr>"
    then show ?thesis using decoded_pair_rightTexture(1) [OF d] by simp
  next
    fix tex
    assume "rightSurfaceLoaded (slots v ! i)"
      and "slots (ensureRightTexture env j v) ! i
             = (slots v ! i)\<lparr>rightTexture := tex, rightTextureCreated := True\<rparr>"
    then show ?thesis using decoded_pair_rightTexture(2) [OF d] by simp
  qed
qed (simp_all add: ensureRightTexture_fields)

lemma materializes_compose:
  assumes f: "materializes f U P" and g: "materializes g U P"
  shows "materializes (\<lambda>j v. if j \<ge> length (slots v) then v else g j (f j v)) U P"
  unfolding materializes_def
proof (intro allI)
  fix j and v :: "('a, 'b) Viewer"
  show "nextImageToLoad (if length (slots v) \<le> j then v else g j (f j v)) = nextImageToLoad v \<and>
       backgroundLoaders (if length (slots v) \<le> j then v else g j (f j v)) = backgroundLoaders v \<and>
       length (slots (if length (slots v) \<le> j then v else g j (f j v))) = length (slots v) \<and>
       (\<forall>i<length (slots v).
           (U i (slots v ! i) \<longrightarrow> U i (slots (if length (slots v) \<le> j then v else g j (f j v)) ! i)) \<and>
           (P i (slots v ! i) \<longrightarrow> P i (slots (if length (slots v) \<le> j then v else g j (f j v)) ! i)))"
  proof (cases "length (slots v) \<le> j")
    case True
    then show ?thesis by simp
  next
    case False
    have l: "length (slots (f j v)) = length (slots v)" by (rule materializes_fields [OF f])
    have "\<And>i. i < length (slots v) \<Longrightarrow> U i (slots v ! i) \<Longrightarrow> U i (slots (g j (f j v)) ! i)"
    proof -
      fix i assume i: "i < length (slots v)" and u: "U i (slots v ! i)"
      have "U i (slots (f j v) ! i)" by (rule materializes_U [OF f i u])
      moreover have "i < length (slots (f j v))" using i l by simp
      ultimately show "U i (slots (g j (f j v)) ! i)" by (rule materializes_U [OF g, rotated])
    qed
    moreover have "\<And>i. i < length (slots v) \<Longrightarrow> P i (slots v ! i) \<Longrightarrow> P i (slots (g j (f j v)) ! i)"
    proof -
      fix i assume i: "i < length (slots v)" and u: "P i (slots v ! i)"
      have "P i (slots (f j v) ! i)" by (rule materializes_P [OF f i u])
      moreover have "i < length (slots (f j v))" using i l by simp
      ultimately show "P i (slots (g j (f j v)) ! i)" by (rule materializes_P [OF g, rotated])
    qed
    ultimately show ?thesis
      using False by (simp add: materializes_fields [OF g] materializes_fields [OF f])
  qed
qed

lemma materializes_ensureStereoTexturesCreated:
  "materializes (ensureStereoTexturesCreated env) (untouched_pair init) (decoded_pair env init)"
proof -
  have e: "ensureStereoTexturesCreated env =
      (\<lambda>j v. if j \<ge> length (slots v) then v else ensureRightTexture env j (ensureLeftTexture env j v))"
    by (intro ext) (simp add: ensureStereoTexturesCreated_def)
  show ?thesis
    unfolding e
    by (rule materializes_compose [OF materializes_ensureLeftTexture materializes_ensureRightTexture])
qed

lemma storeInitialLeft_fields:
  "nextImageToLoad (storeInitialLeft env i v) = nextImageToLoad v"
  "backgroundLoaders (storeInitialLeft env i v) = backgroundLoaders v"
  "length (slots (storeInitialLeft env i v)) = length (slots v)"
  by (simp_all add: storeInitialLeft_def Let_def split: option.splits prod.splits)

lemma storeInitialRight_fields:
  "nextImageToLoad (storeInitialRight env i v) = nextImageToLoad v"
  "backgroundLoaders (storeInitialRight env i v) = backgroundLoaders v"
  "length (slots (storeInitialRight env i v)) = length (slots v)"
  by (simp_all add: storeInitialRight_def Let_def split: option.splits prod.splits)

lemma storeInitialLeft_other:
  "j \<noteq> i \<Longrightarrow> slots (storeInitialLeft env i v) ! j = slots v ! j"
  by (simp add: storeInitialLeft_def Let_def split: option.splits prod.splits)

lemma storeInitialRight_other:
  "j \<noteq> i \<Longrightarrow> slots (storeInitialRight env i v) ! j = slots v ! j"
  by (simp add: storeInitialRight_def Let_def split: option.splits prod.splits)

lemma storeInitialLeft_decoded:
  assumes "i < length (slots v)" and "untouched_pair init i (slots v ! i)"
  shows "left_decoded_pair env init i (slots (storeInitialLeft env i v) ! i)"
  using assms
  by (auto simp: storeInitialLeft_def Let_def untouched_pair_def left_decoded_pair_def
      StereoImageData_ctor_def split: option.splits prod.splits)

lemma storeInitialRight_decoded:
  assumes "i < length (slots v)" and "left_decoded_pair env init i (slots v ! i)"
  shows "decoded_pair env init i (slots (storeInitialRight env i v) ! i)"
  using assms
  by (auto simp: storeInitialRight_def Let_def decoded_pair_def left_decoded_pair_def
      split: option.splits prod.splits)

lemma loadInitialStereoPair_fields:
  "nextImageToLoad (loadInitialStereoPair env i v) = nextImageToLoad v"
  "backgroundLoaders (loadInitialStereoPair env i v) = backgroundLoaders v"
  "length (slots (loadInitialStereoPair env i v)) = length (slots v)"
  by (simp_all add: loadInitialStereoPair_def storeInitialLeft_fields storeInitialRight_fields)

lemma loadInitialStereoPair_other:
  "j \<noteq> i \<Longrightarrow> slots (loadInitialStereoPair env i v) ! j = slots v ! j"
  by (simp add: loadInitialStereoPair_def storeInitialLeft_other storeInitialRight_other)

lemma loadInitialStereoPair_decoded:
  assumes "i < length (slots v)" and "untouched_pair init i (slots v ! i)"
  shows "decoded_pair env init i (slots (loadInitialStereoPair env i v) ! i)"
  unfolding loadInitialStereoPair_def
  by (rule storeInitialRight_decoded)
     (simp_all add: storeInitialLeft_fields assms storeInitialLeft_decoded)

lemma fold_eager:
  assumes next_same: "\<And>i v. nextImageToLoad (body i v) = nextImageToLoad v"
    and loaders_same: "\<And>i v. backgroundLoaders (body i v) = backgroundLoaders v"
    and length_same: "\<And>i v. length (slots (body i v)) = length (slots v)"
    and other: "\<And>i j v. j \<noteq> i \<Longrightarrow> slots (body i v) ! j = slots v ! j"
    and dec: "\<And>i v. i < length (slots v) \<Longrightarrow> U i (slots v ! i) \<Longrightarrow> P i (slots (body i v) ! i)"
    and k: "k \<le> length (slots v)"
    and u: "\<forall>i<length (slots v). U i (slots v ! i)"
  shows "nextImageToLoad (fold body [0..<k] v) = nextImageToLoad v
       \<and> backgroundLoaders (fold body [0..<k] v) = backgroundLoaders v
       \<and> length (slots (fold body [0..<k] v)) = length (slots v)
       \<and> (\<forall>i<length (slots v).
            if i < k then P i (slots (fold body [0..<k] v) ! i)
            else U i (slots (fold body [0..<k] v) ! i))"
  using k
proof (induction k)
  case 0
  then show ?case using u by simp
next
  case (Suc k)
  define w where "w = fold body [0..<k] v"
  have k: "k < length (slots v)" using Suc.prems by simp
  from Suc.IH k have ih: "nextImageToLoad w = nextImageToLoad v"
    "backgroundLoaders w = backgroundLoaders v"
    "length (slots w) = length (slots v)"
    and sl: "\<And>i. i < length (slots v) \<Longrightarrow>
        if i < k then P i (slots w ! i) else U i (slots w ! i)"
    unfolding w_def by simp_all
  have f: "fold body [0..<Suc k] v = body k w"
    by (simp add: w_def)
  have uk: "U k (slots w ! k)" using sl [OF k] by simp
  have dk: "P k (slots (body k w) ! k)"
    by (rule dec) (simp_all add: ih k uk)
  show ?case
    unfolding f next_same loaders_same length_same ih
  proof (intro conjI allI impI refl)
    fix i assume i: "i < length (slots v)"
    show "if i < Suc k then P i (slots (body k w) ! i) else U i (slots (body k w) ! i)"
    proof (cases "i = k")
      case True
      then show ?thesis using dk by simp
    next
      case False
      then have "(i < Suc k) = (i < k)" by auto
      then show ?thesis using sl [OF i] other [OF False, of w] by simp
    qed
  qed
qed

lemma newStereoPair_untouched:
  "newStereoPair ex L R name =
     StereoImageData_ctor\<lparr>baseName := baseName (newStereoPair ex L R name),
       leftFilename := leftFilename (newStereoPair ex L R name),
       rightFilename := rightFilename (newStereoPair ex L R name)\<rparr>"
  by (simp add: newStereoPair_def Let_def StereoImageData_ctor_def split: prod.splits)

lemma initializeStereoPairs_eager:
  assumes "backgroundLoaders v = []"
    and init: "init = map (newStereoPair (fs_exists env) L R) names"
  shows "nextImageToLoad (initializeStereoPairs env L R names v) = min INITIAL_LOAD_COUNT (length names)
       \<and> length (slots (initializeStereoPairs env L R names v)) = length names
       \<and> (\<forall>i<length names.
            if i < min INITIAL_LOAD_COUNT (length names)
            then decoded_pair env init i (slots (initializeStereoPairs env L R names v) ! i)
            else untouched_pair init i (slots (initializeStereoPairs env L R names v) ! i))
       \<and> (\<forall>t<length (backgroundLoaders (initializeStereoPairs env L R names v)).
            backgroundLoaders (initializeStereoPairs env L R names v) ! t = LoopTest)"
proof -
  define start where "start = v\<lparr>slots := init\<rparr>"
  define k where "k = min INITIAL_LOAD_COUNT (length names)"
  define w where "w = fold (loadInitialStereoPair env) [0..<k] start"
  have len: "length (slots start) = length names" by (simp add: start_def init)
  have b0: "backgroundLoaders start = []" using assms by (simp add: start_def)
  have u: "\<forall>i<length (slots start). untouched_pair init i (slots start ! i)"
  proof (intro allI impI)
    fix i assume "i < length (slots start)"
    then have "slots start ! i = newStereoPair (fs_exists env) L R (names ! i)"
      "init ! i = newStereoPair (fs_exists env) L R (names ! i)"
      by (simp_all add: start_def init)
    then show "untouched_pair init i (slots start ! i)"
      unfolding untouched_pair_def using newStereoPair_untouched by metis
  qed
  have kl: "k \<le> length (slots start)" by (simp add: k_def len)
  have "nextImageToLoad (fold (loadInitialStereoPair env) [0..<k] start) = nextImageToLoad start
       \<and> backgroundLoaders (fold (loadInitialStereoPair env) [0..<k] start) = backgroundLoaders start
       \<and> length (slots (fold (loadInitialStereoPair env) [0..<k] start)) = length (slots start)
       \<and> (\<forall>i<length (slots start).
            if i < k then decoded_pair env init i (slots (fold (loadInitialStereoPair env) [0..<k] start) ! i)
            else untouched_pair init i (slots (fold (loadInitialStereoPair env) [0..<k] start) ! i))"
  proof (rule fold_eager [where body = "loadInitialStereoPair env"
        and U = "untouched_pair init" and P = "decoded_pair env init"])
    show "k \<le> length (slots start)" by (rule kl)
    show "\<forall>i<length (slots start). untouched_pair init i (slots start ! i)" by (rule u)
  qed (simp_all add: loadInitialStereoPair_fields loadInitialStereoPair_other
        loadInitialStereoPair_decoded)
  then have w: "backgroundLoaders w = []" "length (slots w) = length names"
    and sl: "\<forall>i<length names. if i < k then decoded_pair env init i (slots w ! i)
         else untouched_pair init i (slots w ! i)"
    unfolding w_def [symmetric] len b0 by blast+
  have eq: "initializeStereoPairs env L R names v = startBackgroundLoading (w\<lparr>nextImageToLoad := k\<rparr>)"
    by (simp add: initializeStereoPairs_def loadInitialStereoPairs_def Let_def w_def k_def start_def init)
  have ps: "\<forall>t<length (backgroundLoaders (startBackgroundLoading (w\<lparr>nextImageToLoad := k\<rparr>))).
      backgroundLoaders (startBackgroundLoading (w\<lparr>nextImageToLoad := k\<rparr>)) ! t = LoopTest"
    using startBackgroundLoading_loaders [of "w\<lparr>nextImageToLoad := k\<rparr>"] w(1) by simp
  show ?thesis
    unfolding eq startBackgroundLoading_fields k_def [symmetric]
    using w(2) sl ps by simp
qed

lemma eager_inv:
  assumes n: "nextImageToLoad v = k" and l: "length (slots v) = n"
    and sl: "\<forall>i<n. if i < k then P i (slots v ! i) else U i (slots v ! i)"
    and ps: "\<forall>t<length (backgroundLoaders v). backgroundLoaders v ! t = LoopTest"
  shows "pool_inv k v \<and> slot_inv k U P v"
proof
  show "pool_inv k v" unfolding pool_inv_def n using ps by auto
  show "slot_inv k U P v"
    unfolding slot_inv_def n l
  proof (intro allI impI)
    fix i assume i: "i < n"
    show "if i < k \<or> (i < k \<and> \<not> holds (backgroundLoaders v) i)
          then P i (slots v ! i) else U i (slots v ! i)"
      using sl i by (simp split: if_splits)
  qed
qed

lemma pair_pool_coverage:
  assumes "backgroundLoaders v = []"
    and init: "init = map (newStereoPair (fs_exists env) L R) names"
    and "quiescent (exec (loadStereoPairInBackground env) (ensureStereoTexturesCreated env) sched
                      (initializeStereoPairs env L R names v))"
    and "i < length names"
  shows "decoded_pair env init i
           (slots (exec (loadStereoPairInBackground env) (ensureStereoTexturesCreated env) sched
                      (initializeStereoPairs env L R names v)) ! i)"
proof -
  let ?start = "initializeStereoPairs env L R names v"
  let ?v = "exec (loadStereoPairInBackground env) (ensureStereoTexturesCreated env) sched ?start"
  note d = decodes_loadStereoPairInBackground [of env init]
  note m = materializes_ensureStereoTexturesCreated [of env init]
  from initializeStereoPairs_eager [OF assms(1) init]
  have e: "nextImageToLoad ?start = min INITIAL_LOAD_COUNT (length names)"
    "length (slots ?start) = length names"
    "\<forall>i<length names.
            if i < min INITIAL_LOAD_COUNT (length names)
            then decoded_pair env init i (slots ?start ! i)
            else untouched_pair init i (slots ?start ! i)"
    "\<forall>t<length (backgroundLoaders ?start). backgroundLoaders ?start ! t = LoopTest"
    by blast+
  from eager_inv [where U = "untouched_pair init" and P = "decoded_pair env init", OF e]
  have "pool_inv (min INITIAL_LOAD_COUNT (length names)) ?start"
    "slot_inv (min INITIAL_LOAD_COUNT (length names)) (untouched_pair init) (decoded_pair env init) ?start"
    by blast+
  from exec_inv [OF d m this, of sched]
  have s: "slot_inv (min INITIAL_LOAD_COUNT (length names)) (untouched_pair init)
             (decoded_pair env init) ?v" by blast
  have "length (slots ?v) = length names"
    using exec_length [OF d m, of sched ?start] e(2) by simp
  with assms(4) have "i < length (slots ?v)" by simp
  from quiescent_covered [OF s assms(3) this] show ?thesis .
qed


section \<open>Claims and quiescence\<close>

lemma loader_step_next_mono: "nextImageToLoad v \<le> nextImageToLoad (loader_step load t v)"
  by (simp add: loader_step_def Let_def split: loader.splits)

lemma loader_step_length:
  assumes "\<And>i xs. length (load i xs) = length xs"
  shows "length (slots (loader_step load t v)) = length (slots v)"
  using assms by (simp add: loader_step_def Let_def split: loader.splits)

lemma step_next_mono:
  assumes "materializes ensure U P"
  shows "nextImageToLoad v \<le> nextImageToLoad (step load ensure e v)"
proof (cases e)
  case (Thread t)
  then show ?thesis by (simp add: loader_step_next_mono)
next
  case (Poll x)
  then show ?thesis by simp
next
  case Frame
  then show ?thesis
    using render_cases [of ensure v] materializes_fields(1) [OF assms] by auto
qed

lemma step_length:
  assumes "decodes load U P" and "materializes ensure U P"
  shows "length (slots (step load ensure e v)) = length (slots v)"
  using exec_length [OF assms, of "[e]" v] by (simp add: exec_def)

lemma claims_bounds:
  assumes d: "decodes load U P" and m: "materializes ensure U P"
  shows "(t, i) \<in> set (claims load ensure sched v) \<Longrightarrow>
         nextImageToLoad v \<le> i \<and> i < length (slots v)"
proof (induction sched arbitrary: v)
  case Nil
  then show ?case by simp
next
  case (Cons e sched)
  let ?w = "step load ensure e v"
  have rest: "(t, i) \<in> set (claims load ensure sched ?w) \<Longrightarrow>
      nextImageToLoad v \<le> i \<and> i < length (slots v)"
    using Cons.IH [of ?w] step_next_mono [OF m, of v load e] step_length [OF d m, of e v]
    by auto
  show ?case
  proof (cases e)
    case (Thread u)
    then show ?thesis using Cons.prems rest by (auto split: if_splits)
  next
    case (Poll x)
    then show ?thesis using Cons.prems rest by simp
  next
    case Frame
    then show ?thesis using Cons.prems rest by simp
  qed
qed

lemma claims_distinct:
  assumes d: "decodes load U P" and m: "materializes ensure U P"
  shows "distinct (map snd (claims load ensure sched v))"
proof (induction sched arbitrary: v)
  case Nil
  then show ?case by simp
next
  case (Cons e sched)
  show ?case
  proof (cases e)
    case (Thread u)
    let ?w = "step load ensure (Thread u) v"
    show ?thesis
    proof (cases "u < length (backgroundLoaders v) \<and> backgroundLoaders v ! u = FetchAdd
         \<and> nextImageToLoad v < length (slots v)")
      case True
      then have n: "nextImageToLoad ?w = nextImageToLoad v + 1"
        by (simp add: loader_step_def Let_def)
      have "nextImageToLoad v \<notin> snd ` set (claims load ensure sched ?w)"
      proof
        assume "nextImageToLoad v \<in> snd ` set (claims load ensure sched ?w)"
        then obtain t where "(t, nextImageToLoad v) \<in> set (claims load ensure sched ?w)"
          by auto
        from claims_bounds [OF d m this] n show False by simp
      qed
      then show ?thesis using Thread True Cons.IH [of ?w] by simp
    next
      case False
      then show ?thesis using Thread Cons.IH [of ?w] by auto
    qed
  next
    case (Poll x)
    then show ?thesis using Cons.IH by simp
  next
    case Frame
    then show ?thesis using Cons.IH by simp
  qed
qed

lemma pool_inv_unique:
  assumes "pool_inv K v" and "t < length (backgroundLoaders v)" and "t' < length (backgroundLoaders v)"
    and "backgroundLoaders v ! t = Load i" and "backgroundLoaders v ! t' = Load i"
  shows "t = t'"
  using assms unfolding pool_inv_def by blast

lemma image_pool_inv:
  assumes "backgroundLoaders v = []"
  shows "pool_inv (min INITIAL_LOAD_COUNT (length files))
           (exec (loadSurfaceInBackground env) (ensureTextureCreated env) sched
              (initializeImages env files v))"
proof -
  from initializeImages_inv [OF assms, of files env]
  have "pool_inv (min INITIAL_LOAD_COUNT (length files)) (initializeImages env files v)"
    "slot_inv (min INITIAL_LOAD_COUNT (length files)) (untouched_image files)
       (decoded_image env files) (initializeImages env files v)"
    by blast+
  from exec_inv [OF decodes_loadSurfaceInBackground materializes_ensureTextureCreated this, of sched]
  show ?thesis by blast
qed

lemma pair_pool_inv:
  assumes "backgroundLoaders v = []"
  shows "pool_inv (min INITIAL_LOAD_COUNT (length names))
           (exec (loadStereoPairInBackground env) (ensureStereoTexturesCreated env) sched
              (initializeStereoPairs env L R names v))"
proof -
  define init where "init = map (newStereoPair (fs_exists env) L R) names"
  let ?start = "initializeStereoPairs env L R names v"
  from initializeStereoPairs_eager [OF assms init_def]
  have e: "nextImageToLoad ?start = min INITIAL_LOAD_COUNT (length names)"
    "length (slots ?start) = length names"
    "\<forall>i<length names.
            if i < min INITIAL_LOAD_COUNT (length names)
            then decoded_pair env init i (slots ?start ! i)
            else untouched_pair init i (slots ?start ! i)"
    "\<forall>t<length (backgroundLoaders ?start). backgroundLoaders ?start ! t = LoopTest"
    by blast+
  from eager_inv [where U = "untouched_pair init" and P = "decoded_pair env init", OF e]
  have "pool_inv (min INITIAL_LOAD_COUNT (length names)) ?start"
    "slot_inv (min INITIAL_LOAD_COUNT (length names)) (untouched_pair init) (decoded_pair env init) ?start"
    by blast+
  from exec_inv [OF decodes_loadStereoPairInBackground materializes_ensureStereoTexturesCreated this, of sched]
  show ?thesis by blast
qed

lemma Viewer_ctor_loaders [simp]:
  "backgroundLoaders (FisheyeViewer_ctor r) = []"
  "backgroundLoaders (StereoFisheyeViewer_ctor r) = []"
  by (simp_all add: FisheyeViewer_ctor_def StereoFisheyeViewer_ctor_def Viewer_ctor_def)

text \<open>
  Claim C2. In every state that any schedule reaches from the start of the single viewer
  or of the stereo viewer, two threads that are loading the same index are the same
  thread: at most one thread is in the Decoding phase for a slot. The indices handed out
  by the \<open>fetch_add\<close> actions of the schedule are pairwise different, so no two threads
  ever obtain the same index, and each is at least \<open>min(INITIAL_LOAD_COUNT, N)\<close> (and
  below \<open>N\<close>): an index of the eager window is never claimed.
\<close>

theorem claim_ownership:
  "(\<forall>t<length (backgroundLoaders (exec (loadSurfaceInBackground env) (ensureTextureCreated env) sched
           (initializeImages env files (FisheyeViewer_ctor r)))).
     \<forall>t'<length (backgroundLoaders (exec (loadSurfaceInBackground env) (ensureTextureCreated env) sched
           (initializeImages env files (FisheyeViewer_ctor r)))).
     \<forall>i. backgroundLoaders (exec (loadSurfaceInBackground env) (ensureTextureCreated env) sched
           (initializeImages env files (FisheyeViewer_ctor r))) ! t = Load i
       \<and> backgroundLoaders (exec (loadSurfaceInBackground env) (ensureTextureCreated env) sched
           (initializeImages env files (FisheyeViewer_ctor r))) ! t' = Load i \<longrightarrow> t = t')
   \<and> distinct (map snd (claims (loadSurfaceInBackground env) (ensureTextureCreated env) sched
           (initializeImages env files (FisheyeViewer_ctor r))))
   \<and> (\<forall>c\<in>set (claims (loadSurfaceInBackground env) (ensureTextureCreated env) sched
           (initializeImages env files (FisheyeViewer_ctor r))).
         min INITIAL_LOAD_COUNT (length files) \<le> snd c \<and> snd c < length files)
   \<and> (\<forall>t<length (backgroundLoaders (exec (loadStereoPairInBackground env) (ensureStereoTexturesCreated env) sched
           (initializeStereoPairs env L R names (StereoFisheyeViewer_ctor r)))).
     \<forall>t'<length (backgroundLoaders (exec (loadStereoPairInBackground env) (ensureStereoTexturesCreated env) sched
           (initializeStereoPairs env L R names (StereoFisheyeViewer_ctor r)))).
     \<forall>i. backgroundLoaders (exec (loadStereoPairInBackground env) (ensureStereoTexturesCreated env) sched
           (initializeStereoPairs env L R names (StereoFisheyeViewer_ctor r))) ! t = Load i
       \<and> backgroundLoaders (exec (loadStereoPairInBackground env) (ensureStereoTexturesCreated env) sched
           (initializeStereoPairs env L R names (StereoFisheyeViewer_ctor r))) ! t' = Load i \<longrightarrow> t = t')
   \<and> distinct (map snd (claims (loadStereoPairInBackground env) (ensureStereoTexturesCreated env) sched
           (initializeStereoPairs env L R names (StereoFisheyeViewer_ctor r))))
   \<and> (\<forall>c\<in>set (claims (loadStereoPairInBackground env) (ensureStereoTexturesCreated env) sched
           (initializeStereoPairs env L R names (StereoFisheyeViewer_ctor r))).
         min INITIAL_LOAD_COUNT (length names) \<le> snd c \<and> snd c < length names)"
proof -
  let ?a = "initializeImages env files (FisheyeViewer_ctor r)"
  let ?b = "initializeStereoPairs env L R names (StereoFisheyeViewer_ctor r)"
  note da = decodes_loadSurfaceInBackground [of env files]
  note ma = materializes_ensureTextureCreated [of env files]
  define init where "init = map (newStereoPair (fs_exists env) L R) names"
  note db = decodes_loadStereoPairInBackground [of env init]
  note mb = materializes_ensureStereoTexturesCreated [of env init]
  have ea: "nextImageToLoad ?a = min INITIAL_LOAD_COUNT (length files)" "length (slots ?a) = length files"
    using initializeImages_eager [of "FisheyeViewer_ctor r" env files] by simp_all
  have eb: "nextImageToLoad ?b = min INITIAL_LOAD_COUNT (length names)" "length (slots ?b) = length names"
    using initializeStereoPairs_eager [of "StereoFisheyeViewer_ctor r" init env L R names] init_def
    by simp_all
  have 1: "\<forall>t<length (backgroundLoaders (exec (loadSurfaceInBackground env) (ensureTextureCreated env) sched ?a)).
     \<forall>t'<length (backgroundLoaders (exec (loadSurfaceInBackground env) (ensureTextureCreated env) sched ?a)).
     \<forall>i. backgroundLoaders (exec (loadSurfaceInBackground env) (ensureTextureCreated env) sched ?a) ! t = Load i
       \<and> backgroundLoaders (exec (loadSurfaceInBackground env) (ensureTextureCreated env) sched ?a) ! t' = Load i
       \<longrightarrow> t = t'"
    using pool_inv_unique [OF image_pool_inv [of "FisheyeViewer_ctor r" files env sched]] by simp
  have 2: "\<forall>t<length (backgroundLoaders (exec (loadStereoPairInBackground env) (ensureStereoTexturesCreated env) sched ?b)).
     \<forall>t'<length (backgroundLoaders (exec (loadStereoPairInBackground env) (ensureStereoTexturesCreated env) sched ?b)).
     \<forall>i. backgroundLoaders (exec (loadStereoPairInBackground env) (ensureStereoTexturesCreated env) sched ?b) ! t = Load i
       \<and> backgroundLoaders (exec (loadStereoPairInBackground env) (ensureStereoTexturesCreated env) sched ?b) ! t' = Load i
       \<longrightarrow> t = t'"
    using pool_inv_unique [OF pair_pool_inv [of "StereoFisheyeViewer_ctor r" names env sched L R]] by simp
  have 3: "\<forall>c\<in>set (claims (loadSurfaceInBackground env) (ensureTextureCreated env) sched ?a).
         min INITIAL_LOAD_COUNT (length files) \<le> snd c \<and> snd c < length files"
    using claims_bounds [OF da ma, of _ _ sched ?a] ea by auto
  have 4: "\<forall>c\<in>set (claims (loadStereoPairInBackground env) (ensureStereoTexturesCreated env) sched ?b).
         min INITIAL_LOAD_COUNT (length names) \<le> snd c \<and> snd c < length names"
    using claims_bounds [OF db mb, of _ _ sched ?b] eb by auto
  show ?thesis
    using 1 2 3 4 claims_distinct [OF da ma, of sched ?a] claims_distinct [OF db mb, of sched ?b]
    by blast
qed








lemma decoded_image_facts:
  assumes "decoded_image env files i s"
  shows "surfaceLoaded s = (IMG_Load env (files ! i) \<noteq> None)"
    and "surface s = IMG_Load env (files ! i)"
    and "IMG_Load env (files ! i) = None \<Longrightarrow> s = ImageData_ctor\<lparr>filename := files ! i\<rparr>"
  using assms by (cases s; simp add: decoded_image_def ImageData_ctor_def)+

lemma decoded_pair_facts:
  assumes "decoded_pair env init i s" and "init ! i = newStereoPair ex L R name"
  shows "leftSurfaceLoaded s = (IMG_Load env (leftFilename (newStereoPair ex L R name)) \<noteq> None)"
    and "leftSurface s = IMG_Load env (leftFilename (newStereoPair ex L R name))"
    and "rightSurfaceLoaded s = (IMG_Load env (rightFilename (newStereoPair ex L R name)) \<noteq> None)"
    and "rightSurface s = IMG_Load env (rightFilename (newStereoPair ex L R name))"
    and "IMG_Load env (leftFilename (newStereoPair ex L R name)) = None \<Longrightarrow>
         IMG_Load env (rightFilename (newStereoPair ex L R name)) = None \<Longrightarrow>
         s = newStereoPair ex L R name"
proof -
  show "leftSurfaceLoaded s = (IMG_Load env (leftFilename (newStereoPair ex L R name)) \<noteq> None)"
    "leftSurface s = IMG_Load env (leftFilename (newStereoPair ex L R name))"
    "rightSurfaceLoaded s = (IMG_Load env (rightFilename (newStereoPair ex L R name)) \<noteq> None)"
    "rightSurface s = IMG_Load env (rightFilename (newStereoPair ex L R name))"
    using assms by (simp_all add: decoded_pair_def)
  assume "IMG_Load env (leftFilename (newStereoPair ex L R name)) = None"
    "IMG_Load env (rightFilename (newStereoPair ex L R name)) = None"
  then have "s = StereoImageData_ctor\<lparr>baseName := baseName (newStereoPair ex L R name),
       leftFilename := leftFilename (newStereoPair ex L R name),
       rightFilename := rightFilename (newStereoPair ex L R name)\<rparr>"
    using assms by (cases s) (simp add: decoded_pair_def StereoImageData_ctor_def)
  then show "s = newStereoPair ex L R name"
    using newStereoPair_untouched [of ex L R name] by simp
qed

lemma decoded_pair_eyes:
  assumes "decoded_pair env init i s" and "init ! i = newStereoPair ex L R name"
  shows "IMG_Load env (leftFilename (newStereoPair ex L R name)) = None \<Longrightarrow>
           leftTexture s = None \<and> \<not> leftTextureCreated s"
    and "IMG_Load env (rightFilename (newStereoPair ex L R name)) = None \<Longrightarrow>
           rightTexture s = None \<and> \<not> rightTextureCreated s"
  using assms by (simp_all add: decoded_pair_def)

text \<open>
  Claim C1, amended. After quiescence, reached by any schedule, every slot has been
  handled by a decode: its surface is what \<open>IMG_Load\<close> returned for its file and
  \<open>surfaceLoaded\<close> is set exactly when that is a surface. A slot whose load failed is
  left exactly as it was constructed; the program records no failure. For a pair this
  holds for each eye: the surface of an eye is what \<open>IMG_Load\<close> returned for its file,
  an eye whose load failed has no texture, and a pair whose two loads failed is exactly
  as constructed. The first part is the single viewer, the second the stereo viewer.
\<close>

theorem pool_quiescence:
  "(quiescent (exec (loadSurfaceInBackground env) (ensureTextureCreated env) sched
       (initializeImages env files (FisheyeViewer_ctor r))) \<longrightarrow>
    (\<forall>i<length files.
       surfaceLoaded (slots (exec (loadSurfaceInBackground env) (ensureTextureCreated env) sched
           (initializeImages env files (FisheyeViewer_ctor r))) ! i)
         = (IMG_Load env (files ! i) \<noteq> None)
     \<and> surface (slots (exec (loadSurfaceInBackground env) (ensureTextureCreated env) sched
           (initializeImages env files (FisheyeViewer_ctor r))) ! i)
         = IMG_Load env (files ! i)
     \<and> (IMG_Load env (files ! i) = None \<longrightarrow>
          slots (exec (loadSurfaceInBackground env) (ensureTextureCreated env) sched
            (initializeImages env files (FisheyeViewer_ctor r))) ! i
          = ImageData_ctor\<lparr>filename := files ! i\<rparr>)))
   \<and> (quiescent (exec (loadStereoPairInBackground env) (ensureStereoTexturesCreated env) sched'
       (initializeStereoPairs env L R names (StereoFisheyeViewer_ctor r))) \<longrightarrow>
    (\<forall>i<length names.
       leftSurfaceLoaded (slots (exec (loadStereoPairInBackground env) (ensureStereoTexturesCreated env) sched'
           (initializeStereoPairs env L R names (StereoFisheyeViewer_ctor r))) ! i)
         = (IMG_Load env (leftFilename (newStereoPair (fs_exists env) L R (names ! i))) \<noteq> None)
     \<and> leftSurface (slots (exec (loadStereoPairInBackground env) (ensureStereoTexturesCreated env) sched'
           (initializeStereoPairs env L R names (StereoFisheyeViewer_ctor r))) ! i)
         = IMG_Load env (leftFilename (newStereoPair (fs_exists env) L R (names ! i)))
     \<and> rightSurfaceLoaded (slots (exec (loadStereoPairInBackground env) (ensureStereoTexturesCreated env) sched'
           (initializeStereoPairs env L R names (StereoFisheyeViewer_ctor r))) ! i)
         = (IMG_Load env (rightFilename (newStereoPair (fs_exists env) L R (names ! i))) \<noteq> None)
     \<and> rightSurface (slots (exec (loadStereoPairInBackground env) (ensureStereoTexturesCreated env) sched'
           (initializeStereoPairs env L R names (StereoFisheyeViewer_ctor r))) ! i)
         = IMG_Load env (rightFilename (newStereoPair (fs_exists env) L R (names ! i)))
     \<and> (IMG_Load env (leftFilename (newStereoPair (fs_exists env) L R (names ! i))) = None \<longrightarrow>
          leftTexture (slots (exec (loadStereoPairInBackground env) (ensureStereoTexturesCreated env) sched'
            (initializeStereoPairs env L R names (StereoFisheyeViewer_ctor r))) ! i) = None
        \<and> \<not> leftTextureCreated (slots (exec (loadStereoPairInBackground env) (ensureStereoTexturesCreated env) sched'
            (initializeStereoPairs env L R names (StereoFisheyeViewer_ctor r))) ! i))
     \<and> (IMG_Load env (rightFilename (newStereoPair (fs_exists env) L R (names ! i))) = None \<longrightarrow>
          rightTexture (slots (exec (loadStereoPairInBackground env) (ensureStereoTexturesCreated env) sched'
            (initializeStereoPairs env L R names (StereoFisheyeViewer_ctor r))) ! i) = None
        \<and> \<not> rightTextureCreated (slots (exec (loadStereoPairInBackground env) (ensureStereoTexturesCreated env) sched'
            (initializeStereoPairs env L R names (StereoFisheyeViewer_ctor r))) ! i))
     \<and> (IMG_Load env (leftFilename (newStereoPair (fs_exists env) L R (names ! i))) = None \<and>
         IMG_Load env (rightFilename (newStereoPair (fs_exists env) L R (names ! i))) = None \<longrightarrow>
          slots (exec (loadStereoPairInBackground env) (ensureStereoTexturesCreated env) sched'
            (initializeStereoPairs env L R names (StereoFisheyeViewer_ctor r))) ! i
          = newStereoPair (fs_exists env) L R (names ! i))))"
proof (rule conjI; intro impI allI)
  fix i
  assume q: "quiescent (exec (loadSurfaceInBackground env) (ensureTextureCreated env) sched
       (initializeImages env files (FisheyeViewer_ctor r)))" and i: "i < length files"
  note d = image_pool_coverage [OF Viewer_ctor_loaders(1) q i]
  from decoded_image_facts(1) [OF d] decoded_image_facts(2) [OF d] decoded_image_facts(3) [OF d]
  show "surfaceLoaded (slots (exec (loadSurfaceInBackground env) (ensureTextureCreated env) sched
           (initializeImages env files (FisheyeViewer_ctor r))) ! i)
         = (IMG_Load env (files ! i) \<noteq> None)
     \<and> surface (slots (exec (loadSurfaceInBackground env) (ensureTextureCreated env) sched
           (initializeImages env files (FisheyeViewer_ctor r))) ! i)
         = IMG_Load env (files ! i)
     \<and> (IMG_Load env (files ! i) = None \<longrightarrow>
          slots (exec (loadSurfaceInBackground env) (ensureTextureCreated env) sched
            (initializeImages env files (FisheyeViewer_ctor r))) ! i
          = ImageData_ctor\<lparr>filename := files ! i\<rparr>)"
    by blast
next
  fix i
  assume q: "quiescent (exec (loadStereoPairInBackground env) (ensureStereoTexturesCreated env) sched'
       (initializeStereoPairs env L R names (StereoFisheyeViewer_ctor r)))" and i: "i < length names"
  define init where "init = map (newStereoPair (fs_exists env) L R) names"
  define s where "s = slots (exec (loadStereoPairInBackground env) (ensureStereoTexturesCreated env) sched'
           (initializeStereoPairs env L R names (StereoFisheyeViewer_ctor r))) ! i"
  have d: "decoded_pair env init i s"
    unfolding s_def by (rule pair_pool_coverage [OF Viewer_ctor_loaders(2) init_def q i])
  have n: "init ! i = newStereoPair (fs_exists env) L R (names ! i)"
    using i by (simp add: init_def)
  from decoded_pair_facts(1) [OF d n] decoded_pair_facts(2) [OF d n] decoded_pair_facts(3) [OF d n]
    decoded_pair_facts(4) [OF d n] decoded_pair_facts(5) [OF d n]
    decoded_pair_eyes(1) [OF d n] decoded_pair_eyes(2) [OF d n]
  have "leftSurfaceLoaded s
         = (IMG_Load env (leftFilename (newStereoPair (fs_exists env) L R (names ! i))) \<noteq> None)
     \<and> leftSurface s = IMG_Load env (leftFilename (newStereoPair (fs_exists env) L R (names ! i)))
     \<and> rightSurfaceLoaded s
         = (IMG_Load env (rightFilename (newStereoPair (fs_exists env) L R (names ! i))) \<noteq> None)
     \<and> rightSurface s = IMG_Load env (rightFilename (newStereoPair (fs_exists env) L R (names ! i)))
     \<and> (IMG_Load env (leftFilename (newStereoPair (fs_exists env) L R (names ! i))) = None \<longrightarrow>
          leftTexture s = None \<and> \<not> leftTextureCreated s)
     \<and> (IMG_Load env (rightFilename (newStereoPair (fs_exists env) L R (names ! i))) = None \<longrightarrow>
          rightTexture s = None \<and> \<not> rightTextureCreated s)
     \<and> (IMG_Load env (leftFilename (newStereoPair (fs_exists env) L R (names ! i))) = None \<and>
         IMG_Load env (rightFilename (newStereoPair (fs_exists env) L R (names ! i))) = None \<longrightarrow>
          s = newStereoPair (fs_exists env) L R (names ! i))"
    by blast
  then show "leftSurfaceLoaded (slots (exec (loadStereoPairInBackground env) (ensureStereoTexturesCreated env) sched'
           (initializeStereoPairs env L R names (StereoFisheyeViewer_ctor r))) ! i)
         = (IMG_Load env (leftFilename (newStereoPair (fs_exists env) L R (names ! i))) \<noteq> None)
     \<and> leftSurface (slots (exec (loadStereoPairInBackground env) (ensureStereoTexturesCreated env) sched'
           (initializeStereoPairs env L R names (StereoFisheyeViewer_ctor r))) ! i)
         = IMG_Load env (leftFilename (newStereoPair (fs_exists env) L R (names ! i)))
     \<and> rightSurfaceLoaded (slots (exec (loadStereoPairInBackground env) (ensureStereoTexturesCreated env) sched'
           (initializeStereoPairs env L R names (StereoFisheyeViewer_ctor r))) ! i)
         = (IMG_Load env (rightFilename (newStereoPair (fs_exists env) L R (names ! i))) \<noteq> None)
     \<and> rightSurface (slots (exec (loadStereoPairInBackground env) (ensureStereoTexturesCreated env) sched'
           (initializeStereoPairs env L R names (StereoFisheyeViewer_ctor r))) ! i)
         = IMG_Load env (rightFilename (newStereoPair (fs_exists env) L R (names ! i)))
     \<and> (IMG_Load env (leftFilename (newStereoPair (fs_exists env) L R (names ! i))) = None \<longrightarrow>
          leftTexture (slots (exec (loadStereoPairInBackground env) (ensureStereoTexturesCreated env) sched'
            (initializeStereoPairs env L R names (StereoFisheyeViewer_ctor r))) ! i) = None
        \<and> \<not> leftTextureCreated (slots (exec (loadStereoPairInBackground env) (ensureStereoTexturesCreated env) sched'
            (initializeStereoPairs env L R names (StereoFisheyeViewer_ctor r))) ! i))
     \<and> (IMG_Load env (rightFilename (newStereoPair (fs_exists env) L R (names ! i))) = None \<longrightarrow>
          rightTexture (slots (exec (loadStereoPairInBackground env) (ensureStereoTexturesCreated env) sched'
            (initializeStereoPairs env L R names (StereoFisheyeViewer_ctor r))) ! i) = None
        \<and> \<not> rightTextureCreated (slots (exec (loadStereoPairInBackground env) (ensureStereoTexturesCreated env) sched'
            (initializeStereoPairs env L R names (StereoFisheyeViewer_ctor r))) ! i))
     \<and> (IMG_Load env (leftFilename (newStereoPair (fs_exists env) L R (names ! i))) = None \<and>
         IMG_Load env (rightFilename (newStereoPair (fs_exists env) L R (names ! i))) = None \<longrightarrow>
          slots (exec (loadStereoPairInBackground env) (ensureStereoTexturesCreated env) sched'
            (initializeStereoPairs env L R names (StereoFisheyeViewer_ctor r))) ! i
          = newStereoPair (fs_exists env) L R (names ! i))"
    unfolding s_def .
qed

lemma two_threads_claims:
  "demo_claims [Thread 0, Thread 1, Thread 0, Thread 1] twelve_viewer = [(0, 10), (1, 11)]"
  by code_simp

lemma two_threads_loaders:
  "backgroundLoaders (demo_exec [Thread 0, Thread 1, Thread 0, Thread 1] twelve_viewer)
     = [Load 10, Load 11, LoopTest, LoopTest]"
  by code_simp

lemma two_threads_stereo_claims:
  "demo_stereo_claims [Thread 2, Thread 3, Thread 3, Thread 2] twelve_pairs_viewer = [(3, 10), (2, 11)]"
  by code_simp

lemma two_threads_stereo_loaders:
  "backgroundLoaders (demo_stereo_exec [Thread 2, Thread 3, Thread 3, Thread 2] twelve_pairs_viewer)
     = [LoopTest, LoopTest, Load 11, Load 10]"
  by code_simp

text \<open>
  An instance with twelve slots: two threads interleave; one obtains index 10, the other
  index 11, and both are then loading.
\<close>

theorem claim_ownership_witness:
  "demo_claims [Thread 0, Thread 1, Thread 0, Thread 1] twelve_viewer = [(0, 10), (1, 11)]
   \<and> distinct (map snd (demo_claims [Thread 0, Thread 1, Thread 0, Thread 1] twelve_viewer))
   \<and> backgroundLoaders (demo_exec [Thread 0, Thread 1, Thread 0, Thread 1] twelve_viewer)
        = [Load 10, Load 11, LoopTest, LoopTest]
   \<and> min INITIAL_LOAD_COUNT (length twelve_files) = 10
   \<and> demo_stereo_claims [Thread 2, Thread 3, Thread 3, Thread 2] twelve_pairs_viewer = [(3, 10), (2, 11)]
   \<and> distinct (map snd (demo_stereo_claims [Thread 2, Thread 3, Thread 3, Thread 2] twelve_pairs_viewer))
   \<and> backgroundLoaders (demo_stereo_exec [Thread 2, Thread 3, Thread 3, Thread 2] twelve_pairs_viewer)
        = [LoopTest, LoopTest, Load 11, Load 10]"
proof -
  have k: "min INITIAL_LOAD_COUNT (length twelve_files) = 10" by code_simp
  show ?thesis
    using claim_ownership [of demo_env "[Thread 0, Thread 1, Thread 0, Thread 1]" twelve_files 0
        "''L''" "''R''" twelve_names]
      claim_ownership [of demo_env "[Thread 2, Thread 3, Thread 3, Thread 2]" twelve_files 0
        "''L''" "''R''" twelve_names]
      two_threads_claims two_threads_loaders two_threads_stereo_claims two_threads_stereo_loaders k
    by (simp add: demo_claims_def demo_stereo_claims_def twelve_viewer_def twelve_pairs_viewer_def)
qed

lemma twelve_quiescent: "quiescent (demo_exec (replicate 6 (Thread 0)) twelve_viewer)"
  by code_simp

lemma twelve_slot_10:
  "slots (demo_exec (replicate 6 (Thread 0)) twelve_viewer) ! 10 = ImageData_ctor\<lparr>filename := ''bad.png''\<rparr>"
  by code_simp

lemma twelve_slot_10_before:
  "slots twelve_viewer ! 10 = ImageData_ctor\<lparr>filename := ''bad.png''\<rparr>"
  by code_simp

lemma twelve_claims: "demo_claims (replicate 6 (Thread 0)) twelve_viewer = [(0, 10), (0, 11)]"
  by code_simp

lemma twelve_status: "decodeStatus (demo_exec (replicate 6 (Thread 0)) twelve_viewer) 10 = Pending"
  by code_simp

lemma twelve_load_fails: "IMG_Load demo_env (twelve_files ! 10) = None"
  by code_simp

lemma twelve_load_11: "IMG_Load demo_env (twelve_files ! 11) = Some 6"
  by code_simp

text \<open>
  Claim C1, as stated, fails. Twelve files, the one at index 10 does not decode. Thread 0
  claims and handles indices 10 and 11; the pool is then quiescent. The slot at index 10
  is what it was before the thread claimed it, and what the constructor made: no status
  \<open>Failed\<close> was set, and it is not \<open>Decoded\<close>.
\<close>

theorem failed_load_leaves_slot_pending:
  "quiescent (demo_exec (replicate 6 (Thread 0)) twelve_viewer)
   \<and> demo_claims (replicate 6 (Thread 0)) twelve_viewer = [(0, 10), (0, 11)]
   \<and> IMG_Load demo_env (twelve_files ! 10) = None
   \<and> slots (demo_exec (replicate 6 (Thread 0)) twelve_viewer) ! 10 = slots twelve_viewer ! 10
   \<and> slots (demo_exec (replicate 6 (Thread 0)) twelve_viewer) ! 10
        = ImageData_ctor\<lparr>filename := ''bad.png''\<rparr>
   \<and> decodeStatus (demo_exec (replicate 6 (Thread 0)) twelve_viewer) 10 = Pending
   \<and> decodeStatus (demo_exec (replicate 6 (Thread 0)) twelve_viewer) 10 \<noteq> Decoded
   \<and> decodeStatus (demo_exec (replicate 6 (Thread 0)) twelve_viewer) 10 \<noteq> Failed"
  using twelve_quiescent twelve_claims twelve_load_fails twelve_slot_10 twelve_slot_10_before twelve_status
  by simp

lemma twelve_pairs_quiescent: "quiescent (demo_stereo_exec (replicate 6 (Thread 0)) twelve_pairs_viewer)"
  by code_simp

lemma twelve_pairs_load:
  "IMG_Load demo_env (leftFilename (newStereoPair (fs_exists demo_env) ''L'' ''R'' (twelve_names ! 10))) = None"
  "IMG_Load demo_env (rightFilename (newStereoPair (fs_exists demo_env) ''L'' ''R'' (twelve_names ! 10))) = None"
  "IMG_Load demo_env (leftFilename (newStereoPair (fs_exists demo_env) ''L'' ''R'' (twelve_names ! 11))) = Some 8"
  by code_simp+

text \<open>
  An instance: twelve files and twelve pairs, index 10 failing; after thread 0 has
  handled indices 10 and 11 the pool is quiescent, slot 11 is decoded and slot 10 is
  as constructed.
\<close>

theorem pool_quiescence_witness:
  "quiescent (demo_exec (replicate 6 (Thread 0)) twelve_viewer)
   \<and> surfaceLoaded (slots (demo_exec (replicate 6 (Thread 0)) twelve_viewer) ! 11)
   \<and> surface (slots (demo_exec (replicate 6 (Thread 0)) twelve_viewer) ! 11) = Some 6
   \<and> \<not> surfaceLoaded (slots (demo_exec (replicate 6 (Thread 0)) twelve_viewer) ! 10)
   \<and> slots (demo_exec (replicate 6 (Thread 0)) twelve_viewer) ! 10
        = ImageData_ctor\<lparr>filename := twelve_files ! 10\<rparr>
   \<and> quiescent (demo_stereo_exec (replicate 6 (Thread 0)) twelve_pairs_viewer)
   \<and> leftSurfaceLoaded (slots (demo_stereo_exec (replicate 6 (Thread 0)) twelve_pairs_viewer) ! 11)
   \<and> leftSurface (slots (demo_stereo_exec (replicate 6 (Thread 0)) twelve_pairs_viewer) ! 11) = Some 8
   \<and> slots (demo_stereo_exec (replicate 6 (Thread 0)) twelve_pairs_viewer) ! 10
        = newStereoPair (fs_exists demo_env) ''L'' ''R'' (twelve_names ! 10)"
proof -
  note t = pool_quiescence [of demo_env "replicate 6 (Thread 0)" twelve_files 0
      "replicate 6 (Thread 0)" "''L''" "''R''" twelve_names]
  have l: "length twelve_files = 12" "length twelve_names = 12"
    by (simp_all add: twelve_files_def twelve_names_def)
  from t twelve_quiescent have a: "\<forall>i<12.
       surfaceLoaded (slots (demo_exec (replicate 6 (Thread 0)) twelve_viewer) ! i)
         = (IMG_Load demo_env (twelve_files ! i) \<noteq> None)
     \<and> surface (slots (demo_exec (replicate 6 (Thread 0)) twelve_viewer) ! i)
         = IMG_Load demo_env (twelve_files ! i)
     \<and> (IMG_Load demo_env (twelve_files ! i) = None \<longrightarrow>
          slots (demo_exec (replicate 6 (Thread 0)) twelve_viewer) ! i
          = ImageData_ctor\<lparr>filename := twelve_files ! i\<rparr>)"
    unfolding demo_exec_def twelve_viewer_def l by blast
  from t twelve_pairs_quiescent have b: "\<forall>i<12.
       leftSurfaceLoaded (slots (demo_stereo_exec (replicate 6 (Thread 0)) twelve_pairs_viewer) ! i)
         = (IMG_Load demo_env (leftFilename (newStereoPair (fs_exists demo_env) ''L'' ''R'' (twelve_names ! i))) \<noteq> None)
     \<and> leftSurface (slots (demo_stereo_exec (replicate 6 (Thread 0)) twelve_pairs_viewer) ! i)
         = IMG_Load demo_env (leftFilename (newStereoPair (fs_exists demo_env) ''L'' ''R'' (twelve_names ! i)))
     \<and> rightSurfaceLoaded (slots (demo_stereo_exec (replicate 6 (Thread 0)) twelve_pairs_viewer) ! i)
         = (IMG_Load demo_env (rightFilename (newStereoPair (fs_exists demo_env) ''L'' ''R'' (twelve_names ! i))) \<noteq> None)
     \<and> (IMG_Load demo_env (leftFilename (newStereoPair (fs_exists demo_env) ''L'' ''R'' (twelve_names ! i))) = None \<and>
         IMG_Load demo_env (rightFilename (newStereoPair (fs_exists demo_env) ''L'' ''R'' (twelve_names ! i))) = None \<longrightarrow>
          slots (demo_stereo_exec (replicate 6 (Thread 0)) twelve_pairs_viewer) ! i
          = newStereoPair (fs_exists demo_env) ''L'' ''R'' (twelve_names ! i))"
    unfolding demo_stereo_exec_def twelve_pairs_viewer_def l by blast
  from a [rule_format, of 11] a [rule_format, of 10] b [rule_format, of 11] b [rule_format, of 10]
  show ?thesis
    using twelve_quiescent twelve_pairs_quiescent twelve_load_fails twelve_load_11 twelve_pairs_load
    by (simp add: ImageData_ctor_def)
qed

section \<open>The eager window\<close>


lemma twenty_five_length: "length twenty_five_files = 25"
  by (simp add: twenty_five_files_def)

lemma twenty_five_quiescent: "quiescent (demo_exec (replicate 45 (Thread 0)) twenty_five_viewer)"
  by code_simp

lemma twenty_five_slot_10:
  "slots (demo_exec (replicate 45 (Thread 0)) twenty_five_viewer) ! 10
     = ImageData_ctor\<lparr>filename := ''bad.png''\<rparr>"
  by code_simp

lemma twenty_five_status:
  "decodeStatus (demo_exec (replicate 45 (Thread 0)) twenty_five_viewer) 10 = Pending"
  by code_simp

lemma twenty_five_claims:
  "map snd (demo_claims (replicate 45 (Thread 0)) twenty_five_viewer) = [10..<25]"
  by code_simp

lemma twenty_five_loads:
  "list_all (\<lambda>f. IMG_Load demo_env f \<noteq> None) (take 10 twenty_five_files)"
  "IMG_Load demo_env (twenty_five_files ! 10) = None"
  "IMG_Load demo_env (twenty_five_files ! 24) = Some 6"
  by code_simp+

text \<open>
  Claim C3, as stated, fails in its last part. Twenty-five files, the one at index 10
  does not decode. Thread 0 claims the indices 10 to 24 one after the other and the pool
  is then quiescent; the slot at index 10 is what the constructor made, neither
  \<open>Decoded\<close> nor \<open>Failed\<close>, so not every index of the range from 10 to 25 has
  reached a terminal status.
\<close>

theorem failed_load_after_eager_window:
  "length twenty_five_files = 25
   \<and> quiescent (demo_exec (replicate 45 (Thread 0)) twenty_five_viewer)
   \<and> map snd (demo_claims (replicate 45 (Thread 0)) twenty_five_viewer) = [10..<25]
   \<and> IMG_Load demo_env (twenty_five_files ! 10) = None
   \<and> slots (demo_exec (replicate 45 (Thread 0)) twenty_five_viewer) ! 10
        = ImageData_ctor\<lparr>filename := ''bad.png''\<rparr>
   \<and> \<not> surfaceLoaded (slots (demo_exec (replicate 45 (Thread 0)) twenty_five_viewer) ! 10)
   \<and> decodeStatus (demo_exec (replicate 45 (Thread 0)) twenty_five_viewer) 10 = Pending
   \<and> decodeStatus (demo_exec (replicate 45 (Thread 0)) twenty_five_viewer) 10 \<noteq> Decoded
   \<and> decodeStatus (demo_exec (replicate 45 (Thread 0)) twenty_five_viewer) 10 \<noteq> Failed"
  using twenty_five_length twenty_five_quiescent twenty_five_claims twenty_five_loads(2)
    twenty_five_slot_10 twenty_five_status
  by (simp add: ImageData_ctor_def)

lemma untouched_image_eq:
  "untouched_image files i s = (s = ImageData_ctor\<lparr>filename := files ! i\<rparr>)"
  by (simp add: untouched_image_def)

lemma untouched_pair_eq:
  assumes "init ! i = newStereoPair ex L R name"
  shows "untouched_pair init i s = (s = newStereoPair ex L R name)"
  unfolding untouched_pair_def assms using newStereoPair_untouched [of ex L R name] by simp

lemma decoded_image_all:
  assumes "decoded_image env files i s"
  shows "surface (s) = IMG_Load env (files ! i) \<and>
         surfaceLoaded (s) = (IMG_Load env (files ! i) \<noteq> None) \<and>
         (IMG_Load env (files ! i) = None \<longrightarrow>
            s = ImageData_ctor\<lparr>filename := files ! i\<rparr>)"
  using decoded_image_facts(1) [OF assms] decoded_image_facts(2) [OF assms]
    decoded_image_facts(3) [OF assms]
  by blast

lemma decoded_pair_all:
  assumes d: "decoded_pair env init i s" and n: "init ! i = newStereoPair (fs_exists env) L R (names ! i)"
  shows "leftSurface (s)
           = IMG_Load env (leftFilename (newStereoPair (fs_exists env) L R (names ! i))) \<and>
         leftSurfaceLoaded (s)
           = (IMG_Load env (leftFilename (newStereoPair (fs_exists env) L R (names ! i))) \<noteq> None) \<and>
         rightSurface (s)
           = IMG_Load env (rightFilename (newStereoPair (fs_exists env) L R (names ! i))) \<and>
         rightSurfaceLoaded (s)
           = (IMG_Load env (rightFilename (newStereoPair (fs_exists env) L R (names ! i))) \<noteq> None) \<and>
         (IMG_Load env (leftFilename (newStereoPair (fs_exists env) L R (names ! i))) = None \<longrightarrow>
            leftTexture (s) = None \<and> \<not> leftTextureCreated (s)) \<and>
         (IMG_Load env (rightFilename (newStereoPair (fs_exists env) L R (names ! i))) = None \<longrightarrow>
            rightTexture (s) = None \<and> \<not> rightTextureCreated (s)) \<and>
         (IMG_Load env (leftFilename (newStereoPair (fs_exists env) L R (names ! i))) = None \<and>
          IMG_Load env (rightFilename (newStereoPair (fs_exists env) L R (names ! i))) = None \<longrightarrow>
            s = newStereoPair (fs_exists env) L R (names ! i))"
  using decoded_pair_facts(1) [OF d n] decoded_pair_facts(2) [OF d n] decoded_pair_facts(3) [OF d n]
    decoded_pair_facts(4) [OF d n] decoded_pair_facts(5) [OF d n]
    decoded_pair_eyes(1) [OF d n] decoded_pair_eyes(2) [OF d n]
  by blast

text \<open>
  Claim C3. The eager window is 10. After the viewer has built its sequence, loaded
  the first images and started the pool (\<open>a\<close> for the single viewer, \<open>b\<close> for the
  stereo viewer), the shared counter is the minimum of 10 and the length of the
  sequence, every worker is at its loop test, every index below that minimum has been
  decoded on the calling thread (its surface is what the image load returned, and a
  slot whose load failed is exactly as constructed) and every other index is as
  constructed. With a sequence of 25 whose first ten decode, the indices 0 to 9 are
  loaded before the pool runs; and at quiescence every index has a loaded surface
  exactly when its file decodes, a slot whose file does not decode being as
  constructed. For a pair this holds for each eye, and a pair whose two loads failed is
  exactly as constructed.
\<close>

theorem eager_window:
  assumes a: "a = initializeImages env files (FisheyeViewer_ctor r)"
    and b: "b = initializeStereoPairs env L R names (StereoFisheyeViewer_ctor r)"
  shows "INITIAL_LOAD_COUNT = 10
   \<and> nextImageToLoad a = min INITIAL_LOAD_COUNT (length files)
   \<and> (\<forall>t<length (backgroundLoaders a). backgroundLoaders a ! t = LoopTest)
   \<and> (\<forall>i<length files.
         if i < min INITIAL_LOAD_COUNT (length files)
         then surface (slots a ! i) = IMG_Load env (files ! i) \<and>
              surfaceLoaded (slots a ! i) = (IMG_Load env (files ! i) \<noteq> None) \<and>
              (IMG_Load env (files ! i) = None \<longrightarrow>
                 slots a ! i = ImageData_ctor\<lparr>filename := files ! i\<rparr>)
         else slots a ! i = ImageData_ctor\<lparr>filename := files ! i\<rparr>)
   \<and> (length files = 25 \<and> (\<forall>i<10. IMG_Load env (files ! i) \<noteq> None) \<longrightarrow>
         (\<forall>i<10. surfaceLoaded (slots a ! i)))
   \<and> (length files = 25 \<and>
        quiescent (exec (loadSurfaceInBackground env) (ensureTextureCreated env) sched a) \<longrightarrow>
         (\<forall>i<25.
            surface (slots (exec (loadSurfaceInBackground env) (ensureTextureCreated env) sched a) ! i) = IMG_Load env (files ! i) \<and>
            surfaceLoaded (slots (exec (loadSurfaceInBackground env) (ensureTextureCreated env) sched a) ! i) = (IMG_Load env (files ! i) \<noteq> None) \<and>
            (IMG_Load env (files ! i) = None \<longrightarrow>
               slots (exec (loadSurfaceInBackground env) (ensureTextureCreated env) sched a) ! i = ImageData_ctor\<lparr>filename := files ! i\<rparr>)))
   \<and> nextImageToLoad b = min INITIAL_LOAD_COUNT (length names)
   \<and> (\<forall>t<length (backgroundLoaders b). backgroundLoaders b ! t = LoopTest)
   \<and> (\<forall>i<length names.
         if i < min INITIAL_LOAD_COUNT (length names)
         then leftSurface (slots b ! i)
                = IMG_Load env (leftFilename (newStereoPair (fs_exists env) L R (names ! i))) \<and>
              leftSurfaceLoaded (slots b ! i)
                = (IMG_Load env (leftFilename (newStereoPair (fs_exists env) L R (names ! i))) \<noteq> None) \<and>
              rightSurface (slots b ! i)
                = IMG_Load env (rightFilename (newStereoPair (fs_exists env) L R (names ! i))) \<and>
              rightSurfaceLoaded (slots b ! i)
                = (IMG_Load env (rightFilename (newStereoPair (fs_exists env) L R (names ! i))) \<noteq> None) \<and>
              (IMG_Load env (leftFilename (newStereoPair (fs_exists env) L R (names ! i))) = None \<longrightarrow>
                 leftTexture (slots b ! i) = None \<and> \<not> leftTextureCreated (slots b ! i)) \<and>
              (IMG_Load env (rightFilename (newStereoPair (fs_exists env) L R (names ! i))) = None \<longrightarrow>
                 rightTexture (slots b ! i) = None \<and> \<not> rightTextureCreated (slots b ! i)) \<and>
              (IMG_Load env (leftFilename (newStereoPair (fs_exists env) L R (names ! i))) = None \<and>
               IMG_Load env (rightFilename (newStereoPair (fs_exists env) L R (names ! i))) = None \<longrightarrow>
                 slots b ! i = newStereoPair (fs_exists env) L R (names ! i))
         else slots b ! i = newStereoPair (fs_exists env) L R (names ! i))
   \<and> (length names = 25 \<and>
        (\<forall>i<10. IMG_Load env (leftFilename (newStereoPair (fs_exists env) L R (names ! i))) \<noteq> None \<and>
                IMG_Load env (rightFilename (newStereoPair (fs_exists env) L R (names ! i))) \<noteq> None) \<longrightarrow>
         (\<forall>i<10. leftSurfaceLoaded (slots b ! i) \<and> rightSurfaceLoaded (slots b ! i)))
   \<and> (length names = 25 \<and>
        quiescent (exec (loadStereoPairInBackground env) (ensureStereoTexturesCreated env) sched' b) \<longrightarrow>
         (\<forall>i<25.
            leftSurface (slots (exec (loadStereoPairInBackground env) (ensureStereoTexturesCreated env) sched' b) ! i)
              = IMG_Load env (leftFilename (newStereoPair (fs_exists env) L R (names ! i))) \<and>
            leftSurfaceLoaded (slots (exec (loadStereoPairInBackground env) (ensureStereoTexturesCreated env) sched' b) ! i)
              = (IMG_Load env (leftFilename (newStereoPair (fs_exists env) L R (names ! i))) \<noteq> None) \<and>
            rightSurface (slots (exec (loadStereoPairInBackground env) (ensureStereoTexturesCreated env) sched' b) ! i)
              = IMG_Load env (rightFilename (newStereoPair (fs_exists env) L R (names ! i))) \<and>
            rightSurfaceLoaded (slots (exec (loadStereoPairInBackground env) (ensureStereoTexturesCreated env) sched' b) ! i)
              = (IMG_Load env (rightFilename (newStereoPair (fs_exists env) L R (names ! i))) \<noteq> None) \<and>
            (IMG_Load env (leftFilename (newStereoPair (fs_exists env) L R (names ! i))) = None \<longrightarrow>
               leftTexture (slots (exec (loadStereoPairInBackground env) (ensureStereoTexturesCreated env) sched' b) ! i) = None \<and> \<not> leftTextureCreated (slots (exec (loadStereoPairInBackground env) (ensureStereoTexturesCreated env) sched' b) ! i)) \<and>
            (IMG_Load env (rightFilename (newStereoPair (fs_exists env) L R (names ! i))) = None \<longrightarrow>
               rightTexture (slots (exec (loadStereoPairInBackground env) (ensureStereoTexturesCreated env) sched' b) ! i) = None \<and> \<not> rightTextureCreated (slots (exec (loadStereoPairInBackground env) (ensureStereoTexturesCreated env) sched' b) ! i)) \<and>
            (IMG_Load env (leftFilename (newStereoPair (fs_exists env) L R (names ! i))) = None \<and>
             IMG_Load env (rightFilename (newStereoPair (fs_exists env) L R (names ! i))) = None \<longrightarrow>
               slots (exec (loadStereoPairInBackground env) (ensureStereoTexturesCreated env) sched' b) ! i = newStereoPair (fs_exists env) L R (names ! i))))"
proof -
  define init where "init = map (newStereoPair (fs_exists env) L R) names"
  have n: "init ! i = newStereoPair (fs_exists env) L R (names ! i)" if "i < length names" for i
    using that by (simp add: init_def)
  from initializeImages_eager [OF Viewer_ctor_loaders(1), of env files r]
  have a1: "nextImageToLoad a = min INITIAL_LOAD_COUNT (length files)"
    and a2: "\<forall>t<length (backgroundLoaders a). backgroundLoaders a ! t = LoopTest"
    and a3: "\<And>i. i < length files \<Longrightarrow>
            if i < min INITIAL_LOAD_COUNT (length files)
            then decoded_image env files i (slots a ! i)
            else untouched_image files i (slots a ! i)"
    unfolding a by blast+
  from initializeStereoPairs_eager [OF Viewer_ctor_loaders(2) init_def, of r]
  have b1: "nextImageToLoad b = min INITIAL_LOAD_COUNT (length names)"
    and b2: "\<forall>t<length (backgroundLoaders b). backgroundLoaders b ! t = LoopTest"
    and b3: "\<And>i. i < length names \<Longrightarrow>
            if i < min INITIAL_LOAD_COUNT (length names)
            then decoded_pair env init i (slots b ! i)
            else untouched_pair init i (slots b ! i)"
    unfolding b by blast+
  have a4: "(\<forall>i<length files.
         if i < min INITIAL_LOAD_COUNT (length files)
         then surface (slots a ! i) = IMG_Load env (files ! i) \<and>
              surfaceLoaded (slots a ! i) = (IMG_Load env (files ! i) \<noteq> None) \<and>
              (IMG_Load env (files ! i) = None \<longrightarrow>
                 slots a ! i = ImageData_ctor\<lparr>filename := files ! i\<rparr>)
         else slots a ! i = ImageData_ctor\<lparr>filename := files ! i\<rparr>)"
  proof (intro allI impI)
    fix i assume i: "i < length files"
    show "if i < min INITIAL_LOAD_COUNT (length files)
         then surface (slots a ! i) = IMG_Load env (files ! i) \<and>
              surfaceLoaded (slots a ! i) = (IMG_Load env (files ! i) \<noteq> None) \<and>
              (IMG_Load env (files ! i) = None \<longrightarrow>
                 slots a ! i = ImageData_ctor\<lparr>filename := files ! i\<rparr>)
         else slots a ! i = ImageData_ctor\<lparr>filename := files ! i\<rparr>"
    proof (cases "i < min INITIAL_LOAD_COUNT (length files)")
      case True
      with a3 [OF i] have d: "decoded_image env files i (slots a ! i)" by (auto split: if_splits)
      show ?thesis unfolding if_P [OF True] by (rule decoded_image_all [OF d])
    next
      case False
      with a3 [OF i] have "untouched_image files i (slots a ! i)" by (auto split: if_splits)
      then have e: "slots a ! i = ImageData_ctor\<lparr>filename := files ! i\<rparr>"
        by (simp add: untouched_image_eq)
      show ?thesis unfolding if_not_P [OF False] by (rule e)
    qed
  qed
  have a5: "(length files = 25 \<and> (\<forall>i<10. IMG_Load env (files ! i) \<noteq> None) \<longrightarrow>
         (\<forall>i<10. surfaceLoaded (slots a ! i)))"
  proof (intro impI allI)
    fix i :: nat
    assume h: "length files = 25 \<and> (\<forall>i<10. IMG_Load env (files ! i) \<noteq> None)" and i: "i < 10"
    then have il: "i < length files" and im: "i < min INITIAL_LOAD_COUNT (length files)"
      by (simp_all add: INITIAL_LOAD_COUNT_def)
    from a3 [OF il] im have "decoded_image env files i (slots a ! i)" by (auto split: if_splits)
    from decoded_image_facts(1) [OF this] h i show "surfaceLoaded (slots a ! i)" by simp
  qed
  have a6: "(length files = 25 \<and>
        quiescent (exec (loadSurfaceInBackground env) (ensureTextureCreated env) sched a) \<longrightarrow>
         (\<forall>i<25.
            surface (slots (exec (loadSurfaceInBackground env) (ensureTextureCreated env) sched a) ! i) = IMG_Load env (files ! i) \<and>
            surfaceLoaded (slots (exec (loadSurfaceInBackground env) (ensureTextureCreated env) sched a) ! i) = (IMG_Load env (files ! i) \<noteq> None) \<and>
            (IMG_Load env (files ! i) = None \<longrightarrow>
               slots (exec (loadSurfaceInBackground env) (ensureTextureCreated env) sched a) ! i = ImageData_ctor\<lparr>filename := files ! i\<rparr>)))"
  proof (intro impI allI)
    fix i :: nat
    assume h: "length files = 25 \<and>
        quiescent (exec (loadSurfaceInBackground env) (ensureTextureCreated env) sched a)"
      and i: "i < 25"
    then have il: "i < length files" by simp
    from h have q: "quiescent (exec (loadSurfaceInBackground env) (ensureTextureCreated env) sched
        (initializeImages env files (FisheyeViewer_ctor r)))" unfolding a by simp
    have "decoded_image env files i
            (slots (exec (loadSurfaceInBackground env) (ensureTextureCreated env) sched a) ! i)"
      unfolding a by (rule image_pool_coverage [OF Viewer_ctor_loaders(1) q il])
    then show "surface (slots (exec (loadSurfaceInBackground env) (ensureTextureCreated env) sched a) ! i) = IMG_Load env (files ! i) \<and>
            surfaceLoaded (slots (exec (loadSurfaceInBackground env) (ensureTextureCreated env) sched a) ! i) = (IMG_Load env (files ! i) \<noteq> None) \<and>
            (IMG_Load env (files ! i) = None \<longrightarrow>
               slots (exec (loadSurfaceInBackground env) (ensureTextureCreated env) sched a) ! i = ImageData_ctor\<lparr>filename := files ! i\<rparr>)"
      by (rule decoded_image_all)
  qed
  have b4: "(\<forall>i<length names.
         if i < min INITIAL_LOAD_COUNT (length names)
         then leftSurface (slots b ! i)
                = IMG_Load env (leftFilename (newStereoPair (fs_exists env) L R (names ! i))) \<and>
              leftSurfaceLoaded (slots b ! i)
                = (IMG_Load env (leftFilename (newStereoPair (fs_exists env) L R (names ! i))) \<noteq> None) \<and>
              rightSurface (slots b ! i)
                = IMG_Load env (rightFilename (newStereoPair (fs_exists env) L R (names ! i))) \<and>
              rightSurfaceLoaded (slots b ! i)
                = (IMG_Load env (rightFilename (newStereoPair (fs_exists env) L R (names ! i))) \<noteq> None) \<and>
              (IMG_Load env (leftFilename (newStereoPair (fs_exists env) L R (names ! i))) = None \<longrightarrow>
                 leftTexture (slots b ! i) = None \<and> \<not> leftTextureCreated (slots b ! i)) \<and>
              (IMG_Load env (rightFilename (newStereoPair (fs_exists env) L R (names ! i))) = None \<longrightarrow>
                 rightTexture (slots b ! i) = None \<and> \<not> rightTextureCreated (slots b ! i)) \<and>
              (IMG_Load env (leftFilename (newStereoPair (fs_exists env) L R (names ! i))) = None \<and>
               IMG_Load env (rightFilename (newStereoPair (fs_exists env) L R (names ! i))) = None \<longrightarrow>
                 slots b ! i = newStereoPair (fs_exists env) L R (names ! i))
         else slots b ! i = newStereoPair (fs_exists env) L R (names ! i))"
  proof (intro allI impI)
    fix i assume i: "i < length names"
    show "if i < min INITIAL_LOAD_COUNT (length names)
         then leftSurface (slots b ! i)
                = IMG_Load env (leftFilename (newStereoPair (fs_exists env) L R (names ! i))) \<and>
              leftSurfaceLoaded (slots b ! i)
                = (IMG_Load env (leftFilename (newStereoPair (fs_exists env) L R (names ! i))) \<noteq> None) \<and>
              rightSurface (slots b ! i)
                = IMG_Load env (rightFilename (newStereoPair (fs_exists env) L R (names ! i))) \<and>
              rightSurfaceLoaded (slots b ! i)
                = (IMG_Load env (rightFilename (newStereoPair (fs_exists env) L R (names ! i))) \<noteq> None) \<and>
              (IMG_Load env (leftFilename (newStereoPair (fs_exists env) L R (names ! i))) = None \<longrightarrow>
                 leftTexture (slots b ! i) = None \<and> \<not> leftTextureCreated (slots b ! i)) \<and>
              (IMG_Load env (rightFilename (newStereoPair (fs_exists env) L R (names ! i))) = None \<longrightarrow>
                 rightTexture (slots b ! i) = None \<and> \<not> rightTextureCreated (slots b ! i)) \<and>
              (IMG_Load env (leftFilename (newStereoPair (fs_exists env) L R (names ! i))) = None \<and>
               IMG_Load env (rightFilename (newStereoPair (fs_exists env) L R (names ! i))) = None \<longrightarrow>
                 slots b ! i = newStereoPair (fs_exists env) L R (names ! i))
         else slots b ! i = newStereoPair (fs_exists env) L R (names ! i)"
    proof (cases "i < min INITIAL_LOAD_COUNT (length names)")
      case True
      with b3 [OF i] have d: "decoded_pair env init i (slots b ! i)" by (auto split: if_splits)
      show ?thesis unfolding if_P [OF True] by (rule decoded_pair_all [OF d n [OF i]])
    next
      case False
      with b3 [OF i] have "untouched_pair init i (slots b ! i)" by (auto split: if_splits)
      then have e: "slots b ! i = newStereoPair (fs_exists env) L R (names ! i)"
        by (simp add: untouched_pair_eq [OF n [OF i]])
      show ?thesis unfolding if_not_P [OF False] by (rule e)
    qed
  qed
  have b5: "(length names = 25 \<and>
        (\<forall>i<10. IMG_Load env (leftFilename (newStereoPair (fs_exists env) L R (names ! i))) \<noteq> None \<and>
                IMG_Load env (rightFilename (newStereoPair (fs_exists env) L R (names ! i))) \<noteq> None) \<longrightarrow>
         (\<forall>i<10. leftSurfaceLoaded (slots b ! i) \<and> rightSurfaceLoaded (slots b ! i)))"
  proof (intro impI allI)
    fix i :: nat
    assume h: "length names = 25 \<and>
        (\<forall>i<10. IMG_Load env (leftFilename (newStereoPair (fs_exists env) L R (names ! i))) \<noteq> None \<and>
                IMG_Load env (rightFilename (newStereoPair (fs_exists env) L R (names ! i))) \<noteq> None)"
      and i: "i < 10"
    then have il: "i < length names" and im: "i < min INITIAL_LOAD_COUNT (length names)"
      by (simp_all add: INITIAL_LOAD_COUNT_def)
    from b3 [OF il] im have d: "decoded_pair env init i (slots b ! i)" by (auto split: if_splits)
    from decoded_pair_facts(1) [OF d n [OF il]] decoded_pair_facts(3) [OF d n [OF il]] h i
    show "leftSurfaceLoaded (slots b ! i) \<and> rightSurfaceLoaded (slots b ! i)" by simp
  qed
  have b6: "(length names = 25 \<and>
        quiescent (exec (loadStereoPairInBackground env) (ensureStereoTexturesCreated env) sched' b) \<longrightarrow>
         (\<forall>i<25.
            leftSurface (slots (exec (loadStereoPairInBackground env) (ensureStereoTexturesCreated env) sched' b) ! i)
              = IMG_Load env (leftFilename (newStereoPair (fs_exists env) L R (names ! i))) \<and>
            leftSurfaceLoaded (slots (exec (loadStereoPairInBackground env) (ensureStereoTexturesCreated env) sched' b) ! i)
              = (IMG_Load env (leftFilename (newStereoPair (fs_exists env) L R (names ! i))) \<noteq> None) \<and>
            rightSurface (slots (exec (loadStereoPairInBackground env) (ensureStereoTexturesCreated env) sched' b) ! i)
              = IMG_Load env (rightFilename (newStereoPair (fs_exists env) L R (names ! i))) \<and>
            rightSurfaceLoaded (slots (exec (loadStereoPairInBackground env) (ensureStereoTexturesCreated env) sched' b) ! i)
              = (IMG_Load env (rightFilename (newStereoPair (fs_exists env) L R (names ! i))) \<noteq> None) \<and>
            (IMG_Load env (leftFilename (newStereoPair (fs_exists env) L R (names ! i))) = None \<longrightarrow>
               leftTexture (slots (exec (loadStereoPairInBackground env) (ensureStereoTexturesCreated env) sched' b) ! i) = None \<and> \<not> leftTextureCreated (slots (exec (loadStereoPairInBackground env) (ensureStereoTexturesCreated env) sched' b) ! i)) \<and>
            (IMG_Load env (rightFilename (newStereoPair (fs_exists env) L R (names ! i))) = None \<longrightarrow>
               rightTexture (slots (exec (loadStereoPairInBackground env) (ensureStereoTexturesCreated env) sched' b) ! i) = None \<and> \<not> rightTextureCreated (slots (exec (loadStereoPairInBackground env) (ensureStereoTexturesCreated env) sched' b) ! i)) \<and>
            (IMG_Load env (leftFilename (newStereoPair (fs_exists env) L R (names ! i))) = None \<and>
             IMG_Load env (rightFilename (newStereoPair (fs_exists env) L R (names ! i))) = None \<longrightarrow>
               slots (exec (loadStereoPairInBackground env) (ensureStereoTexturesCreated env) sched' b) ! i = newStereoPair (fs_exists env) L R (names ! i))))"
  proof (intro impI allI)
    fix i :: nat
    assume h: "length names = 25 \<and>
        quiescent (exec (loadStereoPairInBackground env) (ensureStereoTexturesCreated env) sched' b)"
      and i: "i < 25"
    then have il: "i < length names" by simp
    from h have q: "quiescent (exec (loadStereoPairInBackground env) (ensureStereoTexturesCreated env) sched'
        (initializeStereoPairs env L R names (StereoFisheyeViewer_ctor r)))" unfolding b by simp
    have "decoded_pair env init i
            (slots (exec (loadStereoPairInBackground env) (ensureStereoTexturesCreated env) sched' b) ! i)"
      unfolding b by (rule pair_pool_coverage [OF Viewer_ctor_loaders(2) init_def q il])
    then show "leftSurface (slots (exec (loadStereoPairInBackground env) (ensureStereoTexturesCreated env) sched' b) ! i)
              = IMG_Load env (leftFilename (newStereoPair (fs_exists env) L R (names ! i))) \<and>
            leftSurfaceLoaded (slots (exec (loadStereoPairInBackground env) (ensureStereoTexturesCreated env) sched' b) ! i)
              = (IMG_Load env (leftFilename (newStereoPair (fs_exists env) L R (names ! i))) \<noteq> None) \<and>
            rightSurface (slots (exec (loadStereoPairInBackground env) (ensureStereoTexturesCreated env) sched' b) ! i)
              = IMG_Load env (rightFilename (newStereoPair (fs_exists env) L R (names ! i))) \<and>
            rightSurfaceLoaded (slots (exec (loadStereoPairInBackground env) (ensureStereoTexturesCreated env) sched' b) ! i)
              = (IMG_Load env (rightFilename (newStereoPair (fs_exists env) L R (names ! i))) \<noteq> None) \<and>
            (IMG_Load env (leftFilename (newStereoPair (fs_exists env) L R (names ! i))) = None \<longrightarrow>
               leftTexture (slots (exec (loadStereoPairInBackground env) (ensureStereoTexturesCreated env) sched' b) ! i) = None \<and> \<not> leftTextureCreated (slots (exec (loadStereoPairInBackground env) (ensureStereoTexturesCreated env) sched' b) ! i)) \<and>
            (IMG_Load env (rightFilename (newStereoPair (fs_exists env) L R (names ! i))) = None \<longrightarrow>
               rightTexture (slots (exec (loadStereoPairInBackground env) (ensureStereoTexturesCreated env) sched' b) ! i) = None \<and> \<not> rightTextureCreated (slots (exec (loadStereoPairInBackground env) (ensureStereoTexturesCreated env) sched' b) ! i)) \<and>
            (IMG_Load env (leftFilename (newStereoPair (fs_exists env) L R (names ! i))) = None \<and>
             IMG_Load env (rightFilename (newStereoPair (fs_exists env) L R (names ! i))) = None \<longrightarrow>
               slots (exec (loadStereoPairInBackground env) (ensureStereoTexturesCreated env) sched' b) ! i = newStereoPair (fs_exists env) L R (names ! i))"
      by (rule decoded_pair_all [OF _ n [OF il]])
  qed
  have k: "INITIAL_LOAD_COUNT = 10" by (simp add: INITIAL_LOAD_COUNT_def)
  from k a1 a2 a4 a5 a6 b1 b2 b4 b5 b6 show ?thesis
    by (intro conjI)
qed

lemma twenty_five_eager_loads: "\<forall>i<10. IMG_Load demo_env (twenty_five_files ! i) \<noteq> None"
  using twenty_five_loads(1) twenty_five_length by (simp add: list_all_length)

lemma twenty_five_pairs_length: "length twenty_five_names = 25"
  by (simp add: twenty_five_names_def)

lemma twenty_five_pairs_quiescent:
  "quiescent (demo_stereo_exec (replicate 45 (Thread 0)) twenty_five_pairs_viewer)"
  by code_simp

lemma twenty_five_pairs_loads:
  "list_all (\<lambda>n. IMG_Load demo_env (leftFilename (newStereoPair (fs_exists demo_env) ''L'' ''R'' n)) \<noteq> None \<and>
                 IMG_Load demo_env (rightFilename (newStereoPair (fs_exists demo_env) ''L'' ''R'' n)) \<noteq> None)
     (take 10 twenty_five_names)"
  "IMG_Load demo_env (leftFilename (newStereoPair (fs_exists demo_env) ''L'' ''R'' (twenty_five_names ! 10))) = None"
  "IMG_Load demo_env (rightFilename (newStereoPair (fs_exists demo_env) ''L'' ''R'' (twenty_five_names ! 10))) = None"
  "IMG_Load demo_env (leftFilename (newStereoPair (fs_exists demo_env) ''L'' ''R'' (twenty_five_names ! 24))) = Some 8"
  "IMG_Load demo_env (leftFilename (newStereoPair (fs_exists demo_env) ''L'' ''R'' (twenty_five_names ! 9))) = Some 8"
  by code_simp+

lemma twenty_five_pairs_eager_loads:
  "\<forall>i<10. IMG_Load demo_env (leftFilename (newStereoPair (fs_exists demo_env) ''L'' ''R'' (twenty_five_names ! i))) \<noteq> None \<and>
          IMG_Load demo_env (rightFilename (newStereoPair (fs_exists demo_env) ''L'' ''R'' (twenty_five_names ! i))) \<noteq> None"
  using twenty_five_pairs_loads(1) twenty_five_pairs_length by (simp add: list_all_length)

lemma twenty_five_names_nth: "twenty_five_names ! 11 = ''11''" "twenty_five_names ! 10 = ''bad''"
  "twenty_five_files ! 24 = ''24.png''" "twenty_five_files ! 10 = ''bad.png''"
  "length [''a.png'', ''bad.png'', ''c.png''] = 3"
  by (simp_all add: twenty_five_names_def twenty_five_files_def)

text \<open>
  An instance: twenty-five files and twenty-five pairs, the one at index 10 failing. The
  counter starts at 10, index 9 is loaded at start, index 24 (index 11 of the pairs) is
  as constructed at start and loaded once thread 0 has run the pool to quiescence, and
  index 10 is then as constructed. With three files the counter starts at 3.
\<close>

theorem eager_window_witness:
  "nextImageToLoad twenty_five_viewer = 10
   \<and> surfaceLoaded (slots twenty_five_viewer ! 9)
   \<and> slots twenty_five_viewer ! 24 = ImageData_ctor\<lparr>filename := ''24.png''\<rparr>
   \<and> surfaceLoaded (slots (demo_exec (replicate 45 (Thread 0)) twenty_five_viewer) ! 24)
   \<and> slots (demo_exec (replicate 45 (Thread 0)) twenty_five_viewer) ! 10
        = ImageData_ctor\<lparr>filename := ''bad.png''\<rparr>
   \<and> nextImageToLoad twenty_five_pairs_viewer = 10
   \<and> leftSurfaceLoaded (slots twenty_five_pairs_viewer ! 9)
   \<and> rightSurfaceLoaded (slots twenty_five_pairs_viewer ! 9)
   \<and> slots twenty_five_pairs_viewer ! 11 = newStereoPair (fs_exists demo_env) ''L'' ''R'' ''11''
   \<and> leftSurface (slots (demo_stereo_exec (replicate 45 (Thread 0)) twenty_five_pairs_viewer) ! 24) = Some 8
   \<and> slots (demo_stereo_exec (replicate 45 (Thread 0)) twenty_five_pairs_viewer) ! 10
        = newStereoPair (fs_exists demo_env) ''L'' ''R'' ''bad''
   \<and> nextImageToLoad demo_viewer = 3"
proof -
  note t = eager_window [OF twenty_five_viewer_def twenty_five_pairs_viewer_def,
      of "replicate 45 (Thread 0)" "replicate 45 (Thread 0)"]
  note u = eager_window [OF demo_viewer_def twenty_five_pairs_viewer_def, of "[]" "[]"]
  have k: "INITIAL_LOAD_COUNT = 10" using t by (elim conjE)
  from t have n: "nextImageToLoad twenty_five_viewer = min INITIAL_LOAD_COUNT (length twenty_five_files)"
    by (elim conjE)
  from t have e0: "length twenty_five_files = 25 \<and> (\<forall>i<10. IMG_Load demo_env (twenty_five_files ! i) \<noteq> None) \<longrightarrow>
         (\<forall>i<10. surfaceLoaded (slots twenty_five_viewer ! i))"
    by (elim conjE)
  with twenty_five_length twenty_five_eager_loads
  have e: "\<forall>i<10. surfaceLoaded (slots twenty_five_viewer ! i)" by blast
  from t have r: "(\<forall>i<length twenty_five_files.
         if i < min INITIAL_LOAD_COUNT (length twenty_five_files)
         then surface (slots twenty_five_viewer ! i) = IMG_Load demo_env (twenty_five_files ! i) \<and>
              surfaceLoaded (slots twenty_five_viewer ! i) = (IMG_Load demo_env (twenty_five_files ! i) \<noteq> None) \<and>
              (IMG_Load demo_env (twenty_five_files ! i) = None \<longrightarrow>
                 slots twenty_five_viewer ! i = ImageData_ctor\<lparr>filename := twenty_five_files ! i\<rparr>)
         else slots twenty_five_viewer ! i = ImageData_ctor\<lparr>filename := twenty_five_files ! i\<rparr>)"
    by (elim conjE)
  from t have q0: "length twenty_five_files = 25 \<and>
        quiescent (demo_exec (replicate 45 (Thread 0)) twenty_five_viewer) \<longrightarrow>
         (\<forall>i<25.
            surface (slots (demo_exec (replicate 45 (Thread 0)) twenty_five_viewer) ! i) = IMG_Load demo_env (twenty_five_files ! i) \<and>
            surfaceLoaded (slots (demo_exec (replicate 45 (Thread 0)) twenty_five_viewer) ! i) = (IMG_Load demo_env (twenty_five_files ! i) \<noteq> None) \<and>
            (IMG_Load demo_env (twenty_five_files ! i) = None \<longrightarrow>
               slots (demo_exec (replicate 45 (Thread 0)) twenty_five_viewer) ! i = ImageData_ctor\<lparr>filename := twenty_five_files ! i\<rparr>))"
    unfolding demo_exec_def by (elim conjE)
  with twenty_five_length twenty_five_quiescent
  have q: "(\<forall>i<25.
            surface (slots (demo_exec (replicate 45 (Thread 0)) twenty_five_viewer) ! i) = IMG_Load demo_env (twenty_five_files ! i) \<and>
            surfaceLoaded (slots (demo_exec (replicate 45 (Thread 0)) twenty_five_viewer) ! i) = (IMG_Load demo_env (twenty_five_files ! i) \<noteq> None) \<and>
            (IMG_Load demo_env (twenty_five_files ! i) = None \<longrightarrow>
               slots (demo_exec (replicate 45 (Thread 0)) twenty_five_viewer) ! i = ImageData_ctor\<lparr>filename := twenty_five_files ! i\<rparr>))"
    by blast
  from t have m: "nextImageToLoad twenty_five_pairs_viewer = min INITIAL_LOAD_COUNT (length twenty_five_names)"
    by (elim conjE)
  from t have p: "(\<forall>i<length twenty_five_names.
         if i < min INITIAL_LOAD_COUNT (length twenty_five_names)
         then leftSurface (slots twenty_five_pairs_viewer ! i)
                = IMG_Load demo_env (leftFilename (newStereoPair (fs_exists demo_env) ''L'' ''R'' (twenty_five_names ! i))) \<and>
              leftSurfaceLoaded (slots twenty_five_pairs_viewer ! i)
                = (IMG_Load demo_env (leftFilename (newStereoPair (fs_exists demo_env) ''L'' ''R'' (twenty_five_names ! i))) \<noteq> None) \<and>
              rightSurface (slots twenty_five_pairs_viewer ! i)
                = IMG_Load demo_env (rightFilename (newStereoPair (fs_exists demo_env) ''L'' ''R'' (twenty_five_names ! i))) \<and>
              rightSurfaceLoaded (slots twenty_five_pairs_viewer ! i)
                = (IMG_Load demo_env (rightFilename (newStereoPair (fs_exists demo_env) ''L'' ''R'' (twenty_five_names ! i))) \<noteq> None) \<and>
              (IMG_Load demo_env (leftFilename (newStereoPair (fs_exists demo_env) ''L'' ''R'' (twenty_five_names ! i))) = None \<longrightarrow>
                 leftTexture (slots twenty_five_pairs_viewer ! i) = None \<and> \<not> leftTextureCreated (slots twenty_five_pairs_viewer ! i)) \<and>
              (IMG_Load demo_env (rightFilename (newStereoPair (fs_exists demo_env) ''L'' ''R'' (twenty_five_names ! i))) = None \<longrightarrow>
                 rightTexture (slots twenty_five_pairs_viewer ! i) = None \<and> \<not> rightTextureCreated (slots twenty_five_pairs_viewer ! i)) \<and>
              (IMG_Load demo_env (leftFilename (newStereoPair (fs_exists demo_env) ''L'' ''R'' (twenty_five_names ! i))) = None \<and>
               IMG_Load demo_env (rightFilename (newStereoPair (fs_exists demo_env) ''L'' ''R'' (twenty_five_names ! i))) = None \<longrightarrow>
                 slots twenty_five_pairs_viewer ! i = newStereoPair (fs_exists demo_env) ''L'' ''R'' (twenty_five_names ! i))
         else slots twenty_five_pairs_viewer ! i = newStereoPair (fs_exists demo_env) ''L'' ''R'' (twenty_five_names ! i))"
    by (elim conjE)
  from t have f0: "length twenty_five_names = 25 \<and>
        (\<forall>i<10. IMG_Load demo_env (leftFilename (newStereoPair (fs_exists demo_env) ''L'' ''R'' (twenty_five_names ! i))) \<noteq> None \<and>
                IMG_Load demo_env (rightFilename (newStereoPair (fs_exists demo_env) ''L'' ''R'' (twenty_five_names ! i))) \<noteq> None) \<longrightarrow>
         (\<forall>i<10. leftSurfaceLoaded (slots twenty_five_pairs_viewer ! i) \<and>
                 rightSurfaceLoaded (slots twenty_five_pairs_viewer ! i))"
    by (elim conjE)
  with twenty_five_pairs_length twenty_five_pairs_eager_loads
  have f: "\<forall>i<10. leftSurfaceLoaded (slots twenty_five_pairs_viewer ! i) \<and>
                 rightSurfaceLoaded (slots twenty_five_pairs_viewer ! i)"
    by blast
  from t have g0: "length twenty_five_names = 25 \<and>
        quiescent (demo_stereo_exec (replicate 45 (Thread 0)) twenty_five_pairs_viewer) \<longrightarrow>
         (\<forall>i<25.
            leftSurface (slots (demo_stereo_exec (replicate 45 (Thread 0)) twenty_five_pairs_viewer) ! i)
              = IMG_Load demo_env (leftFilename (newStereoPair (fs_exists demo_env) ''L'' ''R'' (twenty_five_names ! i))) \<and>
            leftSurfaceLoaded (slots (demo_stereo_exec (replicate 45 (Thread 0)) twenty_five_pairs_viewer) ! i)
              = (IMG_Load demo_env (leftFilename (newStereoPair (fs_exists demo_env) ''L'' ''R'' (twenty_five_names ! i))) \<noteq> None) \<and>
            rightSurface (slots (demo_stereo_exec (replicate 45 (Thread 0)) twenty_five_pairs_viewer) ! i)
              = IMG_Load demo_env (rightFilename (newStereoPair (fs_exists demo_env) ''L'' ''R'' (twenty_five_names ! i))) \<and>
            rightSurfaceLoaded (slots (demo_stereo_exec (replicate 45 (Thread 0)) twenty_five_pairs_viewer) ! i)
              = (IMG_Load demo_env (rightFilename (newStereoPair (fs_exists demo_env) ''L'' ''R'' (twenty_five_names ! i))) \<noteq> None) \<and>
            (IMG_Load demo_env (leftFilename (newStereoPair (fs_exists demo_env) ''L'' ''R'' (twenty_five_names ! i))) = None \<longrightarrow>
               leftTexture (slots (demo_stereo_exec (replicate 45 (Thread 0)) twenty_five_pairs_viewer) ! i) = None \<and> \<not> leftTextureCreated (slots (demo_stereo_exec (replicate 45 (Thread 0)) twenty_five_pairs_viewer) ! i)) \<and>
            (IMG_Load demo_env (rightFilename (newStereoPair (fs_exists demo_env) ''L'' ''R'' (twenty_five_names ! i))) = None \<longrightarrow>
               rightTexture (slots (demo_stereo_exec (replicate 45 (Thread 0)) twenty_five_pairs_viewer) ! i) = None \<and> \<not> rightTextureCreated (slots (demo_stereo_exec (replicate 45 (Thread 0)) twenty_five_pairs_viewer) ! i)) \<and>
            (IMG_Load demo_env (leftFilename (newStereoPair (fs_exists demo_env) ''L'' ''R'' (twenty_five_names ! i))) = None \<and>
             IMG_Load demo_env (rightFilename (newStereoPair (fs_exists demo_env) ''L'' ''R'' (twenty_five_names ! i))) = None \<longrightarrow>
               slots (demo_stereo_exec (replicate 45 (Thread 0)) twenty_five_pairs_viewer) ! i = newStereoPair (fs_exists demo_env) ''L'' ''R'' (twenty_five_names ! i)))"
    unfolding demo_stereo_exec_def by (elim conjE)
  with twenty_five_pairs_length twenty_five_pairs_quiescent
  have g: "(\<forall>i<25.
            leftSurface (slots (demo_stereo_exec (replicate 45 (Thread 0)) twenty_five_pairs_viewer) ! i)
              = IMG_Load demo_env (leftFilename (newStereoPair (fs_exists demo_env) ''L'' ''R'' (twenty_five_names ! i))) \<and>
            leftSurfaceLoaded (slots (demo_stereo_exec (replicate 45 (Thread 0)) twenty_five_pairs_viewer) ! i)
              = (IMG_Load demo_env (leftFilename (newStereoPair (fs_exists demo_env) ''L'' ''R'' (twenty_five_names ! i))) \<noteq> None) \<and>
            rightSurface (slots (demo_stereo_exec (replicate 45 (Thread 0)) twenty_five_pairs_viewer) ! i)
              = IMG_Load demo_env (rightFilename (newStereoPair (fs_exists demo_env) ''L'' ''R'' (twenty_five_names ! i))) \<and>
            rightSurfaceLoaded (slots (demo_stereo_exec (replicate 45 (Thread 0)) twenty_five_pairs_viewer) ! i)
              = (IMG_Load demo_env (rightFilename (newStereoPair (fs_exists demo_env) ''L'' ''R'' (twenty_five_names ! i))) \<noteq> None) \<and>
            (IMG_Load demo_env (leftFilename (newStereoPair (fs_exists demo_env) ''L'' ''R'' (twenty_five_names ! i))) = None \<longrightarrow>
               leftTexture (slots (demo_stereo_exec (replicate 45 (Thread 0)) twenty_five_pairs_viewer) ! i) = None \<and> \<not> leftTextureCreated (slots (demo_stereo_exec (replicate 45 (Thread 0)) twenty_five_pairs_viewer) ! i)) \<and>
            (IMG_Load demo_env (rightFilename (newStereoPair (fs_exists demo_env) ''L'' ''R'' (twenty_five_names ! i))) = None \<longrightarrow>
               rightTexture (slots (demo_stereo_exec (replicate 45 (Thread 0)) twenty_five_pairs_viewer) ! i) = None \<and> \<not> rightTextureCreated (slots (demo_stereo_exec (replicate 45 (Thread 0)) twenty_five_pairs_viewer) ! i)) \<and>
            (IMG_Load demo_env (leftFilename (newStereoPair (fs_exists demo_env) ''L'' ''R'' (twenty_five_names ! i))) = None \<and>
             IMG_Load demo_env (rightFilename (newStereoPair (fs_exists demo_env) ''L'' ''R'' (twenty_five_names ! i))) = None \<longrightarrow>
               slots (demo_stereo_exec (replicate 45 (Thread 0)) twenty_five_pairs_viewer) ! i = newStereoPair (fs_exists demo_env) ''L'' ''R'' (twenty_five_names ! i)))"
    by blast
  from u have s: "nextImageToLoad demo_viewer
      = min INITIAL_LOAD_COUNT (length [''a.png'', ''bad.png'', ''c.png''])" by (elim conjE)
  from n k twenty_five_length have c1: "nextImageToLoad twenty_five_viewer = 10" by simp
  from e have c2: "surfaceLoaded (slots twenty_five_viewer ! 9)" by simp
  from r [rule_format, of 24] k twenty_five_length twenty_five_names_nth(3)
  have c3: "slots twenty_five_viewer ! 24 = ImageData_ctor\<lparr>filename := ''24.png''\<rparr>" by simp
  from q [rule_format, of 24] twenty_five_loads(3)
  have c4: "surfaceLoaded (slots (demo_exec (replicate 45 (Thread 0)) twenty_five_viewer) ! 24)" by simp
  from q [rule_format, of 10] twenty_five_loads(2) twenty_five_names_nth(4)
  have c5: "slots (demo_exec (replicate 45 (Thread 0)) twenty_five_viewer) ! 10
        = ImageData_ctor\<lparr>filename := ''bad.png''\<rparr>" by simp
  from m k twenty_five_pairs_length have c6: "nextImageToLoad twenty_five_pairs_viewer = 10" by simp
  from f have c7: "leftSurfaceLoaded (slots twenty_five_pairs_viewer ! 9)"
    "rightSurfaceLoaded (slots twenty_five_pairs_viewer ! 9)" by simp_all
  from p [rule_format, of 11] k twenty_five_pairs_length twenty_five_names_nth(1)
  have c8: "slots twenty_five_pairs_viewer ! 11 = newStereoPair (fs_exists demo_env) ''L'' ''R'' ''11''"
    by simp
  from g [rule_format, of 24] twenty_five_pairs_loads(4)
  have c9: "leftSurface (slots (demo_stereo_exec (replicate 45 (Thread 0)) twenty_five_pairs_viewer) ! 24) = Some 8"
    by simp
  from g [rule_format, of 10] twenty_five_pairs_loads(2,3) twenty_five_names_nth(2)
  have c10: "slots (demo_stereo_exec (replicate 45 (Thread 0)) twenty_five_pairs_viewer) ! 10
        = newStereoPair (fs_exists demo_env) ''L'' ''R'' ''bad''"
    by simp
  from s k have c11: "nextImageToLoad demo_viewer = 3" by simp
  from c1 c2 c3 c4 c5 c6 c7 c8 c9 c10 c11 show ?thesis by (intro conjI)
qed

section \<open>Calibration failure\<close>

lemma undistortedSurface_passthrough:
  "\<not> calibrationLoaded c \<Longrightarrow> undistortedSurface pf c decoded isLeftCamera = decoded"
  by (simp add: undistortedSurface_def)

lemma loadStereoPairInBackground_passthrough:
  "\<not> calibrationLoaded c \<Longrightarrow>
     loadStereoPairInBackground_calibrated pf c env = loadStereoPairInBackground env"
  by (intro ext)
     (simp add: loadStereoPairInBackground_calibrated_def loadStereoPairInBackground_def
        undistortedSurface_passthrough)

lemma storeInitial_passthrough:
  assumes "\<not> calibrationLoaded c"
  shows "storeInitialLeft_calibrated pf c env = storeInitialLeft env"
    and "storeInitialRight_calibrated pf c env = storeInitialRight env"
  using assms
  by (intro ext; simp add: storeInitialLeft_calibrated_def storeInitialLeft_def
        storeInitialRight_calibrated_def storeInitialRight_def undistortedSurface_passthrough)+

lemma loadStereoPairs_passthrough:
  assumes "\<not> calibrationLoaded c"
  shows "loadStereoPairs_calibrated pf c env = loadStereoPairs env"
proof -
  have 1: "loadInitialStereoPair_calibrated pf c env = loadInitialStereoPair env"
    by (intro ext)
       (simp add: loadInitialStereoPair_calibrated_def loadInitialStereoPair_def
          storeInitial_passthrough [OF assms])
  have 2: "loadInitialStereoPairs_calibrated pf c env = loadInitialStereoPairs env"
    by (intro ext) (simp add: loadInitialStereoPairs_calibrated_def loadInitialStereoPairs_def 1)
  have 3: "initializeStereoPairs_calibrated pf c env = initializeStereoPairs env"
    by (intro ext) (simp add: initializeStereoPairs_calibrated_def initializeStereoPairs_def 2)
  show ?thesis
    by (intro ext) (simp add: loadStereoPairs_calibrated_def loadStereoPairs_def 3
        split: option.splits sum.splits)
qed

lemma loadCalibration_stereo_flag:
  "loadCalibration_stereo pf c = (cerr, c', ok) \<Longrightarrow> calibrationLoaded c' = ok"
  by (auto simp add: loadCalibration_stereo_def Let_def split: sum.splits prod.splits option.splits)

lemma loadCalibration_flag:
  "loadCalibration pf env u = (cerr, u', ok) \<Longrightarrow> calibrationLoaded u' = ok"
  by (auto simp add: loadCalibration_def Let_def split: sum.splits prod.splits option.splits)

lemma loadFisheyeParams_absent:
  "\<not> ifstream_is_open pf fname \<Longrightarrow> isl (loadFisheyeParams pf fname)"
  by (simp add: loadFisheyeParams_def)

lemma loadCalibration_stereo_absent:
  assumes "\<not> ifstream_is_open pf ''kitti360_calibration/image_02.yaml'' \<or>
           \<not> ifstream_is_open pf ''kitti360_calibration/image_03.yaml''"
  shows "\<not> snd (snd (loadCalibration_stereo pf c))"
  using assms
  by (auto simp add: loadCalibration_stereo_def loadFisheyeParams_def Let_def
      split: sum.splits prod.splits option.splits)

lemma loadCalibration_absent:
  assumes "\<not> ifstream_is_open pf ''kitti360_calibration/image_02.yaml''"
  shows "\<not> snd (snd (loadCalibration pf env u))"
  using assms
  by (auto simp add: loadCalibration_def loadFisheyeParams_def Let_def
      split: sum.splits prod.splits option.splits)

lemma pairedSequence_isl: "isl (pairedSequence choice L R) = (findMatchingPairs L R = [])"
  by (simp add: pairedSequence_def Let_def)

lemma loadStereoPairs_calibrated_isl:
  "isl (loadStereoPairs_calibrated pf c env leftDir rightDir v) = pairs_missing env leftDir rightDir"
proof (cases "directory_iterator env leftDir")
  case None
  then show ?thesis by (simp add: loadStereoPairs_calibrated_def pairs_missing_def)
next
  case l: (Some leftEntries)
  show ?thesis
  proof (cases "directory_iterator env rightDir")
    case None
    with l show ?thesis by (simp add: loadStereoPairs_calibrated_def pairs_missing_def)
  next
    case r: (Some rightEntries)
    show ?thesis
      using pairedSequence_isl [of "cin_getline env" "scanBaseNames leftEntries" "scanBaseNames rightEntries"]
      by (cases "pairedSequence (cin_getline env) (scanBaseNames leftEntries) (scanBaseNames rightEntries)")
         (simp_all add: loadStereoPairs_calibrated_def pairs_missing_def l r)
  qed
qed

lemma main_stereo_exits:
  "is_Exits (snd (main_stereo pf env prog args viewer)) = startup_rejected pf env args"
proof -
  obtain cerr c ok where l: "loadCalibration_stereo pf (StereoCalibration_ctor viewer) = (cerr, c, ok)"
    by (metis prod_cases3)
  show ?thesis
  proof (cases "length args \<noteq> 2 \<or> \<not> fs_exists env (args ! 0) \<or> \<not> is_directory pf (args ! 0) \<or>
                \<not> fs_exists env (args ! 1) \<or> \<not> is_directory pf (args ! 1) \<or> isl (initialize pf)")
    case True
    then show ?thesis
      by (auto simp add: main_stereo_def startup_rejected_def split: sum.splits)
  next
    case False
    then obtain r where r: "initialize pf = Inr r"
      by (cases "initialize pf") auto
    have m: "isl (loadStereoPairs_calibrated pf c env (args ! 0) (args ! 1) (UndistortingViewer_ctor r))
               = pairs_missing env (args ! 0) (args ! 1)"
      by (rule loadStereoPairs_calibrated_isl)
    from False have f: "length args = 2" "fs_exists env (args ! 0)" "is_directory pf (args ! 0)"
      "fs_exists env (args ! 1)" "is_directory pf (args ! 1)"
      by auto
    show ?thesis
      using m
      by (cases "loadStereoPairs_calibrated pf c env (args ! 0) (args ! 1) (UndistortingViewer_ctor r)")
         (simp_all add: main_stereo_def startup_rejected_def f r l)
  qed
qed

lemma main_stereo_continues:
  assumes "\<not> startup_rejected pf env args"
    and "loadCalibration_stereo pf (StereoCalibration_ctor viewer) = (cerr, c, ok)"
  shows "\<exists>r v. initialize pf = Inr r \<and>
           loadStereoPairs_calibrated pf c env (args ! 0) (args ! 1) (UndistortingViewer_ctor r) = Inr v \<and>
           main_stereo pf env prog args viewer = (cerr @ calibrationWarning ok, Continues (c, v))"
proof -
  from assms(1) obtain r where r: "initialize pf = Inr r"
    by (cases "initialize pf") (auto simp add: startup_rejected_def)
  from assms(1) have "\<not> pairs_missing env (args ! 0) (args ! 1)"
    by (simp add: startup_rejected_def)
  then obtain v where v:
    "loadStereoPairs_calibrated pf c env (args ! 0) (args ! 1) (UndistortingViewer_ctor r) = Inr v"
    using loadStereoPairs_calibrated_isl [of pf c env "args ! 0" "args ! 1" "UndistortingViewer_ctor r"]
    by (cases "loadStereoPairs_calibrated pf c env (args ! 0) (args ! 1) (UndistortingViewer_ctor r)") auto
  from assms(1) v have "main_stereo pf env prog args viewer = (cerr @ calibrationWarning ok, Continues (c, v))"
    by (simp add: main_stereo_def startup_rejected_def r assms(2))
  with r v show ?thesis by blast
qed

lemma main_single_undistort_fails:
  assumes "loadCalibration pf env (FisheyeUndistorter_ctor undistorter) = (cerr, u, False)"
  shows "main_single_undistort pf env tool [imagePath] undistorter =
           (cerr @ [''ERROR: Failed to load calibration data! Cannot proceed without calibration.'',
                    ''Make sure kitti360_calibration/image_02.yaml exists and is readable.''], Exits 1)"
  by (simp add: main_single_undistort_def assms)

text \<open>
  Claim C6. When the calibration files cannot be opened, \<open>loadCalibration\<close> returns false
  in the stereo viewer and in the preview tool. Whenever it returns false in the stereo
  viewer, the flag \<open>calibrationLoaded\<close> is false; \<open>main\<close> returns before its loop only
  for its arguments, the directories, SDL or the lack of pairs, never for the
  calibration; otherwise it writes the warning after the lines of the calibration code
  and enters its loop with the state that \<open>loadStereoPairs\<close> of the viewer without
  calibration builds; and every surface stored, at start and by the pool, is the decoded
  surface itself. Whenever \<open>loadCalibration\<close> returns false in the preview tool, its
  \<open>main\<close> writes two lines and returns 1.
\<close>

theorem calibration_load_failure:
  fixes pf :: "('r, 'm) Platform" and env :: "'r Env"
  shows "(\<not> ifstream_is_open pf ''kitti360_calibration/image_02.yaml'' \<or>
          \<not> ifstream_is_open pf ''kitti360_calibration/image_03.yaml'' \<longrightarrow>
            \<not> snd (snd (loadCalibration_stereo pf (StereoCalibration_ctor viewer))))
       \<and> (\<not> ifstream_is_open pf ''kitti360_calibration/image_02.yaml'' \<longrightarrow>
            \<not> snd (snd (loadCalibration pf env (FisheyeUndistorter_ctor undistorter))))
       \<and> (\<forall>cerr c. loadCalibration_stereo pf (StereoCalibration_ctor viewer) = (cerr, c, False) \<longrightarrow>
            \<not> calibrationLoaded c
          \<and> is_Exits (snd (main_stereo pf env prog args viewer)) = startup_rejected pf env args
          \<and> (\<not> startup_rejected pf env args \<longrightarrow>
               (\<exists>r v. initialize pf = Inr r
                  \<and> loadStereoPairs env (args ! 0) (args ! 1) (UndistortingViewer_ctor r) = Inr v
                  \<and> main_stereo pf env prog args viewer =
                      (cerr @ [''Warning: Failed to load calibration data. Images will be displayed without undistortion.''],
                       Continues (c, v))))
          \<and> (\<forall>decoded isLeftCamera. undistortedSurface pf c decoded isLeftCamera = decoded)
          \<and> loadStereoPairInBackground_calibrated pf c env = loadStereoPairInBackground env)
       \<and> (\<forall>cerr u. loadCalibration pf env (FisheyeUndistorter_ctor undistorter) = (cerr, u, False) \<longrightarrow>
            main_single_undistort pf env tool [imagePath] undistorter =
              (cerr @ [''ERROR: Failed to load calibration data! Cannot proceed without calibration.'',
                       ''Make sure kitti360_calibration/image_02.yaml exists and is readable.''], Exits 1))"
proof (intro conjI allI impI)
  assume "\<not> ifstream_is_open pf ''kitti360_calibration/image_02.yaml'' \<or>
          \<not> ifstream_is_open pf ''kitti360_calibration/image_03.yaml''"
  then show "\<not> snd (snd (loadCalibration_stereo pf (StereoCalibration_ctor viewer)))"
    by (rule loadCalibration_stereo_absent)
next
  assume "\<not> ifstream_is_open pf ''kitti360_calibration/image_02.yaml''"
  then show "\<not> snd (snd (loadCalibration pf env (FisheyeUndistorter_ctor undistorter)))"
    by (rule loadCalibration_absent)
next
  fix cerr c
  assume l: "loadCalibration_stereo pf (StereoCalibration_ctor viewer) = (cerr, c, False)"
  from loadCalibration_stereo_flag [OF l] show n: "\<not> calibrationLoaded c" by simp
  show "is_Exits (snd (main_stereo pf env prog args viewer)) = startup_rejected pf env args"
    by (rule main_stereo_exits)
  show "loadStereoPairInBackground_calibrated pf c env = loadStereoPairInBackground env"
    by (rule loadStereoPairInBackground_passthrough [OF n])
  { fix decoded isLeftCamera
    show "undistortedSurface pf c decoded isLeftCamera = decoded"
      by (rule undistortedSurface_passthrough [OF n]) }
  { assume r: "\<not> startup_rejected pf env args"
    from main_stereo_continues [OF r l, of prog]
    show "\<exists>r v. initialize pf = Inr r
            \<and> loadStereoPairs env (args ! 0) (args ! 1) (UndistortingViewer_ctor r) = Inr v
            \<and> main_stereo pf env prog args viewer =
                (cerr @ [''Warning: Failed to load calibration data. Images will be displayed without undistortion.''],
                 Continues (c, v))"
      by (simp add: loadStereoPairs_passthrough [OF n] calibrationWarning_def) }
next
  fix cerr u
  assume "loadCalibration pf env (FisheyeUndistorter_ctor undistorter) = (cerr, u, False)"
  then show "main_single_undistort pf env tool [imagePath] undistorter =
              (cerr @ [''ERROR: Failed to load calibration data! Cannot proceed without calibration.'',
                       ''Make sure kitti360_calibration/image_02.yaml exists and is readable.''], Exits 1)"
    by (rule main_single_undistort_fails)
qed

lemma no_files_closed:
  "\<not> ifstream_is_open (demo_platform no_files) ''kitti360_calibration/image_02.yaml''"
  "initialize (demo_platform no_files) = Inr 0"
  by (simp_all add: demo_platform_def no_files_def)

lemma no_files_stereo:
  "loadCalibration_stereo (demo_platform no_files) (StereoCalibration_ctor blank_calibration)
     = ([cross @ '' CRITICAL ERROR: Failed to load dual calibration: kitti360_calibration/image_02.yaml does not exist!'',
         cross @ '' Make sure both kitti360_calibration/image_02.yaml and image_03.yaml exist''],
        blank_calibration, False)"
  by (simp add: loadCalibration_stereo_def loadFisheyeParams_def demo_platform_def no_files_def
      StereoCalibration_ctor_def blank_calibration_def)

lemma no_files_single:
  "loadCalibration (demo_platform no_files) absent_env (FisheyeUndistorter_ctor blank_undistorter)
     = ([cross @ '' CRITICAL ERROR: Failed to load calibration: kitti360_calibration/image_02.yaml does not exist!'',
         cross @ '' Current working directory: /home/user/fisheye_lab'',
         cross @ '' Expected calibration file: kitti360_calibration/image_02.yaml'',
         cross @ '' Calibration file does NOT exist!''],
        blank_undistorter, False)"
  by (simp add: loadCalibration_def loadFisheyeParams_def demo_platform_def no_files_def
      FisheyeUndistorter_ctor_def blank_undistorter_def absent_env_def demo_dirs_env_def demo_env_def)

lemma absent_env_accepted: "\<not> startup_rejected (demo_platform no_files) absent_env [''L'', ''R'']"
  by code_simp

lemma absent_env_pairs:
  "isl (loadStereoPairs absent_env ''L'' ''R'' (UndistortingViewer_ctor 0)) = False"
  "map baseName (slots (projr (loadStereoPairs absent_env ''L'' ''R'' (UndistortingViewer_ctor 0))))
     = [''b'', ''c'']"
  "map leftSurface (slots (projr (loadStereoPairs absent_env ''L'' ''R'' (UndistortingViewer_ctor 0))))
     = [IMG_Load absent_env ''L/b.png'', IMG_Load absent_env ''L/c.png'']"
  "IMG_Load absent_env ''L/b.png'' = Some 7"
  by code_simp+

text \<open>
  An instance: no calibration file can be opened. The stereo viewer writes the two lines
  of its catch block and the warning and enters its loop with the pairs \<open>b\<close> and \<open>c\<close>,
  whose surfaces are the decoded files; the preview tool returns 1.
\<close>

theorem calibration_load_failure_witness:
  "\<not> snd (snd (loadCalibration_stereo (demo_platform no_files) (StereoCalibration_ctor blank_calibration)))
   \<and> \<not> snd (snd (loadCalibration (demo_platform no_files) absent_env (FisheyeUndistorter_ctor blank_undistorter)))
   \<and> \<not> is_Exits (snd (main_stereo (demo_platform no_files) absent_env ''dual_undistort'' [''L'', ''R'']
                          blank_calibration))
   \<and> main_stereo (demo_platform no_files) absent_env ''dual_undistort'' [''L'', ''R''] blank_calibration
       = ([cross @ '' CRITICAL ERROR: Failed to load dual calibration: kitti360_calibration/image_02.yaml does not exist!'',
           cross @ '' Make sure both kitti360_calibration/image_02.yaml and image_03.yaml exist'',
           ''Warning: Failed to load calibration data. Images will be displayed without undistortion.''],
          Continues (blank_calibration, projr (loadStereoPairs absent_env ''L'' ''R'' (UndistortingViewer_ctor 0))))
   \<and> map leftSurface (slots (projr (loadStereoPairs absent_env ''L'' ''R'' (UndistortingViewer_ctor 0))))
       = [IMG_Load absent_env ''L/b.png'', IMG_Load absent_env ''L/c.png'']
   \<and> snd (main_single_undistort (demo_platform no_files) absent_env ''single_undistort'' [''img.png'']
            blank_undistorter) = Exits 1"
proof -
  note t = calibration_load_failure [where pf = "demo_platform no_files" and env = absent_env
      and viewer = blank_calibration and undistorter = blank_undistorter
      and prog = "''dual_undistort''" and tool = "''single_undistort''" and args = "[''L'', ''R'']" and imagePath = "''img.png''"]
  from t no_files_closed(1)
  have a: "\<not> snd (snd (loadCalibration_stereo (demo_platform no_files) (StereoCalibration_ctor blank_calibration)))"
    by blast
  from t no_files_closed(1)
  have b: "\<not> snd (snd (loadCalibration (demo_platform no_files) absent_env (FisheyeUndistorter_ctor blank_undistorter)))"
    by blast
  from t no_files_stereo
  have e: "is_Exits (snd (main_stereo (demo_platform no_files) absent_env ''dual_undistort'' [''L'', ''R'']
                          blank_calibration))
           = startup_rejected (demo_platform no_files) absent_env [''L'', ''R'']"
    by blast
  from t no_files_stereo absent_env_accepted
  have "\<exists>r v. initialize (demo_platform no_files) = Inr r
      \<and> loadStereoPairs absent_env ([''L'', ''R''] ! 0) ([''L'', ''R''] ! 1) (UndistortingViewer_ctor r) = Inr v
      \<and> main_stereo (demo_platform no_files) absent_env ''dual_undistort'' [''L'', ''R''] blank_calibration =
          ([cross @ '' CRITICAL ERROR: Failed to load dual calibration: kitti360_calibration/image_02.yaml does not exist!'',
            cross @ '' Make sure both kitti360_calibration/image_02.yaml and image_03.yaml exist'']
           @ [''Warning: Failed to load calibration data. Images will be displayed without undistortion.''],
           Continues (blank_calibration, v))"
    by blast
  then have m: "main_stereo (demo_platform no_files) absent_env ''dual_undistort'' [''L'', ''R''] blank_calibration
       = ([cross @ '' CRITICAL ERROR: Failed to load dual calibration: kitti360_calibration/image_02.yaml does not exist!'',
           cross @ '' Make sure both kitti360_calibration/image_02.yaml and image_03.yaml exist'',
           ''Warning: Failed to load calibration data. Images will be displayed without undistortion.''],
          Continues (blank_calibration, projr (loadStereoPairs absent_env ''L'' ''R'' (UndistortingViewer_ctor 0))))"
    using no_files_closed(2) by auto
  from t no_files_single
  have d: "main_single_undistort (demo_platform no_files) absent_env ''single_undistort'' [''img.png'']
            blank_undistorter
      = ([cross @ '' CRITICAL ERROR: Failed to load calibration: kitti360_calibration/image_02.yaml does not exist!'',
         cross @ '' Current working directory: /home/user/fisheye_lab'',
         cross @ '' Expected calibration file: kitti360_calibration/image_02.yaml'',
         cross @ '' Calibration file does NOT exist!'']
         @ [''ERROR: Failed to load calibration data! Cannot proceed without calibration.'',
            ''Make sure kitti360_calibration/image_02.yaml exists and is readable.''], Exits 1)"
    by blast
  from a b e absent_env_accepted m absent_env_pairs(3) d show ?thesis
    by simp
qed


section \<open>Construction of the remap tables\<close>





lemma main_single_undistort_exits:
  "snd (main_single_undistort pf env tool [imagePath] undistorter) =
     (if snd (snd (loadCalibration pf env (FisheyeUndistorter_ctor undistorter)))
      then Continues (fst (snd (loadCalibration pf env (FisheyeUndistorter_ctor undistorter))), imagePath)
      else Exits 1)"
  by (simp add: main_single_undistort_def split: prod.splits)















end
